theory Spec2Isabelle
  imports Main "HOL-Library.AList"
begin

section \<open>JavaScript values used by both services\<close>

text \<open>
  Strings are byte strings, and the names, serial numbers and class names they hold are
  taken to be ASCII text: \<open>toLowerCase\<close> maps the ASCII capitals to their small
  letters and leaves every other byte as it is.
\<close>

definition lower_char :: "char \<Rightarrow> char" where
  "lower_char c =
     (let n = (of_char c :: nat) in if 65 \<le> n \<and> n \<le> 90 then char_of (n + 32) else c)"

definition toLowerCase :: "string \<Rightarrow> string" where
  "toLowerCase s = map lower_char s"

text \<open>
  A scalar property of a JSON object, read by name: the object may lack it
  (\<open>undefined\<close>), hold \<open>null\<close> for it, or hold a value. \<open>!==\<close> and \<open>===\<close> compare the
  three as they are, so a missing property differs from a \<open>null\<close> one.
\<close>

datatype 'a property = Missing | Null | Val 'a

text \<open>
  \<open>x || d\<close> on such a property: a missing one, \<open>null\<close> and the empty string (the
  number zero) are falsy, so the default is taken.
\<close>

definition or_string :: "string property \<Rightarrow> string \<Rightarrow> string" where
  "or_string x d =
     (case x of Missing \<Rightarrow> d | Null \<Rightarrow> d | Val v \<Rightarrow> if v = [] then d else v)"

definition or_number :: "int property \<Rightarrow> int \<Rightarrow> int" where
  "or_number x d =
     (case x of Missing \<Rightarrow> d | Null \<Rightarrow> d | Val v \<Rightarrow> if v = 0 then d else v)"

section \<open>NinjaService: the source client\<close>

text \<open>The \<open>system\<close> sub-object of a device record, complete when it is present.\<close>

record system_info =
  sys_name :: string
  manufacturer :: string
  model :: string
  biosSerialNumber :: string
  serialNumber :: string
  domain :: string
  domainRole :: string
  numberOfProcessors :: int
  totalPhysicalMemory :: int
  virtualMachine :: bool
  chassisType :: string

text \<open>
  A raw record of the device listing. \<open>raw_system\<close> is \<open>None\<close> when the record has no
  \<open>system\<close> sub-object; the display name and the host-level properties that only
  \<open>createVMwareHostDetails\<close> reads may each be missing or \<open>null\<close>.
\<close>

record raw_device =
  raw_id :: int
  raw_systemName :: "string property"
  raw_nodeClass :: string
  raw_system :: "system_info option"
  raw_name :: "string property"
  raw_vendor :: "string property"
  raw_model :: "string property"
  raw_biosSerialNumber :: "string property"
  raw_serialNumber :: "string property"
  raw_domain :: "string property"
  raw_domainRole :: "string property"
  raw_numberOfProcessors :: "int property"
  raw_totalPhysicalMemory :: "int property"
  raw_chassisType :: "string property"

text \<open>The standardized device details object the source client hands on.\<close>

record device =
  device_id :: int
  systemName :: "string property"
  nodeClass :: string
  system :: system_info

definition createDefaultDeviceDetails :: "raw_device \<Rightarrow> device" where
  "createDefaultDeviceDetails d =
     \<lparr> device_id = raw_id d,
       systemName = raw_systemName d,
       nodeClass = raw_nodeClass d,
       system = \<lparr>
         sys_name = or_string (raw_systemName d) ''Unknown'',
         manufacturer = ''Unknown'',
         model = ''Unknown'',
         biosSerialNumber = ''Unknown'',
         serialNumber = ''Unknown'',
         domain = ''Unknown'',
         domainRole = ''Unknown'',
         numberOfProcessors = 0,
         totalPhysicalMemory = 0,
         virtualMachine = False,
         chassisType = ''Unknown'' \<rparr> \<rparr>"

definition createVMwareHostDetails :: "raw_device \<Rightarrow> device" where
  "createVMwareHostDetails d =
     \<lparr> device_id = raw_id d,
       systemName = raw_systemName d,
       nodeClass = raw_nodeClass d,
       system = \<lparr>
         sys_name = or_string (raw_name d) ''Unknown'',
         manufacturer = or_string (raw_vendor d) ''Unknown'',
         model = or_string (raw_model d) ''Unknown'',
         biosSerialNumber = or_string (raw_biosSerialNumber d) ''Unknown'',
         serialNumber = or_string (raw_serialNumber d) ''Unknown'',
         domain = or_string (raw_domain d) ''Unknown'',
         domainRole = or_string (raw_domainRole d) ''Unknown'',
         numberOfProcessors = or_number (raw_numberOfProcessors d) 0,
         totalPhysicalMemory = or_number (raw_totalPhysicalMemory d) 0,
         virtualMachine = True,
         chassisType = or_string (raw_chassisType d) ''Unknown'' \<rparr> \<rparr>"

definition createStandardDeviceDetails :: "raw_device \<Rightarrow> system_info \<Rightarrow> device" where
  "createStandardDeviceDetails d sys =
     \<lparr> device_id = raw_id d,
       systemName = raw_systemName d,
       nodeClass = raw_nodeClass d,
       system = \<lparr>
         sys_name = sys_name sys,
         manufacturer = manufacturer sys,
         model = model sys,
         biosSerialNumber = biosSerialNumber sys,
         serialNumber = serialNumber sys,
         domain = domain sys,
         domainRole = domainRole sys,
         numberOfProcessors = numberOfProcessors sys,
         totalPhysicalMemory = totalPhysicalMemory sys,
         virtualMachine = virtualMachine sys,
         chassisType = chassisType sys \<rparr> \<rparr>"

text \<open>
  The three-way choice of \<open>createDeviceDetails\<close>. The last branch is reached only with
  a \<open>system\<close> sub-object, which is handed to \<open>createStandardDeviceDetails\<close>.
\<close>

definition createDeviceDetails :: "raw_device \<Rightarrow> device" where
  "createDeviceDetails d =
     (case raw_system d of
        None \<Rightarrow>
          if raw_nodeClass d \<noteq> ''VMWARE_VM_HOST'' then createDefaultDeviceDetails d
          else createVMwareHostDetails d
      | Some sys \<Rightarrow>
          if raw_nodeClass d = ''VMWARE_VM_HOST'' then createVMwareHostDetails d
          else createStandardDeviceDetails d sys)"

definition processDevices :: "raw_device list \<Rightarrow> device list" where
  "processDevices devices =
     map createDeviceDetails
       (filter (\<lambda>d. raw_nodeClass d \<noteq> ''VMWARE_VM_GUEST'' \<and>
                     raw_nodeClass d \<noteq> ''CLOUD_MONITOR_TARGET'') devices)"

section \<open>SnipeService: values exchanged with the target system\<close>

text \<open>
  Request data are JavaScript object literals: lists of keys and values in the order the
  source writes them. \<open>JNotes t d r\<close> stands for the template string
  \<open>Last synced from Ninja RMM: <t as ISO date>\nDomain: <d>\nRole: <r>\<close>.
\<close>

datatype jv =
    JUndefined
  | JNull
  | JNumber int
  | JString string
  | JObject "(string \<times> jv) list"
  | JNotes int string string

type_synonym jobject = "(string \<times> jv) list"

text \<open>A property that is copied into request data keeps what it was.\<close>

definition id_value :: "nat property \<Rightarrow> jv" where
  "id_value i =
     (case i of Missing \<Rightarrow> JUndefined | Null \<Rightarrow> JNull | Val n \<Rightarrow> JNumber (int n))"

definition string_value :: "string property \<Rightarrow> jv" where
  "string_value x =
     (case x of Missing \<Rightarrow> JUndefined | Null \<Rightarrow> JNull | Val v \<Rightarrow> JString v)"

text \<open>
  Records the target system returns. One record type serves manufacturers, categories,
  models and assets: the source reads properties by name and each may be missing or
  \<open>null\<close>. \<open>reference\<close> is a nested \<open>{id, name}\<close> object (\<open>model.manufacturer\<close>,
  \<open>model.category\<close>, \<open>asset.model\<close>, \<open>asset.manufacturer\<close>); the source only tests a
  nested object for truthiness and reads its properties, which a missing and a \<open>null\<close>
  one answer alike (falsy, and a TypeError on reading a property), so \<open>None\<close> stands
  for both.
\<close>

record reference =
  ref_id :: "nat property"
  ref_name :: "string property"

record entity =
  e_id :: "nat property"
  e_name :: "string property"
  e_manufacturer :: "reference option"
  e_category :: "reference option"
  e_model :: "reference option"
  e_serial :: "string property"
  e_model_number :: "string property"

text \<open>
  \<open>response.data\<close>: its \<open>rows\<close>, \<open>status\<close> and \<open>payload\<close> properties when it has
  them, and \<open>b_self\<close>, the same object read as a record itself. The source reads
  \<open>rows\<close> only to iterate it and \<open>payload\<close> only in \<open>payload || data\<close>, so \<open>None\<close> stands
  for a missing and for a \<open>null\<close> one.
\<close>

record body =
  b_rows :: "entity list option"
  b_status :: "string property"
  b_payload :: "entity option"
  b_self :: entity

text \<open>\<open>response.data.payload || response.data\<close>\<close>

definition payload_or_data :: "body \<Rightarrow> entity" where
  "payload_or_data b = (case b_payload b of Some p \<Rightarrow> p | None \<Rightarrow> b_self b)"

text \<open>
  A request of the HTTP client, and what comes back: a response, or a rejection with
  \<open>error.response?.status\<close> (\<open>None\<close> when the error carries no response).
\<close>

datatype verb = GET | POST | PUT | PATCH

datatype resource = Manufacturers | Categories | Models | Hardware

datatype target =
    Collection resource
  | Item resource "nat property"
  | Search resource string

datatype request = Request (verb_of: verb) (target_of: target) (data_of: jobject)

datatype reply = Ok body | Fail "nat option"

datatype error = HttpError "nat option" | TypeError | Error string

section \<open>The world outside the service\<close>

text \<open>
  The target system is an input: \<open>script\<close> lists, for the successive requests, the time
  each takes and its reply; a request sent after the script has run out is rejected
  without a response. \<open>clock\<close> is \<open>Date.now()\<close>. \<open>events\<close> is the transcript of the
  run: every wait of the rate gate, every request with its reply (\<open>Sent\<close> for the first
  attempt, \<open>Resent\<close> for the retry of the gate), and every device failure logged at the
  per-device boundary of \<open>syncDevices\<close>.
\<close>

datatype event =
    Waited int
  | Sent request reply
  | Resent request reply
  | Logged_failure string error

record world =
  clock :: int
  script :: "(nat \<times> reply) list"
  events :: "event list"

text \<open>\<open>await new Promise(resolve => setTimeout(resolve, ms))\<close>: the clock moves on by \<open>ms\<close>.\<close>

definition sleep :: "int \<Rightarrow> world \<Rightarrow> world" where
  "sleep ms w = w\<lparr>clock := clock w + ms, events := events w @ [Waited ms]\<rparr>"

definition dispatch :: "(request \<Rightarrow> reply \<Rightarrow> event) \<Rightarrow> request \<Rightarrow> world \<Rightarrow> reply \<times> world" where
  "dispatch tag rq w =
     (case script w of
        [] \<Rightarrow> (Fail None, w\<lparr>events := events w @ [tag rq (Fail None)]\<rparr>)
      | (latency, r) # rest \<Rightarrow>
          (r, w\<lparr>clock := clock w + int latency, script := rest,
                events := events w @ [tag rq r]\<rparr>))"

section \<open>SnipeService: state and the rate-limited request gate\<close>

text \<open>The three \<open>Map\<close> caches keep insertion order; \<open>AList.update\<close> is \<open>Map.set\<close>.\<close>

type_synonym cache = "(string \<times> entity) list"

record snipe =
  modelCache :: cache
  manufacturerCache :: cache
  categoryCache :: cache
  requestDelay :: int
  lastRequestTime :: int

definition new_SnipeService :: snipe where
  "new_SnipeService =
     \<lparr> modelCache = [], manufacturerCache = [], categoryCache = [],
       requestDelay = 1000, lastRequestTime = 0 \<rparr>"

definition rateLimitedRequest :: "request \<Rightarrow> snipe \<Rightarrow> world \<Rightarrow> (error + body) \<times> snipe \<times> world" where
  "rateLimitedRequest rq s w =
     (let now = clock w;
          timeSinceLastRequest = now - lastRequestTime s;
          w1 = (if timeSinceLastRequest < requestDelay s
                then sleep (requestDelay s - timeSinceLastRequest) w else w)
      in case dispatch Sent rq w1 of
           (Ok result, w2) \<Rightarrow> (Inr result, s\<lparr>lastRequestTime := clock w2\<rparr>, w2)
         | (Fail st, w2) \<Rightarrow>
             if st = Some 429 then
               (case dispatch Resent rq (sleep (requestDelay s * 2) w2) of
                  (Ok result, w3) \<Rightarrow> (Inr result, s, w3)
                | (Fail st', w3) \<Rightarrow> (Inl (HttpError st'), s, w3))
             else (Inl (HttpError st), s, w2))"

section \<open>SnipeService: manufacturers, categories and models\<close>

text \<open>
  \<open>rows.forEach(r => cache.set(r.<key>.toLowerCase(), r))\<close>, and equally
  \<open>new Map(rows.map(r => [r.<key>.toLowerCase(), r]))\<close>: a row without the key property,
  or with \<open>null\<close> for it, raises a TypeError.
\<close>

fun index_by :: "(entity \<Rightarrow> string property) \<Rightarrow> entity list \<Rightarrow> cache \<Rightarrow> (error + unit) \<times> cache" where
  "index_by key [] c = (Inr (), c)"
| "index_by key (r # rs) c =
     (case key r of
        Missing \<Rightarrow> (Inl TypeError, c)
      | Null \<Rightarrow> (Inl TypeError, c)
      | Val n \<Rightarrow> index_by key rs (AList.update (toLowerCase n) r c))"

definition getManufacturers :: "snipe \<Rightarrow> world \<Rightarrow> (error + entity list) \<times> snipe \<times> world" where
  "getManufacturers s w =
     (case rateLimitedRequest (Request GET (Collection Manufacturers) []) s w of
        (Inl e, s1, w1) \<Rightarrow> (Inl e, s1, w1)
      | (Inr response, s1, w1) \<Rightarrow>
          (case b_rows response of
             None \<Rightarrow> (Inl TypeError, s1\<lparr>manufacturerCache := []\<rparr>, w1)
           | Some manufacturers \<Rightarrow>
               (case index_by e_name manufacturers [] of
                  (Inl e, c) \<Rightarrow> (Inl e, s1\<lparr>manufacturerCache := c\<rparr>, w1)
                | (Inr _, c) \<Rightarrow> (Inr manufacturers, s1\<lparr>manufacturerCache := c\<rparr>, w1))))"

definition manufacturerData :: "string \<Rightarrow> jobject" where
  "manufacturerData manufacturerName =
     [(''name'', JString manufacturerName),
      (''url'', JString []),
      (''support_url'', JString []),
      (''support_phone'', JString []),
      (''support_email'', JString []),
      (''notes'', JString ''Created automatically from Ninja RMM sync'')]"

definition createManufacturer :: "string \<Rightarrow> snipe \<Rightarrow> world \<Rightarrow> (error + entity) \<times> snipe \<times> world" where
  "createManufacturer manufacturerName s w =
     (case rateLimitedRequest
             (Request POST (Collection Manufacturers) (manufacturerData manufacturerName)) s w of
        (Inl e, s1, w1) \<Rightarrow> (Inl e, s1, w1)
      | (Inr response, s1, w1) \<Rightarrow>
          (let newManufacturer = b_self response
           in (Inr newManufacturer,
               s1\<lparr>manufacturerCache :=
                     AList.update (toLowerCase manufacturerName) newManufacturer
                       (manufacturerCache s1)\<rparr>,
               w1)))"

text \<open>
  A name that is not given is the empty string here: \<open>!manufacturerName\<close> holds for
  both. A failed request raises \<open>HttpError\<close> with the status of the response; the
  \<open>catch\<close> blocks of the service log the error and throw it again.
\<close>

definition getOrCreateManufacturer :: "string \<Rightarrow> snipe \<Rightarrow> world \<Rightarrow> (error + entity) \<times> snipe \<times> world" where
  "getOrCreateManufacturer manufacturerName0 s w =
     (let manufacturerName =
            (if manufacturerName0 = [] then ''Unknown Manufacturer'' else manufacturerName0)
      in case map_of (manufacturerCache s) (toLowerCase manufacturerName) of
           Some cachedManufacturer \<Rightarrow> (Inr cachedManufacturer, s, w)
         | None \<Rightarrow> createManufacturer manufacturerName s w)"

definition getModels :: "snipe \<Rightarrow> world \<Rightarrow> (error + entity list) \<times> snipe \<times> world" where
  "getModels s w =
     (case rateLimitedRequest (Request GET (Collection Models) []) s w of
        (Inl e, s1, w1) \<Rightarrow> (Inl e, s1, w1)
      | (Inr response, s1, w1) \<Rightarrow>
          (case b_rows response of
             None \<Rightarrow> (Inl TypeError, s1\<lparr>modelCache := []\<rparr>, w1)
           | Some models \<Rightarrow>
               (case index_by e_name models [] of
                  (Inl e, c) \<Rightarrow> (Inl e, s1\<lparr>modelCache := c\<rparr>, w1)
                | (Inr _, c) \<Rightarrow> (Inr models, s1\<lparr>modelCache := c\<rparr>, w1))))"

definition getCategories :: "snipe \<Rightarrow> world \<Rightarrow> (error + entity list) \<times> snipe \<times> world" where
  "getCategories s w =
     (case rateLimitedRequest (Request GET (Collection Categories) []) s w of
        (Inl e, s1, w1) \<Rightarrow> (Inl e, s1, w1)
      | (Inr response, s1, w1) \<Rightarrow>
          (case b_rows response of
             None \<Rightarrow> (Inl TypeError, s1\<lparr>categoryCache := []\<rparr>, w1)
           | Some categories \<Rightarrow>
               (case index_by e_name categories [] of
                  (Inl e, c) \<Rightarrow> (Inl e, s1\<lparr>categoryCache := c\<rparr>, w1)
                | (Inr _, c) \<Rightarrow> (Inr categories, s1\<lparr>categoryCache := c\<rparr>, w1))))"

definition categoryData :: "string \<Rightarrow> jobject" where
  "categoryData categoryName =
     [(''name'', JString categoryName),
      (''category_type'', JString ''asset''),
      (''type'', JString ''asset''),
      (''use_default_eula'', JNumber 0),
      (''require_acceptance'', JNumber 0),
      (''checkin_email'', JNumber 0),
      (''eula_text'', JNull),
      (''notes'', JString ''Created automatically from Ninja RMM sync'')]"

definition createCategory :: "string \<Rightarrow> snipe \<Rightarrow> world \<Rightarrow> (error + entity) \<times> snipe \<times> world" where
  "createCategory categoryName s w =
     (case rateLimitedRequest
             (Request POST (Collection Categories) (categoryData categoryName)) s w of
        (Inl e, s1, w1) \<Rightarrow> (Inl e, s1, w1)
      | (Inr response, s1, w1) \<Rightarrow>
          if b_status response = Val ''error''
          then (Inl (Error ''Failed to create category''), s1, w1)
          else (let newCategory = payload_or_data response
                in case e_name newCategory of
                     Missing \<Rightarrow> (Inl TypeError, s1, w1)
                   | Null \<Rightarrow> (Inl TypeError, s1, w1)
                   | Val n \<Rightarrow>
                       (Inr newCategory,
                        s1\<lparr>categoryCache :=
                              AList.update (toLowerCase n) newCategory (categoryCache s1)\<rparr>,
                        w1)))"

text \<open>
  The table from nodeClass to category name. \<open>getOrCreateAssetCategory\<close> writes the same
  \<open>switch\<close> out a second time.
\<close>

definition getExpectedCategoryName :: "string \<Rightarrow> string" where
  "getExpectedCategoryName nc =
     (if nc = ''WINDOWS_SERVER'' then ''Windows Servers''
      else if nc = ''WINDOWS_WORKSTATION'' then ''Windows Workstations''
      else if nc = ''VMWARE_VM_HOST'' then ''VMware Hosts''
      else ''Other Hardware'')"

definition getOrCreateAssetCategory :: "string \<Rightarrow> snipe \<Rightarrow> world \<Rightarrow> (error + entity) \<times> snipe \<times> world" where
  "getOrCreateAssetCategory nc s w =
     (let categoryName = getExpectedCategoryName nc
      in case map_of (categoryCache s) (toLowerCase categoryName) of
           Some cachedCategory \<Rightarrow> (Inr cachedCategory, s, w)
         | None \<Rightarrow>
             (case getCategories s w of
                (Inl e, s1, w1) \<Rightarrow> (Inl e, s1, w1)
              | (Inr _, s1, w1) \<Rightarrow>
                  (case map_of (categoryCache s1) (toLowerCase categoryName) of
                     Some category \<Rightarrow> (Inr category, s1, w1)
                   | None \<Rightarrow> createCategory categoryName s1 w1)))"

text \<open>\<open>!x\<close> on an id: missing, \<open>null\<close> and zero are falsy.\<close>

definition falsy_id :: "nat property \<Rightarrow> bool" where
  "falsy_id i = (i = Missing \<or> i = Null \<or> i = Val 0)"

definition modelData :: "string \<Rightarrow> nat property \<Rightarrow> nat property \<Rightarrow> jobject" where
  "modelData modelName manufacturer_id category_id =
     [(''name'', JString modelName),
      (''manufacturer_id'', id_value manufacturer_id),
      (''category_id'', id_value category_id),
      (''model_number'', JString modelName),
      (''fieldset_id'', JNull),
      (''notes'', JString ''Created automatically from Ninja RMM sync'')]"

definition createModel :: "string \<Rightarrow> nat property \<Rightarrow> string \<Rightarrow> snipe \<Rightarrow> world \<Rightarrow> (error + entity) \<times> snipe \<times> world" where
  "createModel modelName manufacturer_id nc s w =
     (if falsy_id manufacturer_id
      then (Inl (Error ''Cannot create model without a valid manufacturer_id''), s, w)
      else case getOrCreateAssetCategory nc s w of
             (Inl e, s1, w1) \<Rightarrow> (Inl e, s1, w1)
           | (Inr category, s1, w1) \<Rightarrow>
               if falsy_id (e_id category)
               then (Inl (Error ''Failed to get or create asset category''), s1, w1)
               else (case rateLimitedRequest
                            (Request POST (Collection Models)
                               (modelData modelName manufacturer_id (e_id category))) s1 w1 of
                       (Inl e, s2, w2) \<Rightarrow> (Inl e, s2, w2)
                     | (Inr response, s2, w2) \<Rightarrow>
                         if b_status response = Val ''error''
                         then (Inl (Error ''Failed to create model''), s2, w2)
                         else (let newModel = payload_or_data response
                               in (Inr newModel,
                                   s2\<lparr>modelCache :=
                                         AList.update (toLowerCase modelName) newModel
                                           (modelCache s2)\<rparr>,
                                   w2))))"

text \<open>\<open>rows.find(m => m.name.toLowerCase() === key)\<close>\<close>

fun find_by_name :: "string \<Rightarrow> entity list \<Rightarrow> error + entity option" where
  "find_by_name k [] = Inr None"
| "find_by_name k (m # ms) =
     (case e_name m of
        Missing \<Rightarrow> Inl TypeError
      | Null \<Rightarrow> Inl TypeError
      | Val n \<Rightarrow> if toLowerCase n = k then Inr (Some m) else find_by_name k ms)"

definition updateData :: "string \<Rightarrow> nat property \<Rightarrow> nat property \<Rightarrow> jobject" where
  "updateData modelName manufacturer_id category_id =
     [(''name'', JString modelName),
      (''manufacturer_id'', id_value manufacturer_id),
      (''category_id'', id_value category_id),
      (''model_number'', JString modelName)]"

text \<open>
  The test \<open>existingModel.category.id !== expectedCategory.id ||
  existingModel.manufacturer.id !== manufacturer_id\<close> of \<open>getOrCreateModel\<close>: the right
  operand is read only when the left one is false.
\<close>

definition model_differs :: "entity \<Rightarrow> entity \<Rightarrow> nat property \<Rightarrow> error + bool" where
  "model_differs existingModel expectedCategory manufacturer_id =
     (case e_category existingModel of
        None \<Rightarrow> Inl TypeError
      | Some ec \<Rightarrow>
          if ref_id ec \<noteq> e_id expectedCategory then Inr True
          else (case e_manufacturer existingModel of
                  None \<Rightarrow> Inl TypeError
                | Some em \<Rightarrow> Inr (ref_id em \<noteq> manufacturer_id)))"

definition getOrCreateModel :: "string \<Rightarrow> nat property \<Rightarrow> string \<Rightarrow> snipe \<Rightarrow> world \<Rightarrow> (error + entity) \<times> snipe \<times> world" where
  "getOrCreateModel modelName0 manufacturer_id nc s w =
     (let modelName = (if modelName0 = [] then ''Unknown Model'' else modelName0)
      in case getOrCreateAssetCategory nc s w of
           (Inl e, s1, w1) \<Rightarrow> (Inl e, s1, w1)
         | (Inr expectedCategory, s1, w1) \<Rightarrow>
             (case rateLimitedRequest (Request GET (Search Models modelName) []) s1 w1 of
                (Inl e, s2, w2) \<Rightarrow> (Inl e, s2, w2)
              | (Inr response, s2, w2) \<Rightarrow>
                  (case b_rows response of
                     None \<Rightarrow> (Inl TypeError, s2, w2)
                   | Some rows \<Rightarrow>
                       (case find_by_name (toLowerCase modelName) rows of
                          Inl e \<Rightarrow> (Inl e, s2, w2)
                        | Inr None \<Rightarrow> createModel modelName manufacturer_id nc s2 w2
                        | Inr (Some existingModel) \<Rightarrow>
                            (case model_differs existingModel expectedCategory manufacturer_id of
                               Inl e \<Rightarrow> (Inl e, s2, w2)
                             | Inr False \<Rightarrow>
                                 (Inr existingModel,
                                  s2\<lparr>modelCache :=
                                        AList.update (toLowerCase modelName) existingModel
                                          (modelCache s2)\<rparr>,
                                  w2)
                             | Inr True \<Rightarrow>
                                 (case rateLimitedRequest
                                         (Request PUT (Item Models (e_id existingModel))
                                            (updateData modelName manufacturer_id
                                               (e_id expectedCategory))) s2 w2 of
                                    (Inl e, s3, w3) \<Rightarrow> (Inl e, s3, w3)
                                  | (Inr updateResponse, s3, w3) \<Rightarrow>
                                      (let updatedModel = payload_or_data updateResponse
                                       in (Inr updatedModel,
                                           s3\<lparr>modelCache :=
                                                 AList.update (toLowerCase modelName)
                                                   updatedModel (modelCache s3)\<rparr>,
                                           w3))))))))"

section \<open>SnipeService: one device\<close>

text \<open>The three lookup maps \<open>syncDevices\<close> builds and hands to every device.\<close>

record lookups =
  manufacturersByName :: cache
  modelsByName :: cache
  assetsBySerial :: cache

definition isModelCategoryCorrect :: "entity \<Rightarrow> string \<Rightarrow> error + bool" where
  "isModelCategoryCorrect m nc =
     (case e_category m of
        None \<Rightarrow> Inl TypeError
      | Some c \<Rightarrow>
          (case ref_name c of
             Missing \<Rightarrow> Inl TypeError
           | Null \<Rightarrow> Inl TypeError
           | Val n \<Rightarrow> Inr (toLowerCase n = toLowerCase (getExpectedCategoryName nc))))"

text \<open>
  \<open>syncDeviceWithCache\<close>, first part: get or create the manufacturer using the lookup
  map.
\<close>

definition syncManufacturer :: "device \<Rightarrow> lookups \<Rightarrow> snipe \<Rightarrow> world \<Rightarrow> (error + entity) \<times> lookups \<times> snipe \<times> world" where
  "syncManufacturer d l s w =
     (case map_of (manufacturersByName l) (toLowerCase (manufacturer (system d))) of
        Some m \<Rightarrow> (Inr m, l, s, w)
      | None \<Rightarrow>
          (case createManufacturer (manufacturer (system d)) s w of
             (Inl e, s1, w1) \<Rightarrow> (Inl e, l, s1, w1)
           | (Inr m, s1, w1) \<Rightarrow>
               (Inr m,
                l\<lparr>manufacturersByName :=
                      AList.update (toLowerCase (manufacturer (system d))) m
                        (manufacturersByName l)\<rparr>,
                s1, w1)))"

text \<open>
  The test \<open>model.manufacturer.id !== manufacturer.id ||
  !this.isModelCategoryCorrect(model, device.nodeClass)\<close>.
\<close>

definition needs_update :: "entity \<Rightarrow> entity \<Rightarrow> string \<Rightarrow> error + bool" where
  "needs_update m mf nc =
     (case e_manufacturer m of
        None \<Rightarrow> Inl TypeError
      | Some mr \<Rightarrow>
          if ref_id mr \<noteq> e_id mf then Inr True
          else (case isModelCategoryCorrect m nc of
                  Inl e \<Rightarrow> Inl e
                | Inr ok \<Rightarrow> Inr (\<not> ok)))"

text \<open>
  The update block, which \<open>syncDeviceWithCache\<close> has twice word for word (for a model
  of the lookup map and for a model the search found): resolve the category, put the
  update, take the record of the response and store it in the lookup map.
\<close>

definition updateModel :: "device \<Rightarrow> entity \<Rightarrow> entity \<Rightarrow> lookups \<Rightarrow> snipe \<Rightarrow> world \<Rightarrow> (error + entity) \<times> lookups \<times> snipe \<times> world" where
  "updateModel d m mf l s w =
     (case getOrCreateAssetCategory (nodeClass d) s w of
        (Inl e, s1, w1) \<Rightarrow> (Inl e, l, s1, w1)
      | (Inr category, s1, w1) \<Rightarrow>
          (case rateLimitedRequest
                  (Request PUT (Item Models (e_id m))
                     (updateData (model (system d)) (e_id mf) (e_id category))) s1 w1 of
             (Inl e, s2, w2) \<Rightarrow> (Inl e, l, s2, w2)
           | (Inr updateResponse, s2, w2) \<Rightarrow>
               (let m' = payload_or_data updateResponse
                in (Inr m',
                    l\<lparr>modelsByName :=
                          AList.update (toLowerCase (model (system d))) m' (modelsByName l)\<rparr>,
                    s2, w2))))"

text \<open>\<open>if (<the test>) { <the update block> }\<close>; otherwise the model stays as it is.\<close>

definition update_if_needed :: "device \<Rightarrow> entity \<Rightarrow> entity \<Rightarrow> lookups \<Rightarrow> snipe \<Rightarrow> world \<Rightarrow> (error + entity) \<times> lookups \<times> snipe \<times> world" where
  "update_if_needed d m mf l s w =
     (case needs_update m mf (nodeClass d) of
        Inl e \<Rightarrow> (Inl e, l, s, w)
      | Inr False \<Rightarrow> (Inr m, l, s, w)
      | Inr True \<Rightarrow> updateModel d m mf l s w)"

text \<open>
  The defensive check on a model of the lookup map: without manufacturer information
  the model is fetched afresh and stored.
\<close>

definition refetch_model :: "device \<Rightarrow> entity \<Rightarrow> lookups \<Rightarrow> snipe \<Rightarrow> world \<Rightarrow> (error + entity) \<times> lookups \<times> snipe \<times> world" where
  "refetch_model d m l s w =
     (if (case e_manufacturer m of None \<Rightarrow> True | Some mr \<Rightarrow> falsy_id (ref_id mr))
      then (case rateLimitedRequest (Request GET (Item Models (e_id m)) []) s w of
              (Inl e, s1, w1) \<Rightarrow> (Inl e, l, s1, w1)
            | (Inr modelResponse, s1, w1) \<Rightarrow>
                (let m' = b_self modelResponse
                 in (Inr m',
                     l\<lparr>modelsByName :=
                           AList.update (toLowerCase (model (system d))) m' (modelsByName l)\<rparr>,
                     s1, w1)))
      else (Inr m, l, s, w))"

text \<open>\<open>syncDeviceWithCache\<close>, second part: get or create the model.\<close>

definition syncModel :: "device \<Rightarrow> entity \<Rightarrow> lookups \<Rightarrow> snipe \<Rightarrow> world \<Rightarrow> (error + entity) \<times> lookups \<times> snipe \<times> world" where
  "syncModel d mf l s w =
     (let modelKey = toLowerCase (model (system d))
      in case map_of (modelsByName l) modelKey of
           Some cached \<Rightarrow>
             (case refetch_model d cached l s w of
                (Inl e, l1, s1, w1) \<Rightarrow> (Inl e, l1, s1, w1)
              | (Inr m, l1, s1, w1) \<Rightarrow> update_if_needed d m mf l1 s1 w1)
         | None \<Rightarrow>
             (case rateLimitedRequest (Request GET (Search Models (model (system d))) []) s w of
                (Inl e, s1, w1) \<Rightarrow> (Inl e, l, s1, w1)
              | (Inr response, s1, w1) \<Rightarrow>
                  (case b_rows response of
                     None \<Rightarrow> (Inl TypeError, l, s1, w1)
                   | Some rows \<Rightarrow>
                       (case find_by_name modelKey rows of
                          Inl e \<Rightarrow> (Inl e, l, s1, w1)
                        | Inr (Some existingModel) \<Rightarrow>
                            update_if_needed d existingModel mf
                              (l\<lparr>modelsByName :=
                                    AList.update modelKey existingModel (modelsByName l)\<rparr>)
                              s1 w1
                        | Inr None \<Rightarrow>
                            (case createModel (model (system d)) (e_id mf) (nodeClass d) s1 w1 of
                               (Inl e, s2, w2) \<Rightarrow> (Inl e, l, s2, w2)
                             | (Inr m, s2, w2) \<Rightarrow>
                                 (Inr m,
                                  l\<lparr>modelsByName := AList.update modelKey m (modelsByName l)\<rparr>,
                                  s2, w2))))))"

text \<open>
  \<open>Math.round(bytes / (1024 * 1024 * 1024))\<close> on a whole number of bytes: the quotient
  is exact, and \<open>Math.round\<close> rounds a half upwards.
\<close>

definition round_GiB :: "int \<Rightarrow> int" where
  "round_GiB bytes = (bytes + 2 ^ 29) div 2 ^ 30"

definition custom_fields :: "device \<Rightarrow> jv" where
  "custom_fields d =
     JObject [(''_snipeit_processor_count_1'', JNumber (numberOfProcessors (system d))),
              (''_snipeit_memory_2'', JNumber (round_GiB (totalPhysicalMemory (system d))))]"

definition sync_notes :: "int \<Rightarrow> device \<Rightarrow> jv" where
  "sync_notes now d = JNotes now (domain (system d)) (domainRole (system d))"

text \<open>
  \<open>getChangedFields\<close>; \<open>now\<close> is the time \<open>new Date()\<close> reads. Reading
  \<open>existingAsset.model.id\<close> or \<open>existingAsset.manufacturer.id\<close> of an asset without
  that nested object raises a TypeError, and the object built so far is lost with it.
  The four comparisons are \<open>!==\<close>: a display name the device lacks differs from a
  \<open>null\<close> name of the asset, and the key is then set to \<open>undefined\<close>.
\<close>

definition getChangedFields :: "int \<Rightarrow> device \<Rightarrow> entity \<Rightarrow> entity \<Rightarrow> entity \<Rightarrow> error + jobject" where
  "getChangedFields now d existingAsset m mf =
     (case e_model existingAsset of
        None \<Rightarrow> Inl TypeError
      | Some am \<Rightarrow>
          (case e_manufacturer existingAsset of
             None \<Rightarrow> Inl TypeError
           | Some amf \<Rightarrow>
               Inr ((if systemName d \<noteq> e_name existingAsset
                     then [(''name'', string_value (systemName d))] else []) @
                    (if e_id m \<noteq> ref_id am
                     then [(''model_id'', id_value (e_id m))] else []) @
                    (if e_id mf \<noteq> ref_id amf
                     then [(''manufacturer_id'', id_value (e_id mf))] else []) @
                    (if Val (model (system d)) \<noteq> e_model_number existingAsset
                     then [(''model_number'', JString (model (system d)))] else []) @
                    [(''custom_fields'', custom_fields d),
                     (''notes'', sync_notes now d)])))"

definition createAssetData :: "int \<Rightarrow> device \<Rightarrow> entity \<Rightarrow> entity \<Rightarrow> jobject" where
  "createAssetData now d m mf =
     [(''status_id'', JNumber 1),
      (''model_id'', id_value (e_id m)),
      (''name'', string_value (systemName d)),
      (''serial'', JString (serialNumber (system d))),
      (''manufacturer_id'', id_value (e_id mf)),
      (''model_number'', JString (model (system d))),
      (''notes'', sync_notes now d),
      (''custom_fields'', custom_fields d)]"

text \<open>
  \<open>syncDeviceWithCache\<close>, third part: the asset. The result names the branch taken, by
  the message the branch logs.
\<close>

datatype asset_log = Updated_asset | No_changes_needed | Created_new_asset

definition syncAsset :: "device \<Rightarrow> entity \<Rightarrow> entity \<Rightarrow> lookups \<Rightarrow> snipe \<Rightarrow> world \<Rightarrow> (error + asset_log) \<times> snipe \<times> world" where
  "syncAsset d m mf l s w =
     (case map_of (assetsBySerial l) (toLowerCase (serialNumber (system d))) of
        Some existingAsset \<Rightarrow>
          (case getChangedFields (clock w) d existingAsset m mf of
             Inl e \<Rightarrow> (Inl e, s, w)
           | Inr changedFields \<Rightarrow>
               if length changedFields > 0
               then (case rateLimitedRequest
                            (Request PATCH (Item Hardware (e_id existingAsset)) changedFields)
                            s w of
                       (Inl e, s1, w1) \<Rightarrow> (Inl e, s1, w1)
                     | (Inr _, s1, w1) \<Rightarrow> (Inr Updated_asset, s1, w1))
               else (Inr No_changes_needed, s, w))
      | None \<Rightarrow>
          (case rateLimitedRequest
                  (Request POST (Collection Hardware) (createAssetData (clock w) d m mf)) s w of
             (Inl e, s1, w1) \<Rightarrow> (Inl e, s1, w1)
           | (Inr _, s1, w1) \<Rightarrow> (Inr Created_new_asset, s1, w1)))"

definition syncDeviceWithCache :: "device \<Rightarrow> lookups \<Rightarrow> snipe \<Rightarrow> world \<Rightarrow> (error + unit) \<times> lookups \<times> snipe \<times> world" where
  "syncDeviceWithCache d l s w =
     (case syncManufacturer d l s w of
        (Inl e, l1, s1, w1) \<Rightarrow> (Inl e, l1, s1, w1)
      | (Inr mf, l1, s1, w1) \<Rightarrow>
          (case syncModel d mf l1 s1 w1 of
             (Inl e, l2, s2, w2) \<Rightarrow> (Inl e, l2, s2, w2)
           | (Inr m, l2, s2, w2) \<Rightarrow>
               (case syncAsset d m mf l2 s2 w2 of
                  (Inl e, s3, w3) \<Rightarrow> (Inl e, l2, s3, w3)
                | (Inr _, s3, w3) \<Rightarrow> (Inr (), l2, s3, w3))))"

section \<open>SnipeService: the run\<close>

text \<open>
  The loop of \<open>syncDevices\<close>: an error of one device is caught and logged, and the loop
  goes on with the next device.
\<close>

fun sync_each :: "device list \<Rightarrow> lookups \<Rightarrow> snipe \<Rightarrow> world \<Rightarrow> lookups \<times> snipe \<times> world" where
  "sync_each [] l s w = (l, s, w)"
| "sync_each (d # ds) l s w =
     (case syncDeviceWithCache d l s w of
        (Inl e, l1, s1, w1) \<Rightarrow>
          sync_each ds l1 s1
            (w1\<lparr>events := events w1 @ [Logged_failure (serialNumber (system d)) e]\<rparr>)
      | (Inr _, l1, s1, w1) \<Rightarrow> sync_each ds l1 s1 w1)"

definition syncDevices :: "device list \<Rightarrow> snipe \<Rightarrow> world \<Rightarrow> (error + unit) \<times> snipe \<times> world" where
  "syncDevices devices s w =
     (case getCategories s w of
        (Inl e, s1, w1) \<Rightarrow> (Inl e, s1, w1)
      | (Inr categories, s1, w1) \<Rightarrow>
      (case getManufacturers s1 w1 of
        (Inl e, s2, w2) \<Rightarrow> (Inl e, s2, w2)
      | (Inr manufacturers, s2, w2) \<Rightarrow>
      (case getModels s2 w2 of
        (Inl e, s3, w3) \<Rightarrow> (Inl e, s3, w3)
      | (Inr models, s3, w3) \<Rightarrow>
      (case rateLimitedRequest (Request GET (Collection Hardware) []) s3 w3 of
        (Inl e, s4, w4) \<Rightarrow> (Inl e, s4, w4)
      | (Inr assets, s4, w4) \<Rightarrow>
      (case b_rows assets of
        None \<Rightarrow> (Inl TypeError, s4, w4)
      | Some existingAssets \<Rightarrow>
      (case index_by e_serial existingAssets [] of
        (Inl e, _) \<Rightarrow> (Inl e, s4, w4)
      | (Inr _, bySerial) \<Rightarrow>
      (case index_by e_name models [] of
        (Inl e, _) \<Rightarrow> (Inl e, s4, w4)
      | (Inr _, byModel) \<Rightarrow>
      (case index_by e_name manufacturers [] of
        (Inl e, _) \<Rightarrow> (Inl e, s4, w4)
      | (Inr _, byManufacturer) \<Rightarrow>
          (case sync_each devices
                  \<lparr> manufacturersByName = byManufacturer, modelsByName = byModel,
                    assetsBySerial = bySerial \<rparr> s4 w4 of
             (l, s5, w5) \<Rightarrow> (Inr (), s5, w5))))))))))"

section \<open>The scheduled entry point\<close>

text \<open>
  The handler of the timer function, from the point where the device listing has been
  fetched: \<open>fetched\<close> is what environment validation, the construction of the two
  services and \<open>ninjaService.getDevices\<close> delivered, an error or the raw records. The
  result is the number \<open>N\<close> of the returned \<open>{ body: `Processed N devices` }\<close>.
\<close>

definition getDevices_handler :: "(error + raw_device list) \<Rightarrow> world \<Rightarrow> (error + nat) \<times> world" where
  "getDevices_handler fetched w =
     (case fetched of
        Inl e \<Rightarrow> (Inl e, w)
      | Inr devices \<Rightarrow>
          (let processedDevices = processDevices devices
           in case syncDevices processedDevices new_SnipeService w of
                (Inl e, s1, w1) \<Rightarrow> (Inl e, w1)
              | (Inr _, s1, w1) \<Rightarrow> (Inr (length processedDevices), w1)))"

section \<open>Reading the transcript\<close>

text \<open>
  The requests the service handed to the rate gate, in order: one per \<open>Sent\<close> event
  (a \<open>Resent\<close> event is the gate's own retry of the request before it).
\<close>

fun calls :: "event list \<Rightarrow> request list" where
  "calls [] = []"
| "calls (Sent rq r # es) = rq # calls es"
| "calls (e # es) = calls es"

text \<open>The requests handed to the gate between two states of the world.\<close>

definition new_calls :: "world \<Rightarrow> world \<Rightarrow> request list" where
  "new_calls w w' = drop (length (calls (events w))) (calls (events w'))"

text \<open>What the gate waits before the first attempt of a request.\<close>

definition wait_before :: "snipe \<Rightarrow> world \<Rightarrow> event list" where
  "wait_before s w =
     (if clock w - lastRequestTime s < requestDelay s
      then [Waited (requestDelay s - (clock w - lastRequestTime s))] else [])"

text \<open>The events added to the transcript between two states of the world.\<close>

definition new_events :: "world \<Rightarrow> world \<Rightarrow> event list" where
  "new_events w w' = drop (length (events w)) (events w')"

text \<open>
  \<open>event_about Q e\<close>: if the event is a request on the wire, a first attempt or a retry,
  the request satisfies \<open>Q\<close>. \<open>sends Q w w'\<close>: from \<open>w\<close> to \<open>w'\<close> the transcript has only
  grown, and by events about \<open>Q\<close>.
\<close>

fun event_about :: "(request \<Rightarrow> bool) \<Rightarrow> event \<Rightarrow> bool" where
  "event_about Q (Sent rq r) = Q rq"
| "event_about Q (Resent rq r) = Q rq"
| "event_about Q e = True"

definition sends :: "(request \<Rightarrow> bool) \<Rightarrow> world \<Rightarrow> world \<Rightarrow> bool" where
  "sends Q w w' = (\<exists>es. events w' = events w @ es \<and> list_all (event_about Q) es)"

text \<open>The request and the response of an event that is an answered request.\<close>

fun answered :: "event \<Rightarrow> (request \<times> body) option" where
  "answered (Sent rq (Ok b)) = Some (rq, b)"
| "answered (Resent rq (Ok b)) = Some (rq, b)"
| "answered e = None"

text \<open>
  The update of a model as a request on the wire: the PUT of the model's id that carries
  the name, the ids of the manufacturer and of the category, and the name again as the
  model number.
\<close>

definition model_update :: "nat property \<Rightarrow> string \<Rightarrow> nat property \<Rightarrow> nat property \<Rightarrow> request" where
  "model_update model_id name manufacturer_id category_id =
     Request PUT (Item Models model_id)
       [(''name'', JString name),
        (''manufacturer_id'', id_value manufacturer_id),
        (''category_id'', id_value category_id),
        (''model_number'', JString name)]"

text \<open>
  Requests that write a manufacturer other than by creating it, and requests that
  create a model.
\<close>

definition resource_of :: "target \<Rightarrow> resource" where
  "resource_of t = (case t of Collection r \<Rightarrow> r | Item r i \<Rightarrow> r | Search r q \<Rightarrow> r)"

definition mutates_manufacturer :: "request \<Rightarrow> bool" where
  "mutates_manufacturer rq =
     (resource_of (target_of rq) = Manufacturers \<and>
      verb_of rq \<noteq> GET \<and>
      \<not> (verb_of rq = POST \<and> target_of rq = Collection Manufacturers))"

definition creates_model :: "request \<Rightarrow> bool" where
  "creates_model rq = (verb_of rq = POST \<and> target_of rq = Collection Models)"

text \<open>
  Classes of requests: the requests that look after an existing model (the category
  listing and creation, a model by id, a model search), and all the requests a run makes.
\<close>

definition model_upkeep :: "request \<Rightarrow> bool" where
  "model_upkeep rq =
     (target_of rq = Collection Categories \<or>
      (\<exists>i. target_of rq = Item Models i) \<or>
      (\<exists>q. target_of rq = Search Models q))"

definition run_request :: "request \<Rightarrow> bool" where
  "run_request rq =
     (model_upkeep rq \<or>
      target_of rq = Collection Models \<or>
      resource_of (target_of rq) = Hardware \<or>
      (target_of rq = Collection Manufacturers \<and> (verb_of rq = GET \<or> verb_of rq = POST)))"

text \<open>The serial numbers of the devices whose failure the loop of \<open>syncDevices\<close> logged.\<close>

fun failures :: "event list \<Rightarrow> string list" where
  "failures [] = []"
| "failures (Logged_failure serial e # es) = serial # failures es"
| "failures (e # es) = failures es"

section \<open>Reading a listing\<close>

text \<open>
  The record a listing holds under a lower-cased name once it is indexed into a \<open>Map\<close>:
  the last row of that name.
\<close>

fun listed :: "string \<Rightarrow> entity list \<Rightarrow> entity option" where
  "listed k [] = None"
| "listed k (r # rs) =
     (case listed k rs of
        Some x \<Rightarrow> Some x
      | None \<Rightarrow>
          (case e_name r of
             Missing \<Rightarrow> None
           | Null \<Rightarrow> None
           | Val n \<Rightarrow> if toLowerCase n = k then Some r else None))"

section \<open>Concrete inputs\<close>

text \<open>
  Two records of the device listing without a \<open>system\<close> sub-object: one with a display
  name, one whose display name is the empty string.
\<close>

definition raw_printer :: raw_device where
  "raw_printer =
     \<lparr> raw_id = 7, raw_systemName = Val ''PRN-7'', raw_nodeClass = ''NMS_PRINTER'',
       raw_system = None, raw_name = Missing, raw_vendor = Missing, raw_model = Missing,
       raw_biosSerialNumber = Missing, raw_serialNumber = Missing, raw_domain = Missing,
       raw_domainRole = Missing, raw_numberOfProcessors = Missing,
       raw_totalPhysicalMemory = Missing, raw_chassisType = Missing \<rparr>"

definition raw_nameless :: raw_device where
  "raw_nameless = raw_printer\<lparr>raw_id := 8, raw_systemName := Val []\<rparr>"

text \<open>
  A listing request, an empty listing as its response, and two target systems that
  throttle: one answers the retry, the other throttles the retry as well and would
  answer a third attempt.
\<close>

definition no_entity :: entity where
  "no_entity =
     \<lparr> e_id = Missing, e_name = Missing, e_manufacturer = None, e_category = None,
       e_model = None, e_serial = Missing, e_model_number = Missing \<rparr>"

definition rows_body :: "entity list \<Rightarrow> body" where
  "rows_body rows =
     \<lparr> b_rows = Some rows, b_status = Missing, b_payload = None, b_self = no_entity \<rparr>"

definition list_manufacturers :: request where
  "list_manufacturers = Request GET (Collection Manufacturers) []"

definition throttled_once :: world where
  "throttled_once =
     \<lparr> clock = 5000,
       script = [(10, Fail (Some 429)), (10, Ok (rows_body []))],
       events = [] \<rparr>"

definition throttled_twice :: world where
  "throttled_twice =
     \<lparr> clock = 5000,
       script = [(10, Fail (Some 429)), (10, Fail (Some 429)), (10, Ok (rows_body []))],
       events = [] \<rparr>"

text \<open>
  A manufacturer, a category and a model of the target system that agree with each
  other, an asset whose serial is the empty string, and a workstation of the source
  system with a given display name and serial number.
\<close>

definition dell :: entity where
  "dell = no_entity\<lparr>e_id := Val 3, e_name := Val ''Dell''\<rparr>"

definition workstations :: entity where
  "workstations = no_entity\<lparr>e_id := Val 2, e_name := Val ''Windows Workstations''\<rparr>"

definition optiplex :: entity where
  "optiplex =
     no_entity\<lparr>e_id := Val 5, e_name := Val ''OptiPlex'',
       e_manufacturer := Some \<lparr>ref_id = Val 3, ref_name = Val ''Dell''\<rparr>,
       e_category := Some \<lparr>ref_id = Val 2, ref_name = Val ''Windows Workstations''\<rparr>\<rparr>"

definition blank_asset :: entity where
  "blank_asset =
     no_entity\<lparr>e_id := Val 7, e_name := Val ''PC-OLD'', e_serial := Val [],
       e_model := Some \<lparr>ref_id = Val 5, ref_name = Val ''OptiPlex''\<rparr>,
       e_manufacturer := Some \<lparr>ref_id = Val 3, ref_name = Val ''Dell''\<rparr>,
       e_model_number := Val ''OptiPlex''\<rparr>"

definition tagged_asset :: entity where
  "tagged_asset =
     no_entity\<lparr>e_id := Val 9, e_name := Val ''PC-A'', e_serial := Val ''SN1'',
       e_model := Some \<lparr>ref_id = Val 5, ref_name = Val ''OptiPlex''\<rparr>,
       e_manufacturer := Some \<lparr>ref_id = Val 3, ref_name = Val ''Dell''\<rparr>,
       e_model_number := Val ''OptiPlex''\<rparr>"

definition workstation :: "string \<Rightarrow> string \<Rightarrow> device" where
  "workstation name serial =
     \<lparr> device_id = 1, systemName = Val name, nodeClass = ''WINDOWS_WORKSTATION'',
       system = \<lparr>
         sys_name = name, manufacturer = ''Dell'', model = ''OptiPlex'',
         biosSerialNumber = serial, serialNumber = serial, domain = ''corp'',
         domainRole = ''Member Workstation'', numberOfProcessors = 1,
         totalPhysicalMemory = 8589934592, virtualMachine = False,
         chassisType = ''Desktop'' \<rparr> \<rparr>"

definition preloaded :: lookups where
  "preloaded =
     \<lparr> manufacturersByName = [(''dell'', dell)],
       modelsByName = [(''optiplex'', optiplex)],
       assetsBySerial = [([], blank_asset), (''sn1'', tagged_asset)] \<rparr>"

text \<open>A target system that answers the next eight requests with an empty listing.\<close>

definition answering :: world where
  "answering = \<lparr> clock = 5000, script = replicate 8 (10, Ok (rows_body [])), events = [] \<rparr>"

text \<open>
  A target system with one category, one manufacturer, one model and two assets, which
  answers the four listing requests of a run and two more requests.
\<close>

definition inventory :: world where
  "inventory =
     \<lparr> clock = 5000,
       script = [(10, Ok (rows_body [workstations])), (10, Ok (rows_body [dell])),
                 (10, Ok (rows_body [optiplex])),
                 (10, Ok (rows_body [blank_asset, tagged_asset])),
                 (10, Ok (rows_body [])), (10, Ok (rows_body []))],
       events = [] \<rparr>"

text \<open>
  The envelope in which the target system returns a created or updated record, and a
  target system without categories that creates the category of workstations when asked.
\<close>

definition envelope :: "entity \<Rightarrow> body" where
  "envelope e =
     \<lparr> b_rows = None, b_status = Val ''success'', b_payload = Some e, b_self = no_entity \<rparr>"

definition no_categories :: world where
  "no_categories =
     \<lparr> clock = 5000,
       script = [(10, Ok (rows_body [])), (10, Ok (envelope workstations)),
                 (10, Ok (rows_body []))],
       events = [] \<rparr>"

text \<open>
  The same model as the target system holds it when it is bound to another
  manufacturer, a lookup map with that model, and a target system that lists the
  category of workstations and then answers an update with the corrected model.
\<close>

definition optiplex_of_hp :: entity where
  "optiplex_of_hp = optiplex\<lparr>e_manufacturer := Some \<lparr>ref_id = Val 4, ref_name = Val ''HP''\<rparr>\<rparr>"

definition drifted :: lookups where
  "drifted = preloaded\<lparr>modelsByName := [(''optiplex'', optiplex_of_hp)]\<rparr>"

definition correcting :: world where
  "correcting =
     \<lparr> clock = 5000,
       script = [(10, Ok (rows_body [workstations])), (10, Ok (envelope optiplex))],
       events = [] \<rparr>"

definition corrected :: world where
  "corrected =
     \<lparr> clock = 6020, script = [],
       events = [Sent (Request GET (Collection Categories) []) (Ok (rows_body [workstations])),
                 Waited 1000,
                 Sent (Request PUT (Item Models (Val 5))
                         (updateData ''OptiPlex'' (Val 3) (Val 2)))
                   (Ok (envelope optiplex))] \<rparr>"

text \<open>
  Another model of the same manufacturer line, a lookup map without models, and a target
  system whose model search lists that other model and then the model bound to the other
  manufacturer, and which then lists the categories and answers the update.
\<close>

definition optiplex_7090 :: entity where
  "optiplex_7090 = optiplex\<lparr>e_id := Val 6, e_name := Val ''OptiPlex 7090''\<rparr>"

definition unindexed :: lookups where
  "unindexed = preloaded\<lparr>modelsByName := []\<rparr>"

definition finding :: world where
  "finding =
     \<lparr> clock = 5000,
       script = [(10, Ok (rows_body [optiplex_7090, optiplex_of_hp])),
                 (10, Ok (rows_body [workstations])), (10, Ok (envelope optiplex))],
       events = [] \<rparr>"

definition rebound :: world where
  "rebound =
     \<lparr> clock = 7030, script = [],
       events = [Sent (Request GET (Search Models ''OptiPlex'') [])
                   (Ok (rows_body [optiplex_7090, optiplex_of_hp])),
                 Waited 1000,
                 Sent (Request GET (Collection Categories) []) (Ok (rows_body [workstations])),
                 Waited 1000,
                 Sent (Request PUT (Item Models (Val 5))
                         (updateData ''OptiPlex'' (Val 3) (Val 2)))
                   (Ok (envelope optiplex))] \<rparr>"

text \<open>
  A target system whose model search lists the same two models and which then rejects
  the listing of the categories with status 500.
\<close>

definition finding_unlisted :: world where
  "finding_unlisted =
     \<lparr> clock = 5000,
       script = [(10, Ok (rows_body [optiplex_7090, optiplex_of_hp])), (10, Fail (Some 500))],
       events = [] \<rparr>"

text \<open>
  A response that is the record itself, and a target system that holds nothing: it
  answers the four listings of a run with empty lists and then creates what it is asked
  to create (the manufacturer, after an empty model search and category listing the
  category, the model, the asset).
\<close>

definition bare :: "entity \<Rightarrow> body" where
  "bare e = \<lparr> b_rows = None, b_status = Missing, b_payload = None, b_self = e \<rparr>"

definition fresh_target :: world where
  "fresh_target =
     \<lparr> clock = 5000,
       script = [(10, Ok (rows_body [])), (10, Ok (rows_body [])), (10, Ok (rows_body [])),
                 (10, Ok (rows_body [])), (10, Ok (bare dell)), (10, Ok (rows_body [])),
                 (10, Ok (rows_body [])), (10, Ok (envelope workstations)),
                 (10, Ok (envelope optiplex)), (10, Ok (envelope tagged_asset))],
       events = [] \<rparr>"

text \<open>
  The raw record of the workstation, and a target system that holds nothing and
  rejects the creation of the manufacturer with status 500.
\<close>

definition raw_workstation :: raw_device where
  "raw_workstation =
     raw_printer\<lparr>raw_id := 1, raw_systemName := Val ''PC-A'',
       raw_nodeClass := ''WINDOWS_WORKSTATION'',
       raw_system := Some (system (workstation ''PC-A'' ''SN1''))\<rparr>"

definition refusing :: world where
  "refusing =
     \<lparr> clock = 5000,
       script = [(10, Ok (rows_body [])), (10, Ok (rows_body [])), (10, Ok (rows_body [])),
                 (10, Ok (rows_body [])), (10, Fail (Some 500))],
       events = [] \<rparr>"

definition raw_guest :: raw_device where
  "raw_guest = raw_workstation\<lparr>raw_id := 2, raw_nodeClass := ''VMWARE_VM_GUEST''\<rparr>"

text \<open>
  A target system that lists the category of workstations, answers the model search
  with the two models, the second bound to the other manufacturer, and answers the
  update.
\<close>

definition searching :: world where
  "searching =
     \<lparr> clock = 5000,
       script = [(10, Ok (rows_body [workstations])),
                 (10, Ok (rows_body [optiplex_7090, optiplex_of_hp])),
                 (10, Ok (envelope optiplex))],
       events = [] \<rparr>"




text \<open>
  A device record without a display name, and an asset whose name is \<open>null\<close>.
\<close>

definition anonymous_workstation :: device where
  "anonymous_workstation = (workstation ''PC-A'' ''SN1'')\<lparr>systemName := Missing\<rparr>"

definition unnamed_asset :: entity where
  "unnamed_asset = tagged_asset\<lparr>e_name := Null\<rparr>"

text \<open>
  Two workstations of the same model, and a target system that holds the manufacturer
  and nothing else: it rejects the first creation of the category with status 500 and
  accepts the second.
\<close>

definition rejecting_category :: world where
  "rejecting_category =
     \<lparr> clock = 5000,
       script = [(10, Ok (rows_body [])), (10, Ok (rows_body [dell])), (10, Ok (rows_body [])),
                 (10, Ok (rows_body [])),
                 (10, Ok (rows_body [])), (10, Ok (rows_body [])), (10, Fail (Some 500)),
                 (10, Ok (rows_body [])), (10, Ok (rows_body [])),
                 (10, Ok (envelope workstations)), (10, Ok (envelope optiplex)),
                 (10, Ok (envelope tagged_asset))],
       events = [] \<rparr>"

text \<open>
  The category of servers, the category of workstations under another id, and a target
  system that lists no category, creates the category of workstations when asked, and in
  its next listing has the two categories, that of workstations under the other id.
\<close>

definition servers :: entity where
  "servers = no_entity\<lparr>e_id := Val 1, e_name := Val ''Windows Servers''\<rparr>"

definition workstations_again :: entity where
  "workstations_again = workstations\<lparr>e_id := Val 12\<rparr>"

definition relisting :: world where
  "relisting =
     \<lparr> clock = 5000,
       script = [(10, Ok (rows_body [])), (10, Ok (envelope workstations)),
                 (10, Ok (rows_body [servers, workstations_again]))],
       events = [] \<rparr>"

text \<open>
  The model as a flat record, without the nested manufacturer and category objects; a
  target system that lists the category of workstations and answers an update with the
  flat record; and a target system that rejects the listing of the categories with
  status 500.
\<close>

definition flat_optiplex :: entity where
  "flat_optiplex = optiplex\<lparr>e_manufacturer := None, e_category := None\<rparr>"

definition answering_flat :: world where
  "answering_flat =
     \<lparr> clock = 5000,
       script = [(10, Ok (rows_body [workstations])), (10, Ok (envelope flat_optiplex))],
       events = [] \<rparr>"

definition unlisted :: world where
  "unlisted = \<lparr> clock = 5000, script = [(10, Fail (Some 500))], events = [] \<rparr>"

section \<open>The source client\<close>

lemma createDeviceDetails_default:
  "raw_system d = None \<Longrightarrow> raw_nodeClass d \<noteq> ''VMWARE_VM_HOST'' \<Longrightarrow>
   createDeviceDetails d = createDefaultDeviceDetails d"
  by (simp add: createDeviceDetails_def)

text \<open>
  C9, as stated, at a record whose display name is the empty string: the synthesized
  system block is named \<open>Unknown\<close>, not by the record's own display name.
\<close>

theorem C9_counterexample:
  "raw_system raw_nameless = None \<and>
   raw_nodeClass raw_nameless \<noteq> ''VMWARE_VM_HOST'' \<and>
   raw_systemName raw_nameless = Val [] \<and>
   sys_name (system (createDeviceDetails raw_nameless)) = ''Unknown''"
  by (simp add: raw_nameless_def raw_printer_def createDeviceDetails_def
      createDefaultDeviceDetails_def or_string_def)

text \<open>
  C9, amended: for a raw record with no system sub-object and a nodeClass other than
  VMwareHost, the device the source client produces has a synthesized system block with
  numberOfProcessors 0, total physical memory 0, virtualMachine false, every string field
  other than the name equal to \<open>Unknown\<close>, and the name equal to the record's own display
  name when the record has a non-empty one and to \<open>Unknown\<close> when the display name is
  missing, \<open>null\<close> or empty.
\<close>

theorem C9_default_system_block:
  assumes "raw_system d = None" and "raw_nodeClass d \<noteq> ''VMWARE_VM_HOST''"
  shows "numberOfProcessors (system (createDeviceDetails d)) = 0 \<and>
         totalPhysicalMemory (system (createDeviceDetails d)) = 0 \<and>
         virtualMachine (system (createDeviceDetails d)) = False \<and>
         manufacturer (system (createDeviceDetails d)) = ''Unknown'' \<and>
         model (system (createDeviceDetails d)) = ''Unknown'' \<and>
         biosSerialNumber (system (createDeviceDetails d)) = ''Unknown'' \<and>
         serialNumber (system (createDeviceDetails d)) = ''Unknown'' \<and>
         domain (system (createDeviceDetails d)) = ''Unknown'' \<and>
         domainRole (system (createDeviceDetails d)) = ''Unknown'' \<and>
         chassisType (system (createDeviceDetails d)) = ''Unknown'' \<and>
         (\<forall>n. raw_systemName d = Val n \<and> n \<noteq> [] \<longrightarrow>
                sys_name (system (createDeviceDetails d)) = n) \<and>
         (raw_systemName d = Missing \<or> raw_systemName d = Null \<or> raw_systemName d = Val [] \<longrightarrow>
                sys_name (system (createDeviceDetails d)) = ''Unknown'')"
  using assms
  by (auto simp: createDeviceDetails_default createDefaultDeviceDetails_def or_string_def)

theorem C9_default_system_block_witness:
  "raw_system raw_printer = None \<and>
   raw_nodeClass raw_printer \<noteq> ''VMWARE_VM_HOST'' \<and>
   raw_systemName raw_printer = Val ''PRN-7'' \<and>
   sys_name (system (createDeviceDetails raw_printer)) = ''PRN-7'' \<and>
   numberOfProcessors (system (createDeviceDetails raw_printer)) = 0 \<and>
   serialNumber (system (createDeviceDetails raw_printer)) = ''Unknown''"
proof -
  have a: "raw_system raw_printer = None" by (simp add: raw_printer_def)
  have b: "raw_nodeClass raw_printer \<noteq> ''VMWARE_VM_HOST''" by (simp add: raw_printer_def)
  have c: "raw_systemName raw_printer = Val ''PRN-7''" by (simp add: raw_printer_def)
  show ?thesis
    using a b c C9_default_system_block[OF a b] by simp
qed

section \<open>The rate-limited request gate\<close>

lemma calls_append: "calls (xs @ ys) = calls xs @ calls ys"
  by (induction xs rule: calls.induct) simp_all

lemma new_calls_append:
  "calls (events w') = calls (events w) @ xs \<Longrightarrow> new_calls w w' = xs"
  by (simp add: new_calls_def)

text \<open>What the gate does, by the reply to the first attempt.\<close>

lemma gate_first_ok:
  assumes "script w = (t1, Ok b) # rest"
  shows "rateLimitedRequest rq s w =
           (Inr b,
            s\<lparr>lastRequestTime :=
                 clock w + (if clock w - lastRequestTime s < requestDelay s
                            then requestDelay s - (clock w - lastRequestTime s) else 0)
                 + int t1\<rparr>,
            \<lparr> clock = clock w + (if clock w - lastRequestTime s < requestDelay s
                                  then requestDelay s - (clock w - lastRequestTime s) else 0)
                       + int t1,
              script = rest,
              events = events w @ wait_before s w @ [Sent rq (Ok b)] \<rparr>)"
  using assms
  by (simp add: rateLimitedRequest_def dispatch_def sleep_def wait_before_def Let_def)

lemma gate_first_throttled:
  assumes "script w = (t1, Fail (Some 429)) # (t2, r2) # rest"
  shows "rateLimitedRequest rq s w =
           ((case r2 of Ok b \<Rightarrow> Inr b | Fail st \<Rightarrow> Inl (HttpError st)),
            s,
            \<lparr> clock = clock w + (if clock w - lastRequestTime s < requestDelay s
                                  then requestDelay s - (clock w - lastRequestTime s) else 0)
                       + int t1 + requestDelay s * 2 + int t2,
              script = rest,
              events = events w @ wait_before s w @
                       [Sent rq (Fail (Some 429)), Waited (requestDelay s * 2), Resent rq r2] \<rparr>)"
  using assms
  by (cases r2)
    (simp_all add: rateLimitedRequest_def dispatch_def sleep_def wait_before_def Let_def)

text \<open>
  C4: a request whose first attempt is answered with status 429 is followed by a wait of
  twice the minimum interval (2000 ms for the interval of 1000 ms the constructor sets)
  and by exactly one retry of the same request. The outcome of the retry is the outcome
  of the call: a response is returned, a rejection (a second 429 included) is raised as
  the error; nothing is sent after the retry, so the rest of the script is untouched.
\<close>

theorem C4_throttled_request_is_retried_once:
  assumes "script w = (t1, Fail (Some 429)) # (t2, r2) # rest"
    and "requestDelay s = 1000"
  shows "\<exists>w'. rateLimitedRequest rq s w =
                 ((case r2 of Ok b \<Rightarrow> Inr b | Fail st \<Rightarrow> Inl (HttpError st)), s, w') \<and>
              events w' = events w @ wait_before s w @
                          [Sent rq (Fail (Some 429)), Waited 2000, Resent rq r2] \<and>
              script w' = rest \<and>
              (r2 = Fail (Some 429) \<longrightarrow>
                 fst (rateLimitedRequest rq s w) = Inl (HttpError (Some 429)))"
  using gate_first_throttled[OF assms(1), of rq s] assms(2) by auto

theorem C4_throttled_request_is_retried_once_witness:
  "script throttled_twice = (10, Fail (Some 429)) # (10, Fail (Some 429)) # [(10, Ok (rows_body []))] \<and>
   requestDelay new_SnipeService = 1000 \<and>
   rateLimitedRequest list_manufacturers new_SnipeService throttled_twice =
     (Inl (HttpError (Some 429)), new_SnipeService,
      \<lparr> clock = 7020, script = [(10, Ok (rows_body []))],
        events = [Sent list_manufacturers (Fail (Some 429)), Waited 2000,
                  Resent list_manufacturers (Fail (Some 429))] \<rparr>)"
proof -
  have a: "script throttled_twice =
             (10, Fail (Some 429)) # (10, Fail (Some 429)) # [(10, Ok (rows_body []))]"
    by (simp add: throttled_twice_def)
  have b: "requestDelay new_SnipeService = 1000"
    by (simp add: new_SnipeService_def)
  obtain w' where w':
    "rateLimitedRequest list_manufacturers new_SnipeService throttled_twice =
       (Inl (HttpError (Some 429)), new_SnipeService, w')"
    "events w' = events throttled_twice @ wait_before new_SnipeService throttled_twice @
       [Sent list_manufacturers (Fail (Some 429)), Waited 2000,
        Resent list_manufacturers (Fail (Some 429))]"
    "script w' = [(10, Ok (rows_body []))]"
    using C4_throttled_request_is_retried_once[OF a b, of list_manufacturers] by auto
  have "rateLimitedRequest list_manufacturers new_SnipeService throttled_twice =
     (Inl (HttpError (Some 429)), new_SnipeService,
      \<lparr> clock = 7020, script = [(10, Ok (rows_body []))],
        events = [Sent list_manufacturers (Fail (Some 429)), Waited 2000,
                  Resent list_manufacturers (Fail (Some 429))] \<rparr>)"
    by (simp add: rateLimitedRequest_def dispatch_def sleep_def Let_def
        throttled_twice_def new_SnipeService_def)
  with a b w' show ?thesis by simp
qed

text \<open>
  C5, at a request that is throttled once and answered on the retry, sent through a
  fresh service at time 5000: the call returns the response at time 7020, and
  \<open>lastRequestTime\<close> is still 0, the service being unchanged. The first attempt of
  \<open>rateLimitedRequest\<close> sets \<open>lastRequestTime\<close> after its \<open>await\<close>; the retry returns
  \<open>await requestFn()\<close> directly.
\<close>

theorem C5_successful_retry_keeps_old_timestamp:
  "rateLimitedRequest list_manufacturers new_SnipeService throttled_once =
     (Inr (rows_body []), new_SnipeService,
      \<lparr> clock = 7020, script = [],
        events = [Sent list_manufacturers (Fail (Some 429)), Waited 2000,
                  Resent list_manufacturers (Ok (rows_body []))] \<rparr>) \<and>
   lastRequestTime new_SnipeService = 0"
  by (simp add: rateLimitedRequest_def dispatch_def sleep_def Let_def
      throttled_once_def new_SnipeService_def)

text \<open>The gate on any script: what it appends to the transcript and what it returns.\<close>

lemma gate_result:
  assumes "rateLimitedRequest rq s w = (r, s', w')"
  shows "\<exists>post. events w' = events w @ wait_before s w @ post \<and>
           ((\<exists>b. post = [Sent rq (Ok b)] \<and> r = Inr b \<and>
                 s' = s\<lparr>lastRequestTime := clock w'\<rparr>) \<or>
            (\<exists>st. post = [Sent rq (Fail st)] \<and> st \<noteq> Some 429 \<and>
                  r = Inl (HttpError st) \<and> s' = s) \<or>
            (\<exists>b. post = [Sent rq (Fail (Some 429)), Waited (requestDelay s * 2),
                          Resent rq (Ok b)] \<and>
                 r = Inr b \<and> s' = s) \<or>
            (\<exists>st. post = [Sent rq (Fail (Some 429)), Waited (requestDelay s * 2),
                           Resent rq (Fail st)] \<and>
                  r = Inl (HttpError st) \<and> s' = s))"
  using assms
  by (auto simp: rateLimitedRequest_def dispatch_def sleep_def wait_before_def Let_def
      split: list.splits reply.splits if_splits prod.splits)

lemma calls_wait_before: "calls (wait_before s w) = []"
  by (simp add: wait_before_def)

lemma gate_calls:
  assumes "rateLimitedRequest rq s w = (r, s', w')"
  shows "calls (events w') = calls (events w) @ [rq]"
  using gate_result[OF assms] by (auto simp: calls_append calls_wait_before)

lemma gate_caches:
  assumes "rateLimitedRequest rq s w = (r, s', w')"
  shows "modelCache s' = modelCache s \<and> manufacturerCache s' = manufacturerCache s \<and>
         categoryCache s' = categoryCache s \<and> requestDelay s' = requestDelay s"
  using gate_result[OF assms] by auto

text \<open>
  \<open>lastRequestTime\<close> changes only when the first attempt is answered: not by a wait,
  not by a rejected request, and not by an answered retry either.
\<close>

lemma gate_timestamp:
  assumes "rateLimitedRequest rq s w = (r, s', w')"
  shows "lastRequestTime s' = lastRequestTime s \<or>
         (lastRequestTime s' = clock w' \<and> (\<exists>b. r = Inr b \<and> last (events w') = Sent rq (Ok b)))"
  using gate_result[OF assms] by auto

section \<open>What each operation sends\<close>

lemma new_events_append: "events w' = events w @ es \<Longrightarrow> new_events w w' = es"
  by (simp add: new_events_def)

lemma sends_refl: "sends Q w w"
  by (simp add: sends_def)

lemma sends_trans: "sends Q w w1 \<Longrightarrow> sends Q w1 w2 \<Longrightarrow> sends Q w w2"
  by (auto simp: sends_def)

lemma sends_mono: "sends Q w w' \<Longrightarrow> (\<And>rq. Q rq \<Longrightarrow> Q' rq) \<Longrightarrow> sends Q' w w'"
proof -
  assume s: "sends Q w w'" and m: "\<And>rq. Q rq \<Longrightarrow> Q' rq"
  have "event_about Q e \<Longrightarrow> event_about Q' e" for e
    using m by (cases e) auto
  then show ?thesis
    using s by (auto simp: sends_def list_all_iff)
qed

lemma sends_new_events:
  assumes "sends Q w w'"
  shows "events w' = events w @ new_events w w'" and "list_all (event_about Q) (new_events w w')"
  using assms by (auto simp: sends_def new_events_def)

lemma calls_about:
  "list_all (event_about Q) es \<Longrightarrow> \<forall>rq\<in>set (calls es). Q rq"
  by (induction es rule: calls.induct) simp_all

lemma sends_calls:
  assumes "sends Q w w'"
  shows "\<exists>xs. calls (events w') = calls (events w) @ xs \<and> (\<forall>rq\<in>set xs. Q rq)"
proof -
  obtain es where es: "events w' = events w @ es" "list_all (event_about Q) es"
    using assms by (auto simp: sends_def)
  have "calls (events w') = calls (events w) @ calls es"
    using es(1) by (simp add: calls_append)
  then show ?thesis
    using calls_about[OF es(2)] by blast
qed

lemma sends_log: "sends Q w (w\<lparr>events := events w @ [Logged_failure x e]\<rparr>)"
  by (simp add: sends_def)

lemma gate_sends:
  assumes "rateLimitedRequest rq s w = (r, s', w')" and "Q rq"
  shows "sends Q w w'"
  using gate_result[OF assms(1)] assms(2) by (auto simp: sends_def wait_before_def)

lemma gate_answered:
  assumes "rateLimitedRequest rq s w = (Inr b, s', w')"
  shows "\<exists>e\<in>set (new_events w w'). answered e = Some (rq, b)"
  using gate_result[OF assms] by (auto simp: new_events_def)

lemma new_events_trans:
  assumes "sends Q w w1" and "sends Q' w1 w2"
  shows "new_events w w2 = new_events w w1 @ new_events w1 w2"
  using assms by (auto simp: sends_def new_events_def)

text \<open>Operations that make one request: the world they leave is the gate's.\<close>

lemma getCategories_gate:
  assumes "getCategories s w = (r, s1, w1)"
  shows "\<exists>r0 s0. rateLimitedRequest (Request GET (Collection Categories) []) s w = (r0, s0, w1)"
  using assms
  by (auto simp: getCategories_def split: sum.splits option.splits property.splits prod.splits)

lemma getManufacturers_gate:
  assumes "getManufacturers s w = (r, s1, w1)"
  shows "\<exists>r0 s0. rateLimitedRequest (Request GET (Collection Manufacturers) []) s w = (r0, s0, w1)"
  using assms
  by (auto simp: getManufacturers_def split: sum.splits option.splits property.splits prod.splits)

lemma getModels_gate:
  assumes "getModels s w = (r, s1, w1)"
  shows "\<exists>r0 s0. rateLimitedRequest (Request GET (Collection Models) []) s w = (r0, s0, w1)"
  using assms
  by (auto simp: getModels_def split: sum.splits option.splits property.splits prod.splits)

lemma createCategory_gate:
  assumes "createCategory name s w = (r, s1, w1)"
  shows "\<exists>r0 s0. rateLimitedRequest
                    (Request POST (Collection Categories) (categoryData name)) s w = (r0, s0, w1)"
  using assms
  by (auto simp: createCategory_def Let_def split: sum.splits option.splits property.splits if_splits prod.splits)

lemma createManufacturer_gate:
  assumes "createManufacturer name s w = (r, s1, w1)"
  shows "\<exists>r0 s0. rateLimitedRequest
                    (Request POST (Collection Manufacturers) (manufacturerData name)) s w =
                    (r0, s0, w1)"
  using assms
  by (auto simp: createManufacturer_def Let_def split: sum.splits prod.splits)

lemma getOrCreateAssetCategory_requests:
  assumes "getOrCreateAssetCategory nc s w = (r, s1, w1)"
    and "Q (Request GET (Collection Categories) [])"
    and "Q (Request POST (Collection Categories) (categoryData (getExpectedCategoryName nc)))"
  shows "sends Q w w1"
proof (cases "map_of (categoryCache s) (toLowerCase (getExpectedCategoryName nc))")
  case (Some c0)
  then show ?thesis
    using assms(1) by (simp add: getOrCreateAssetCategory_def Let_def sends_refl)
next
  case None
  obtain r0 s0 w0 where g: "getCategories s w = (r0, s0, w0)"
    by (metis prod_cases3)
  have s0: "sends Q w w0"
    using getCategories_gate[OF g] gate_sends assms(2) by fastforce
  show ?thesis
  proof (cases "\<exists>x. r0 = Inr x \<and>
                  map_of (categoryCache s0) (toLowerCase (getExpectedCategoryName nc)) = None")
    case True
    then have "createCategory (getExpectedCategoryName nc) s0 w0 = (r, s1, w1)"
      using assms(1) None g by (auto simp: getOrCreateAssetCategory_def Let_def)
    from createCategory_gate[OF this] have "sends Q w0 w1"
      using gate_sends assms(3) by fastforce
    with s0 show ?thesis
      by (rule sends_trans)
  next
    case False
    then have "w1 = w0"
      using assms(1) None g
      by (auto simp: getOrCreateAssetCategory_def Let_def split: sum.splits option.splits property.splits)
    with s0 show ?thesis
      by simp
  qed
qed

lemma getOrCreateAssetCategory_sends:
  assumes "getOrCreateAssetCategory nc s w = (r, s1, w1)"
    and "\<And>rq. target_of rq = Collection Categories \<Longrightarrow> Q rq"
  shows "sends Q w w1"
  by (rule getOrCreateAssetCategory_requests[OF assms(1)]) (simp_all add: assms(2))

section \<open>The asset of a device\<close>


lemma getChangedFields_nonempty: "getChangedFields now d a m mf = Inr cf \<Longrightarrow> 2 \<le> length cf"
  by (auto simp: getChangedFields_def split: option.splits property.splits)



lemma syncAsset_matched:
  assumes "map_of (assetsBySerial l) (toLowerCase (serialNumber (system d))) = Some a"
    and "getChangedFields (clock w) d a m mf = Inr cf"
  shows "syncAsset d m mf l s w =
           (case rateLimitedRequest (Request PATCH (Item Hardware (e_id a)) cf) s w of
              (Inl e, s1, w1) \<Rightarrow> (Inl e, s1, w1)
            | (Inr _, s1, w1) \<Rightarrow> (Inr Updated_asset, s1, w1))"
proof -
  have "cf \<noteq> []"
    using getChangedFields_nonempty[OF assms(2)] by auto
  then show ?thesis
    using assms by (simp add: syncAsset_def)
qed

lemma syncAsset_matched_calls:
  assumes "map_of (assetsBySerial l) (toLowerCase (serialNumber (system d))) = Some a"
    and "getChangedFields (clock w) d a m mf = Inr cf"
  shows "new_calls w (snd (snd (syncAsset d m mf l s w))) =
           [Request PATCH (Item Hardware (e_id a)) cf] \<and>
         fst (syncAsset d m mf l s w) \<noteq> Inr No_changes_needed \<and>
         fst (syncAsset d m mf l s w) \<noteq> Inr Created_new_asset"
proof -
  obtain r s1 w1 where g:
    "rateLimitedRequest (Request PATCH (Item Hardware (e_id a)) cf) s w = (r, s1, w1)"
    by (metis prod_cases3)
  have "calls (events w1) = calls (events w) @ [Request PATCH (Item Hardware (e_id a)) cf]"
    by (rule gate_calls[OF g])
  then have "new_calls w w1 = [Request PATCH (Item Hardware (e_id a)) cf]"
    by (rule new_calls_append)
  then show ?thesis
    using g by (cases r) (simp_all add: syncAsset_matched[OF assms])
qed

lemma syncAsset_matched_type_error:
  assumes "map_of (assetsBySerial l) (toLowerCase (serialNumber (system d))) = Some a"
    and "getChangedFields (clock w) d a m mf = Inl e"
  shows "syncAsset d m mf l s w = (Inl e, s, w)"
  using assms by (simp add: syncAsset_def)

lemma syncAsset_unmatched_calls:
  assumes "map_of (assetsBySerial l) (toLowerCase (serialNumber (system d))) = None"
  shows "new_calls w (snd (snd (syncAsset d m mf l s w))) =
           [Request POST (Collection Hardware) (createAssetData (clock w) d m mf)] \<and>
         fst (syncAsset d m mf l s w) \<noteq> Inr No_changes_needed \<and>
         fst (syncAsset d m mf l s w) \<noteq> Inr Updated_asset"
proof -
  obtain r s1 w1 where g:
    "rateLimitedRequest (Request POST (Collection Hardware) (createAssetData (clock w) d m mf))
       s w = (r, s1, w1)"
    by (metis prod_cases3)
  have "new_calls w w1 = [Request POST (Collection Hardware) (createAssetData (clock w) d m mf)]"
    by (rule new_calls_append[OF gate_calls[OF g]])
  then show ?thesis
    using g assms by (cases r) (simp_all add: syncAsset_def)
qed

text \<open>
  The comparisons are strict: a device without a display name and an asset whose name is
  \<open>null\<close> differ, and the patch sets the name to \<open>undefined\<close>.
\<close>

lemma getChangedFields_missing_name_differs_from_null:
  "getChangedFields 5000 anonymous_workstation unnamed_asset optiplex dell =
     Inr [(''name'', JUndefined),
          (''custom_fields'',
           JObject [(''_snipeit_processor_count_1'', JNumber 1), (''_snipeit_memory_2'', JNumber 8)]),
          (''notes'', JNotes 5000 ''corp'' ''Member Workstation'')]"
  by code_simp




lemma new_calls_same: "new_calls w w = []"
  by (simp add: new_calls_def)

text \<open>
  C2, as stated, on a run over the inventory, whose asset 7 has the empty string as its
  serial: two distinct devices with the empty serial number are both matched to asset 7,
  and the run patches that asset twice and creates nothing.
\<close>

theorem C2_counterexample:
  "serialNumber (system (workstation ''PC-A'' [])) = [] \<and>
   serialNumber (system (workstation ''PC-B'' [])) = [] \<and>
   e_serial blank_asset = Val [] \<and> e_id blank_asset = Val 7 \<and>
   map (\<lambda>rq. (verb_of rq, target_of rq))
     (calls (events (snd (snd
        (syncDevices [workstation ''PC-A'' [], workstation ''PC-B'' []] new_SnipeService
           inventory))))) =
     [(GET, Collection Categories), (GET, Collection Manufacturers), (GET, Collection Models),
      (GET, Collection Hardware), (PATCH, Item Hardware (Val 7)),
      (PATCH, Item Hardware (Val 7))]"
  by code_simp

text \<open>
  C2, amended: a device whose serial number is the empty string is looked up in the
  assets-by-serial map under the key \<open>''''\<close> like any other serial. The asset step creates
  an asset exactly when the map has no entry under the empty key; when an existing asset
  has the empty serial, the device is matched to that asset and the asset is patched.
\<close>

theorem C2_empty_serial_is_an_ordinary_key:
  assumes "serialNumber (system d) = []"
  shows "((\<exists>data. Request POST (Collection Hardware) data \<in>
                    set (new_calls w (snd (snd (syncAsset d m mf l s w)))))
            \<longleftrightarrow> map_of (assetsBySerial l) [] = None) \<and>
         (map_of (assetsBySerial l) [] = None \<longrightarrow>
            new_calls w (snd (snd (syncAsset d m mf l s w))) =
              [Request POST (Collection Hardware) (createAssetData (clock w) d m mf)]) \<and>
         (\<forall>a cf. map_of (assetsBySerial l) [] = Some a \<and>
                  getChangedFields (clock w) d a m mf = Inr cf \<longrightarrow>
            new_calls w (snd (snd (syncAsset d m mf l s w))) =
              [Request PATCH (Item Hardware (e_id a)) cf])"
proof -
  have key: "toLowerCase (serialNumber (system d)) = []"
    using assms by (simp add: toLowerCase_def)
  show ?thesis
  proof (cases "map_of (assetsBySerial l) []")
    case None
    then show ?thesis
      using syncAsset_unmatched_calls[of l d w m mf s] key by simp
  next
    case (Some a)
    show ?thesis
    proof (cases "getChangedFields (clock w) d a m mf")
      case (Inl e)
      then show ?thesis
        using Some key syncAsset_matched_type_error[of l d a w m mf e s]
        by (simp add: new_calls_same)
    next
      case (Inr cf)
      then show ?thesis
        using Some key syncAsset_matched_calls[of l d a w m mf cf s] by simp
    qed
  qed
qed

theorem C2_empty_serial_is_an_ordinary_key_witness:
  "serialNumber (system (workstation ''PC-B'' [])) = [] \<and>
   map_of (assetsBySerial preloaded) [] = Some blank_asset \<and>
   new_calls answering
     (snd (snd (syncAsset (workstation ''PC-B'' []) optiplex dell preloaded new_SnipeService
                  answering))) =
     [Request PATCH (Item Hardware (Val 7))
        [(''name'', JString ''PC-B''),
         (''custom_fields'',
          JObject [(''_snipeit_processor_count_1'', JNumber 1), (''_snipeit_memory_2'', JNumber 8)]),
         (''notes'', JNotes 5000 ''corp'' ''Member Workstation'')]]"
proof -
  have a: "serialNumber (system (workstation ''PC-B'' [])) = []"
    by code_simp
  have b: "map_of (assetsBySerial preloaded) [] = Some blank_asset"
    by code_simp
  have k: "clock answering = 5000"
    by (simp add: answering_def)
  have i: "e_id blank_asset = Val 7"
    by (simp add: blank_asset_def)
  have v: "getChangedFields 5000 (workstation ''PC-B'' []) blank_asset optiplex dell =
     Inr [(''name'', JString ''PC-B''),
          (''custom_fields'',
           JObject [(''_snipeit_processor_count_1'', JNumber 1), (''_snipeit_memory_2'', JNumber 8)]),
          (''notes'', JNotes 5000 ''corp'' ''Member Workstation'')]"
    by code_simp
  have "new_calls answering
          (snd (snd (syncAsset (workstation ''PC-B'' []) optiplex dell preloaded new_SnipeService
                       answering))) =
        [Request PATCH (Item Hardware (e_id blank_asset))
           [(''name'', JString ''PC-B''),
            (''custom_fields'',
             JObject [(''_snipeit_processor_count_1'', JNumber 1), (''_snipeit_memory_2'', JNumber 8)]),
            (''notes'', JNotes 5000 ''corp'' ''Member Workstation'')]]"
    using C2_empty_serial_is_an_ordinary_key[OF a, of answering optiplex dell preloaded
        new_SnipeService] b v
    unfolding k by blast
  with a b show ?thesis
    unfolding i by simp
qed

section \<open>Categories\<close>

lemma getCategories_calls:
  assumes "getCategories s w = (r, s1, w1)"
  shows "calls (events w1) = calls (events w) @ [Request GET (Collection Categories) []]"
proof -
  obtain r0 s0 w0 where g:
    "rateLimitedRequest (Request GET (Collection Categories) []) s w = (r0, s0, w0)"
    by (metis prod_cases3)
  have "w1 = w0"
    using assms g by (auto simp: getCategories_def split: sum.splits option.splits property.splits prod.splits)
  then show ?thesis
    using gate_calls[OF g] by simp
qed

lemma createCategory_calls:
  assumes "createCategory name s w = (r, s1, w1)"
  shows "calls (events w1) =
           calls (events w) @ [Request POST (Collection Categories) (categoryData name)]"
proof -
  obtain r0 s0 w0 where g:
    "rateLimitedRequest (Request POST (Collection Categories) (categoryData name)) s w =
       (r0, s0, w0)"
    by (metis prod_cases3)
  have "w1 = w0"
    using assms g
    by (auto simp: createCategory_def Let_def split: sum.splits option.splits property.splits if_splits)
  then show ?thesis
    using gate_calls[OF g] by simp
qed

lemma createCategory_stored:
  assumes "createCategory name s w = (Inr c, s1, w1)"
  shows "\<exists>n. e_name c = Val n \<and> map_of (categoryCache s1) (toLowerCase n) = Some c"
  using assms
  by (auto simp: createCategory_def Let_def update_Some_unfold
      split: sum.splits option.splits property.splits if_splits prod.splits)

lemma getOrCreateAssetCategory_hit:
  assumes "map_of (categoryCache s) (toLowerCase (getExpectedCategoryName nc)) = Some c"
  shows "getOrCreateAssetCategory nc s w = (Inr c, s, w)"
  using assms by (simp add: getOrCreateAssetCategory_def Let_def)

lemma getOrCreateAssetCategory_stored:
  assumes "getOrCreateAssetCategory nc s w = (Inr c, s1, w1)"
    and "e_name c = Val n"
    and "toLowerCase n = toLowerCase (getExpectedCategoryName nc)"
  shows "map_of (categoryCache s1) (toLowerCase (getExpectedCategoryName nc)) = Some c"
proof (cases "map_of (categoryCache s) (toLowerCase (getExpectedCategoryName nc))")
  case (Some c0)
  then show ?thesis
    using assms(1) by (simp add: getOrCreateAssetCategory_def Let_def)
next
  case None
  obtain r0 s0 w0 where g: "getCategories s w = (r0, s0, w0)"
    by (metis prod_cases3)
  show ?thesis
  proof (cases "map_of (categoryCache s0) (toLowerCase (getExpectedCategoryName nc))")
    case (Some c0)
    then show ?thesis
      using assms(1) None g
      by (auto simp: getOrCreateAssetCategory_def Let_def split: sum.splits)
  next
    case none0: None
    have "createCategory (getExpectedCategoryName nc) s0 w0 = (Inr c, s1, w1)"
      using assms(1) None none0 g
      by (auto simp: getOrCreateAssetCategory_def Let_def split: sum.splits)
    from createCategory_stored[OF this] assms(2,3) show ?thesis
      by auto
  qed
qed

lemma getOrCreateAssetCategory_calls:
  assumes "getOrCreateAssetCategory nc s w = (r, s1, w1)"
  shows "\<exists>xs. calls (events w1) = calls (events w) @ xs \<and>
           (xs = [] \<or> xs = [Request GET (Collection Categories) []] \<or>
            xs = [Request GET (Collection Categories) [],
                  Request POST (Collection Categories)
                    (categoryData (getExpectedCategoryName nc))])"
proof (cases "map_of (categoryCache s) (toLowerCase (getExpectedCategoryName nc))")
  case (Some c0)
  then show ?thesis
    using assms by (simp add: getOrCreateAssetCategory_def Let_def)
next
  case None
  obtain r0 s0 w0 where g: "getCategories s w = (r0, s0, w0)"
    by (metis prod_cases3)
  note gc = getCategories_calls[OF g]
  show ?thesis
  proof (cases r0)
    case (Inl e)
    then show ?thesis
      using assms None g gc by (simp add: getOrCreateAssetCategory_def Let_def)
  next
    case (Inr rows)
    show ?thesis
    proof (cases "map_of (categoryCache s0) (toLowerCase (getExpectedCategoryName nc))")
      case (Some c0)
      then show ?thesis
        using assms None g gc Inr by (simp add: getOrCreateAssetCategory_def Let_def)
    next
      case none0: None
      have "createCategory (getExpectedCategoryName nc) s0 w0 = (r, s1, w1)"
        using assms None none0 g Inr by (simp add: getOrCreateAssetCategory_def Let_def)
      from createCategory_calls[OF this] gc show ?thesis
        by simp
    qed
  qed
qed

lemma index_by_listed:
  "index_by e_name rows c = (Inr u, c') \<Longrightarrow>
     map_of c' k = (case listed k rows of Some x \<Rightarrow> Some x | None \<Rightarrow> map_of c k)"
proof (induction rows arbitrary: c)
  case Nil
  then show ?case by simp
next
  case (Cons a rows)
  show ?case
  proof (cases "e_name a")
    case Missing
    then show ?thesis
      using Cons.prems by simp
  next
    case Null
    then show ?thesis
      using Cons.prems by simp
  next
    case (Val n)
    have "index_by e_name rows (AList.update (toLowerCase n) a c) = (Inr u, c')"
      using Cons.prems Val by simp
    from Cons.IH[OF this] show ?thesis
      using Val by (simp add: update_conv' split: option.splits)
  qed
qed

lemma index_by_named:
  "\<forall>x\<in>set rows. \<exists>n. e_name x = Val n \<Longrightarrow> \<exists>c'. index_by e_name rows c = (Inr (), c')"
proof (induction rows arbitrary: c)
  case Nil
  then show ?case by simp
next
  case (Cons a rows)
  obtain n where n: "e_name a = Val n"
    using Cons.prems by auto
  have "\<forall>x\<in>set rows. \<exists>n. e_name x = Val n"
    using Cons.prems by simp
  from Cons.IH[OF this, of "AList.update (toLowerCase n) a c"] show ?case
    using n by simp
qed

text \<open>
  A listing of the categories that is answered with rows that all bear a name replaces
  the category cache by the index of the rows.
\<close>

lemma getCategories_listed:
  assumes "rateLimitedRequest (Request GET (Collection Categories) []) s w = (Inr b, s0, w0)"
    and "b_rows b = Some rows"
    and "\<forall>x\<in>set rows. \<exists>n. e_name x = Val n"
  shows "\<exists>c'. getCategories s w = (Inr rows, s0\<lparr>categoryCache := c'\<rparr>, w0) \<and>
              (\<forall>k. map_of c' k = listed k rows)"
proof -
  obtain c' where c': "index_by e_name rows [] = (Inr (), c')"
    using index_by_named[OF assms(3)] by blast
  have "\<forall>k. map_of c' k = listed k rows"
    using index_by_listed[OF c'] by (simp split: option.splits)
  moreover have "getCategories s w = (Inr rows, s0\<lparr>categoryCache := c'\<rparr>, w0)"
    using assms(1,2) c' by (simp add: getCategories_def)
  ultimately show ?thesis
    by blast
qed

text \<open>
  A call that misses the cache and whose listing is answered: the listed category of the
  name is returned after that one request, and only when none is listed does the
  creation follow.
\<close>

lemma getOrCreateAssetCategory_miss:
  assumes "getOrCreateAssetCategory nc s w = (r, s1, w1)"
    and "map_of (categoryCache s) (toLowerCase (getExpectedCategoryName nc)) = None"
    and "rateLimitedRequest (Request GET (Collection Categories) []) s w = (Inr b, s0, w0)"
    and "b_rows b = Some rows"
    and "\<forall>x\<in>set rows. \<exists>n. e_name x = Val n"
  shows "case listed (toLowerCase (getExpectedCategoryName nc)) rows of
           Some c \<Rightarrow> r = Inr c \<and> new_calls w w1 = [Request GET (Collection Categories) []]
         | None \<Rightarrow>
             new_calls w w1 =
               [Request GET (Collection Categories) [],
                Request POST (Collection Categories) (categoryData (getExpectedCategoryName nc))]"
proof -
  obtain c' where g: "getCategories s w = (Inr rows, s0\<lparr>categoryCache := c'\<rparr>, w0)"
    and l: "\<forall>k. map_of c' k = listed k rows"
    using getCategories_listed[OF assms(3,4,5)] by blast
  have c0: "calls (events w0) = calls (events w) @ [Request GET (Collection Categories) []]"
    by (rule gate_calls[OF assms(3)])
  show ?thesis
  proof (cases "listed (toLowerCase (getExpectedCategoryName nc)) rows")
    case (Some c)
    then have "map_of c' (toLowerCase (getExpectedCategoryName nc)) = Some c"
      using l by simp
    then have "(r, s1, w1) = (Inr c, s0\<lparr>categoryCache := c'\<rparr>, w0)"
      using assms(1,2) g by (simp add: getOrCreateAssetCategory_def Let_def)
    then show ?thesis
      using Some new_calls_append[OF c0] by simp
  next
    case None
    then have "map_of c' (toLowerCase (getExpectedCategoryName nc)) = None"
      using l by simp
    then have "createCategory (getExpectedCategoryName nc) (s0\<lparr>categoryCache := c'\<rparr>) w0 =
                 (r, s1, w1)"
      using assms(1,2) g by (simp add: getOrCreateAssetCategory_def Let_def)
    from createCategory_calls[OF this] have
      "calls (events w1) =
         calls (events w) @
           [Request GET (Collection Categories) [],
            Request POST (Collection Categories) (categoryData (getExpectedCategoryName nc))]"
      using c0 by simp
    from new_calls_append[OF this] show ?thesis
      using None by simp
  qed
qed

lemma index_by_ok:
  "index_by e_name rows c = (Inr u, c') \<Longrightarrow> \<forall>x\<in>set rows. \<exists>n. e_name x = Val n"
proof (induction rows arbitrary: c)
  case Nil
  then show ?case by simp
next
  case (Cons a rows)
  show ?case
  proof (cases "e_name a")
    case Missing
    then show ?thesis
      using Cons.prems by simp
  next
    case Null
    then show ?thesis
      using Cons.prems by simp
  next
    case (Val n)
    have "index_by e_name rows (AList.update (toLowerCase n) a c) = (Inr u, c')"
      using Cons.prems Val by simp
    from Cons.IH[OF this] show ?thesis
      using Val by simp
  qed
qed

lemma getCategories_ok:
  assumes "getCategories s w = (Inr rows, s1, w1)"
  shows "\<exists>b s0. rateLimitedRequest (Request GET (Collection Categories) []) s w = (Inr b, s0, w1) \<and>
           b_rows b = Some rows \<and> (\<forall>x\<in>set rows. \<exists>n. e_name x = Val n)"
proof -
  obtain r0 s0 w0 where g:
    "rateLimitedRequest (Request GET (Collection Categories) []) s w = (r0, s0, w0)"
    by (metis prod_cases3)
  obtain b where b: "r0 = Inr b"
    using assms g by (cases r0) (simp_all add: getCategories_def)
  have rows: "b_rows b = Some rows"
    using assms g b
    by (auto simp: getCategories_def split: option.splits sum.splits prod.splits)
  obtain c' where "index_by e_name rows [] = (Inr (), c')"
    using assms g b rows
    by (auto simp: getCategories_def split: sum.splits prod.splits)
  then have "\<forall>x\<in>set rows. \<exists>n. e_name x = Val n"
    by (rule index_by_ok)
  moreover have "w1 = w0"
    using assms g b rows by (auto simp: getCategories_def split: sum.splits prod.splits)
  ultimately show ?thesis
    using g b rows by simp
qed

text \<open>A creation call is made only after a listing that holds no category of the name.\<close>

lemma getOrCreateAssetCategory_creates_only_unlisted:
  assumes "getOrCreateAssetCategory nc s w = (r, s1, w1)"
    and "Request POST (Collection Categories) data \<in> set (new_calls w w1)"
  shows "map_of (categoryCache s) (toLowerCase (getExpectedCategoryName nc)) = None \<and>
         (\<exists>b s0 w0 rows.
            rateLimitedRequest (Request GET (Collection Categories) []) s w = (Inr b, s0, w0) \<and>
            b_rows b = Some rows \<and> (\<forall>x\<in>set rows. \<exists>n. e_name x = Val n) \<and>
            listed (toLowerCase (getExpectedCategoryName nc)) rows = None)"
proof (cases "map_of (categoryCache s) (toLowerCase (getExpectedCategoryName nc))")
  case (Some c0)
  then have "w1 = w"
    using assms(1) by (simp add: getOrCreateAssetCategory_hit)
  then show ?thesis
    using assms(2) by (simp add: new_calls_def)
next
  case None
  obtain rc sc wc where g: "getCategories s w = (rc, sc, wc)"
    by (metis prod_cases3)
  show ?thesis
  proof (cases rc)
    case (Inl e)
    then have "w1 = wc"
      using assms(1) None g by (simp add: getOrCreateAssetCategory_def Let_def)
    then have "new_calls w w1 = [Request GET (Collection Categories) []]"
      using new_calls_append[OF getCategories_calls[OF g]] by simp
    then show ?thesis
      using assms(2) by simp
  next
    case (Inr rows)
    obtain b s0 where b:
      "rateLimitedRequest (Request GET (Collection Categories) []) s w = (Inr b, s0, wc)"
      "b_rows b = Some rows" "\<forall>x\<in>set rows. \<exists>n. e_name x = Val n"
      using getCategories_ok[OF g[unfolded Inr]] by blast
    show ?thesis
    proof (cases "listed (toLowerCase (getExpectedCategoryName nc)) rows")
      case none: None
      then show ?thesis
        using None b by blast
    next
      case (Some c)
      then have "new_calls w w1 = [Request GET (Collection Categories) []]"
        using getOrCreateAssetCategory_miss[OF assms(1) None b] by simp
      then show ?thesis
        using assms(2) by simp
    qed
  qed
qed

text \<open>
  C6, as stated, on two inputs. A run over two workstations against a target system
  that rejects the first creation of their category: the creation is issued a second
  time for the second device, so the run issues two creation calls for the one mapped
  name. And three calls of \<open>getOrCreateAssetCategory\<close> in a row, for a workstation, a
  server and a workstation again, against a target system that lists the category of
  workstations under another id when the second call re-loads the cache: the first and
  the third call return categories with the ids 2 and 12.
\<close>

theorem C6_counterexample:
  "getExpectedCategoryName ''WINDOWS_WORKSTATION'' = ''Windows Workstations'' \<and>
   filter (\<lambda>rq. verb_of rq = POST \<and> target_of rq = Collection Categories)
     (calls (events (snd (snd
        (syncDevices [workstation ''PC-A'' ''SN1'', workstation ''PC-B'' ''SN2''] new_SnipeService
           rejecting_category))))) =
     [Request POST (Collection Categories) (categoryData ''Windows Workstations''),
      Request POST (Collection Categories) (categoryData ''Windows Workstations'')] \<and>
   (case getOrCreateAssetCategory ''WINDOWS_WORKSTATION'' new_SnipeService relisting of
      (first, s1, w1) \<Rightarrow>
        (case getOrCreateAssetCategory ''WINDOWS_SERVER'' s1 w1 of
           (other, s2, w2) \<Rightarrow>
             (first, other, fst (getOrCreateAssetCategory ''WINDOWS_WORKSTATION'' s2 w2)))) =
     (Inr workstations, Inr servers, Inr workstations_again) \<and>
   e_id workstations = Val 2 \<and> e_id workstations_again = Val 12"
  by code_simp

text \<open>
  C6, amended: category resolution goes through the category cache. A call of
  \<open>getOrCreateAssetCategory\<close> whose mapped name is in the cache returns the cached Category
  and sends nothing. On a miss the call lists the categories again; when the listing is
  answered (with rows that all bear a name) and holds a category of the mapped name, the
  call returns that category and creates nothing, and when it holds none the call issues
  the creation for the mapped name; a creation call is issued in no other case, so a
  call issues at most one, and none while the name is cached or listed. Once a call has returned a Category that bears the
  mapped name, the cache holds it under the lower-cased name, and a second call with the
  same nodeClass returns the same Category (the same id) without a request; so does any
  later call for as long as the cache holds it.
\<close>

theorem C6_category_resolution_goes_through_the_cache:
  assumes "getOrCreateAssetCategory nc s w = (r, s1, w1)"
  shows "(\<forall>c. map_of (categoryCache s) (toLowerCase (getExpectedCategoryName nc)) = Some c \<longrightarrow>
            r = Inr c \<and> s1 = s \<and> w1 = w) \<and>
         (\<forall>b s0 w0 rows.
            map_of (categoryCache s) (toLowerCase (getExpectedCategoryName nc)) = None \<and>
            rateLimitedRequest (Request GET (Collection Categories) []) s w = (Inr b, s0, w0) \<and>
            b_rows b = Some rows \<and> (\<forall>x\<in>set rows. \<exists>n. e_name x = Val n) \<longrightarrow>
            (case listed (toLowerCase (getExpectedCategoryName nc)) rows of
               Some c \<Rightarrow> r = Inr c \<and> new_calls w w1 = [Request GET (Collection Categories) []]
             | None \<Rightarrow>
                 new_calls w w1 =
                   [Request GET (Collection Categories) [],
                    Request POST (Collection Categories)
                      (categoryData (getExpectedCategoryName nc))])) \<and>
         (new_calls w w1 = [] \<or>
          new_calls w w1 = [Request GET (Collection Categories) []] \<or>
          new_calls w w1 =
            [Request GET (Collection Categories) [],
             Request POST (Collection Categories) (categoryData (getExpectedCategoryName nc))]) \<and>
         (\<forall>data. Request POST (Collection Categories) data \<in> set (new_calls w w1) \<longrightarrow>
            map_of (categoryCache s) (toLowerCase (getExpectedCategoryName nc)) = None \<and>
            (\<exists>b s0 w0 rows.
               rateLimitedRequest (Request GET (Collection Categories) []) s w =
                 (Inr b, s0, w0) \<and>
               b_rows b = Some rows \<and> (\<forall>x\<in>set rows. \<exists>n. e_name x = Val n) \<and>
               listed (toLowerCase (getExpectedCategoryName nc)) rows = None)) \<and>
         map_of (categoryData (getExpectedCategoryName nc)) ''name'' =
           Some (JString (getExpectedCategoryName nc)) \<and>
         (\<forall>c n. r = Inr c \<and> e_name c = Val n \<and>
                 toLowerCase n = toLowerCase (getExpectedCategoryName nc) \<longrightarrow>
            map_of (categoryCache s1) (toLowerCase (getExpectedCategoryName nc)) = Some c \<and>
            getOrCreateAssetCategory nc s1 w1 = (Inr c, s1, w1))"
proof -
  have name: "map_of (categoryData (getExpectedCategoryName nc)) ''name'' =
           Some (JString (getExpectedCategoryName nc))"
    by (simp add: categoryData_def)
  have hit: "\<forall>c. map_of (categoryCache s) (toLowerCase (getExpectedCategoryName nc)) = Some c \<longrightarrow>
            r = Inr c \<and> s1 = s \<and> w1 = w"
    using assms by (auto simp: getOrCreateAssetCategory_hit)
  have miss: "\<forall>b s0 w0 rows.
            map_of (categoryCache s) (toLowerCase (getExpectedCategoryName nc)) = None \<and>
            rateLimitedRequest (Request GET (Collection Categories) []) s w = (Inr b, s0, w0) \<and>
            b_rows b = Some rows \<and> (\<forall>x\<in>set rows. \<exists>n. e_name x = Val n) \<longrightarrow>
            (case listed (toLowerCase (getExpectedCategoryName nc)) rows of
               Some c \<Rightarrow> r = Inr c \<and> new_calls w w1 = [Request GET (Collection Categories) []]
             | None \<Rightarrow>
                 new_calls w w1 =
                   [Request GET (Collection Categories) [],
                    Request POST (Collection Categories)
                      (categoryData (getExpectedCategoryName nc))])"
    using getOrCreateAssetCategory_miss[OF assms] by blast
  obtain xs where xs: "calls (events w1) = calls (events w) @ xs"
    and shape: "xs = [] \<or> xs = [Request GET (Collection Categories) []] \<or>
            xs = [Request GET (Collection Categories) [],
                  Request POST (Collection Categories)
                    (categoryData (getExpectedCategoryName nc))]"
    using getOrCreateAssetCategory_calls[OF assms] by blast
  have "new_calls w w1 = xs"
    by (rule new_calls_append[OF xs])
  then have count: "new_calls w w1 = [] \<or>
          new_calls w w1 = [Request GET (Collection Categories) []] \<or>
          new_calls w w1 =
            [Request GET (Collection Categories) [],
             Request POST (Collection Categories) (categoryData (getExpectedCategoryName nc))]"
    using shape by simp
  have again: "\<forall>c n. r = Inr c \<and> e_name c = Val n \<and>
                 toLowerCase n = toLowerCase (getExpectedCategoryName nc) \<longrightarrow>
            map_of (categoryCache s1) (toLowerCase (getExpectedCategoryName nc)) = Some c \<and>
            getOrCreateAssetCategory nc s1 w1 = (Inr c, s1, w1)"
  proof (intro allI impI, elim conjE)
    fix c n
    assume k: "r = Inr c" "e_name c = Val n"
      "toLowerCase n = toLowerCase (getExpectedCategoryName nc)"
    have "map_of (categoryCache s1) (toLowerCase (getExpectedCategoryName nc)) = Some c"
      using getOrCreateAssetCategory_stored[OF assms[unfolded k(1)] k(2,3)] .
    then show "map_of (categoryCache s1) (toLowerCase (getExpectedCategoryName nc)) = Some c \<and>
               getOrCreateAssetCategory nc s1 w1 = (Inr c, s1, w1)"
      by (simp add: getOrCreateAssetCategory_hit)
  qed
  have only: "\<forall>data. Request POST (Collection Categories) data \<in> set (new_calls w w1) \<longrightarrow>
            map_of (categoryCache s) (toLowerCase (getExpectedCategoryName nc)) = None \<and>
            (\<exists>b s0 w0 rows.
               rateLimitedRequest (Request GET (Collection Categories) []) s w =
                 (Inr b, s0, w0) \<and>
               b_rows b = Some rows \<and> (\<forall>x\<in>set rows. \<exists>n. e_name x = Val n) \<and>
               listed (toLowerCase (getExpectedCategoryName nc)) rows = None)"
    using getOrCreateAssetCategory_creates_only_unlisted[OF assms] by blast
  from hit miss count only name again show ?thesis
    by (intro conjI)
qed

theorem C6_category_resolution_goes_through_the_cache_witness:
  "getOrCreateAssetCategory ''WINDOWS_WORKSTATION'' new_SnipeService no_categories =
     (Inr workstations,
      new_SnipeService\<lparr>categoryCache := [(''windows workstations'', workstations)],
                        lastRequestTime := 6020\<rparr>,
      \<lparr> clock = 6020, script = [(10, Ok (rows_body []))],
        events = [Sent (Request GET (Collection Categories) []) (Ok (rows_body [])),
                  Waited 1000,
                  Sent (Request POST (Collection Categories) (categoryData ''Windows Workstations''))
                    (Ok (envelope workstations))] \<rparr>) \<and>
   new_calls no_categories
     \<lparr> clock = 6020, script = [(10, Ok (rows_body []))],
        events = [Sent (Request GET (Collection Categories) []) (Ok (rows_body [])),
                  Waited 1000,
                  Sent (Request POST (Collection Categories) (categoryData ''Windows Workstations''))
                    (Ok (envelope workstations))] \<rparr> =
     [Request GET (Collection Categories) [],
      Request POST (Collection Categories) (categoryData ''Windows Workstations'')] \<and>
   getOrCreateAssetCategory ''WINDOWS_WORKSTATION''
     (new_SnipeService\<lparr>categoryCache := [(''windows workstations'', workstations)],
                        lastRequestTime := 6020\<rparr>)
     \<lparr> clock = 6020, script = [(10, Ok (rows_body []))],
        events = [Sent (Request GET (Collection Categories) []) (Ok (rows_body [])),
                  Waited 1000,
                  Sent (Request POST (Collection Categories) (categoryData ''Windows Workstations''))
                    (Ok (envelope workstations))] \<rparr> =
     (Inr workstations,
      new_SnipeService\<lparr>categoryCache := [(''windows workstations'', workstations)],
                        lastRequestTime := 6020\<rparr>,
      \<lparr> clock = 6020, script = [(10, Ok (rows_body []))],
        events = [Sent (Request GET (Collection Categories) []) (Ok (rows_body [])),
                  Waited 1000,
                  Sent (Request POST (Collection Categories) (categoryData ''Windows Workstations''))
                    (Ok (envelope workstations))] \<rparr>) \<and>
   listed (toLowerCase (getExpectedCategoryName ''WINDOWS_WORKSTATION'')) [workstations] =
     Some workstations \<and>
   fst (getOrCreateAssetCategory ''WINDOWS_WORKSTATION'' new_SnipeService correcting) =
     Inr workstations \<and>
   new_calls correcting
     (snd (snd (getOrCreateAssetCategory ''WINDOWS_WORKSTATION'' new_SnipeService correcting))) =
     [Request GET (Collection Categories) []]"
proof -
  have a: "getOrCreateAssetCategory ''WINDOWS_WORKSTATION'' new_SnipeService no_categories =
     (Inr workstations,
      new_SnipeService\<lparr>categoryCache := [(''windows workstations'', workstations)],
                        lastRequestTime := 6020\<rparr>,
      \<lparr> clock = 6020, script = [(10, Ok (rows_body []))],
        events = [Sent (Request GET (Collection Categories) []) (Ok (rows_body [])),
                  Waited 1000,
                  Sent (Request POST (Collection Categories) (categoryData ''Windows Workstations''))
                    (Ok (envelope workstations))] \<rparr>)"
    by code_simp
  have m: "map_of (categoryCache new_SnipeService)
             (toLowerCase (getExpectedCategoryName ''WINDOWS_WORKSTATION'')) = None"
    by (simp add: new_SnipeService_def)
  have g: "rateLimitedRequest (Request GET (Collection Categories) []) new_SnipeService
             no_categories =
           (Inr (rows_body []), new_SnipeService\<lparr>lastRequestTime := 5010\<rparr>,
            \<lparr> clock = 5010,
              script = [(10, Ok (envelope workstations)), (10, Ok (rows_body []))],
              events = [Sent (Request GET (Collection Categories) []) (Ok (rows_body []))] \<rparr>)"
    by code_simp
  have rows: "b_rows (rows_body []) = Some []"
    by (simp add: rows_body_def)
  have none: "listed (toLowerCase (getExpectedCategoryName ''WINDOWS_WORKSTATION'')) [] = None"
    by simp
  have n: "getExpectedCategoryName ''WINDOWS_WORKSTATION'' = ''Windows Workstations''"
    by (simp add: getExpectedCategoryName_def)
  have b: "e_name workstations = Val ''Windows Workstations''"
    by (simp add: workstations_def)
  note first = C6_category_resolution_goes_through_the_cache[OF a]
  have created: "new_calls no_categories
     \<lparr> clock = 6020, script = [(10, Ok (rows_body []))],
        events = [Sent (Request GET (Collection Categories) []) (Ok (rows_body [])),
                  Waited 1000,
                  Sent (Request POST (Collection Categories) (categoryData ''Windows Workstations''))
                    (Ok (envelope workstations))] \<rparr> =
     [Request GET (Collection Categories) [],
      Request POST (Collection Categories) (categoryData ''Windows Workstations'')]"
    using first[THEN conjunct2, THEN conjunct1, rule_format, of "rows_body []" _ _ "[]"]
      m g rows none n
    by simp
  have again: "getOrCreateAssetCategory ''WINDOWS_WORKSTATION''
     (new_SnipeService\<lparr>categoryCache := [(''windows workstations'', workstations)],
                        lastRequestTime := 6020\<rparr>)
     \<lparr> clock = 6020, script = [(10, Ok (rows_body []))],
        events = [Sent (Request GET (Collection Categories) []) (Ok (rows_body [])),
                  Waited 1000,
                  Sent (Request POST (Collection Categories) (categoryData ''Windows Workstations''))
                    (Ok (envelope workstations))] \<rparr> =
     (Inr workstations,
      new_SnipeService\<lparr>categoryCache := [(''windows workstations'', workstations)],
                        lastRequestTime := 6020\<rparr>,
      \<lparr> clock = 6020, script = [(10, Ok (rows_body []))],
        events = [Sent (Request GET (Collection Categories) []) (Ok (rows_body [])),
                  Waited 1000,
                  Sent (Request POST (Collection Categories) (categoryData ''Windows Workstations''))
                    (Ok (envelope workstations))] \<rparr>)"
    using first[THEN conjunct2, THEN conjunct2, THEN conjunct2, THEN conjunct2, THEN conjunct2,
        rule_format, of workstations "''Windows Workstations''"] b n
    by simp
  obtain r s1 w1 where a2:
    "getOrCreateAssetCategory ''WINDOWS_WORKSTATION'' new_SnipeService correcting = (r, s1, w1)"
    by (metis prod_cases3)
  have g2: "rateLimitedRequest (Request GET (Collection Categories) []) new_SnipeService
              correcting =
            (Inr (rows_body [workstations]), new_SnipeService\<lparr>lastRequestTime := 5010\<rparr>,
             \<lparr> clock = 5010, script = [(10, Ok (envelope optiplex))],
               events = [Sent (Request GET (Collection Categories) [])
                           (Ok (rows_body [workstations]))] \<rparr>)"
    by code_simp
  have rows2: "b_rows (rows_body [workstations]) = Some [workstations]"
    by (simp add: rows_body_def)
  have named: "\<forall>x\<in>set [workstations]. \<exists>n. e_name x = Val n"
    using b by simp
  have some: "listed (toLowerCase (getExpectedCategoryName ''WINDOWS_WORKSTATION''))
                [workstations] = Some workstations"
    by code_simp
  have "r = Inr workstations \<and> new_calls correcting w1 = [Request GET (Collection Categories) []]"
    using C6_category_resolution_goes_through_the_cache[OF a2, THEN conjunct2, THEN conjunct1,
        rule_format, of "rows_body [workstations]" _ _ "[workstations]"]
      m g2 rows2 named some
    by simp
  then have listed: "fst (getOrCreateAssetCategory ''WINDOWS_WORKSTATION'' new_SnipeService
                            correcting) = Inr workstations \<and>
     new_calls correcting
       (snd (snd (getOrCreateAssetCategory ''WINDOWS_WORKSTATION'' new_SnipeService correcting))) =
       [Request GET (Collection Categories) []]"
    using a2 by simp
  from a created again some listed show ?thesis
    by (intro conjI) simp_all
qed


section \<open>The model of a device\<close>

lemma updateModel_sends:
  assumes "updateModel d m mf l s w = (r, l1, s1, w1)"
    and "\<And>rq. target_of rq = Collection Categories \<Longrightarrow> Q rq"
    and "\<And>rq. target_of rq = Item Models (e_id m) \<Longrightarrow> Q rq"
  shows "sends Q w w1"
proof -
  obtain r0 s0 w0 where c: "getOrCreateAssetCategory (nodeClass d) s w = (r0, s0, w0)"
    by (metis prod_cases3)
  have s0: "sends Q w w0"
    by (rule getOrCreateAssetCategory_sends[OF c assms(2)])
  show ?thesis
  proof (cases r0)
    case (Inl e)
    then show ?thesis
      using assms(1) c s0 by (simp add: updateModel_def)
  next
    case (Inr cat)
    obtain r2 s2 w2 where g:
      "rateLimitedRequest
         (Request PUT (Item Models (e_id m))
            (updateData (model (system d)) (e_id mf) (e_id cat))) s0 w0 = (r2, s2, w2)"
      by (metis prod_cases3)
    have "w1 = w2"
      using assms(1) c Inr g by (auto simp: updateModel_def Let_def split: sum.splits)
    moreover have "sends Q w0 w2"
      by (rule gate_sends[OF g]) (simp add: assms(3))
    ultimately show ?thesis
      using s0 sends_trans by blast
  qed
qed

text \<open>
  The update block, whatever the replies of the target system. \<open>wp\<close> is an earlier
  state of the world, since which no update has been sent.
\<close>

lemma updateModel_outcome:
  assumes "updateModel d m mf l s w = (r, l1, s1, w1)"
    and "sends (\<lambda>rq. verb_of rq \<noteq> PUT) wp w"
  shows "case getOrCreateAssetCategory (nodeClass d) s w of
           (Inl e, s0, w0) \<Rightarrow>
             (r, l1, s1, w1) = (Inl e, l, s0, w0) \<and>
             filter (\<lambda>rq. verb_of rq = PUT) (new_calls wp w1) = [] \<and>
             list_all (event_about (\<lambda>rq. verb_of rq \<noteq> PUT)) (new_events wp w1)
         | (Inr cat, s0, w0) \<Rightarrow>
             filter (\<lambda>rq. verb_of rq = PUT) (new_calls wp w1) =
               [model_update (e_id m) (model (system d)) (e_id mf) (e_id cat)] \<and>
             list_all
               (event_about
                  (\<lambda>rq. verb_of rq = PUT \<longrightarrow>
                         rq = model_update (e_id m) (model (system d)) (e_id mf) (e_id cat)))
               (new_events wp w1) \<and>
             (case rateLimitedRequest
                     (model_update (e_id m) (model (system d)) (e_id mf) (e_id cat)) s0 w0 of
                (Inl e, s2, w2) \<Rightarrow> (r, l1, s1, w1) = (Inl e, l, s2, w2)
              | (Inr b, s2, w2) \<Rightarrow>
                  (r, l1, s1, w1) =
                    (Inr (payload_or_data b),
                     l\<lparr>modelsByName :=
                          AList.update (toLowerCase (model (system d))) (payload_or_data b)
                            (modelsByName l)\<rparr>,
                     s2, w2) \<and>
                  map_of (modelsByName l1) (toLowerCase (model (system d))) =
                    Some (payload_or_data b))"
proof -
  obtain r0 s0 w0 where c: "getOrCreateAssetCategory (nodeClass d) s w = (r0, s0, w0)"
    by (metis prod_cases3)
  have "sends (\<lambda>rq. verb_of rq \<noteq> PUT) w w0"
    by (rule getOrCreateAssetCategory_requests[OF c]) simp_all
  with assms(2) have quiet: "sends (\<lambda>rq. verb_of rq \<noteq> PUT) wp w0"
    by (rule sends_trans)
  obtain xs where xs: "calls (events w0) = calls (events wp) @ xs"
    and no_put: "\<forall>rq\<in>set xs. verb_of rq \<noteq> PUT"
    using sends_calls[OF quiet] by blast
  show ?thesis
  proof (cases r0)
    case (Inl e)
    have res: "(r, l1, s1, w1) = (Inl e, l, s0, w0)"
      using assms(1) c Inl by (simp add: updateModel_def)
    have "new_calls wp w0 = xs"
      by (rule new_calls_append[OF xs])
    then have "filter (\<lambda>rq. verb_of rq = PUT) (new_calls wp w0) = []"
      using no_put by (simp add: filter_empty_conv)
    moreover have "list_all (event_about (\<lambda>rq. verb_of rq \<noteq> PUT)) (new_events wp w0)"
      by (rule sends_new_events(2)[OF quiet])
    ultimately show ?thesis
      using c Inl res by simp
  next
    case (Inr cat)
    let ?put = "model_update (e_id m) (model (system d)) (e_id mf) (e_id cat)"
    have put: "Request PUT (Item Models (e_id m))
                 (updateData (model (system d)) (e_id mf) (e_id cat)) = ?put"
      by (simp add: model_update_def updateData_def)
    obtain r2 s2 w2 where g: "rateLimitedRequest ?put s0 w0 = (r2, s2, w2)"
      by (metis prod_cases3)
    have res: "case r2 of
                 Inl e \<Rightarrow> (r, l1, s1, w1) = (Inl e, l, s2, w2)
               | Inr b \<Rightarrow>
                   (r, l1, s1, w1) =
                     (Inr (payload_or_data b),
                      l\<lparr>modelsByName :=
                           AList.update (toLowerCase (model (system d))) (payload_or_data b)
                             (modelsByName l)\<rparr>,
                      s2, w2)"
      using assms(1) c Inr g by (cases r2) (simp_all add: updateModel_def put Let_def)
    have w1: "w1 = w2"
      using res by (cases r2) simp_all
    have "calls (events w2) = calls (events wp) @ xs @ [?put]"
      using gate_calls[OF g] xs by simp
    then have "new_calls wp w2 = xs @ [?put]"
      by (rule new_calls_append)
    then have one: "filter (\<lambda>rq. verb_of rq = PUT) (new_calls wp w1) = [?put]"
      using no_put w1 by (simp add: filter_empty_conv model_update_def)
    have "sends (\<lambda>rq. verb_of rq = PUT \<longrightarrow> rq = ?put) wp w0"
      by (rule sends_mono[OF quiet]) simp
    moreover have "sends (\<lambda>rq. verb_of rq = PUT \<longrightarrow> rq = ?put) w0 w2"
      by (rule gate_sends[OF g]) simp
    ultimately have "sends (\<lambda>rq. verb_of rq = PUT \<longrightarrow> rq = ?put) wp w2"
      by (rule sends_trans)
    then have wire: "list_all (event_about (\<lambda>rq. verb_of rq = PUT \<longrightarrow> rq = ?put))
                       (new_events wp w1)"
      using w1 sends_new_events(2) by blast
    show ?thesis
      using c Inr g one wire res
      by (cases r2) (simp_all add: update_Some_unfold)
  qed
qed

text \<open>A model of the lookup map that carries another manufacturer is updated.\<close>

lemma syncModel_drift:
  assumes "map_of (modelsByName l) (toLowerCase (model (system d))) = Some m"
    and "e_manufacturer m = Some mr" and "\<not> falsy_id (ref_id mr)"
    and "ref_id mr \<noteq> e_id mf"
  shows "syncModel d mf l s w = updateModel d m mf l s w"
  using assms
  by (simp add: syncModel_def Let_def refetch_model_def update_if_needed_def needs_update_def)

text \<open>
  C7, as stated, on two inputs, both with a lookup map whose model of the device's name
  carries the manufacturer id 4 while the manufacturer resolved for the device has the
  id 3. Against a target system that answers the update with the flat record of the
  model, model resolution returns and stores that record, which carries no manufacturer
  at all. Against a target system that rejects the listing of the categories, model
  resolution raises the error and issues no update.
\<close>

theorem C7_counterexample:
  "map_of (modelsByName drifted) (toLowerCase (model (system (workstation ''PC-A'' ''SN1'')))) =
     Some optiplex_of_hp \<and>
   e_manufacturer optiplex_of_hp = Some \<lparr>ref_id = Val 4, ref_name = Val ''HP''\<rparr> \<and>
   e_id dell = Val 3 \<and>
   fst (syncModel (workstation ''PC-A'' ''SN1'') dell drifted new_SnipeService answering_flat) =
     Inr flat_optiplex \<and>
   map_of
     (modelsByName
        (fst (snd (syncModel (workstation ''PC-A'' ''SN1'') dell drifted new_SnipeService
                     answering_flat))))
     ''optiplex'' = Some flat_optiplex \<and>
   e_manufacturer flat_optiplex = None \<and>
   fst (syncModel (workstation ''PC-A'' ''SN1'') dell drifted new_SnipeService unlisted) =
     Inl (HttpError (Some 500)) \<and>
   calls (events (snd (snd (snd
     (syncModel (workstation ''PC-A'' ''SN1'') dell drifted new_SnipeService unlisted))))) =
     [Request GET (Collection Categories) []]"
  by code_simp

text \<open>
  C7, amended: for every cached model that carries a manufacturer id (a non-zero one, so
  that the model is not fetched afresh first) other than the id of the manufacturer
  resolved for the current device, model resolution first resolves the category of the
  device's nodeClass. When that fails, model resolution fails with the same error and
  issues no model-update call. Otherwise exactly one model-update call is handed to the
  gate, the PUT of that model's id with the device's model name, the resolved
  manufacturer's id as \<open>manufacturer_id\<close> and the resolved category's id as
  \<open>category_id\<close>, and every PUT on the wire, first attempt or retry of the gate, is that
  request; when the call is rejected model resolution fails with that error, and when it
  is answered the Model that is returned and re-cached under the lower-cased model name
  is the record of the response (its payload when it has one, else the response itself),
  whatever manufacturer that record carries.
\<close>

theorem C7_drifted_model_update_is_issued_once:
  assumes "map_of (modelsByName l) (toLowerCase (model (system d))) = Some m"
    and "e_manufacturer m = Some mr" and "\<not> falsy_id (ref_id mr)"
    and "ref_id mr \<noteq> e_id mf"
    and "syncModel d mf l s w = (r, l', s', w')"
  shows "case getOrCreateAssetCategory (nodeClass d) s w of
           (Inl e, s0, w0) \<Rightarrow>
             (r, l', s', w') = (Inl e, l, s0, w0) \<and>
             filter (\<lambda>rq. verb_of rq = PUT) (new_calls w w') = [] \<and>
             list_all (event_about (\<lambda>rq. verb_of rq \<noteq> PUT)) (new_events w w')
         | (Inr cat, s0, w0) \<Rightarrow>
             filter (\<lambda>rq. verb_of rq = PUT) (new_calls w w') =
               [model_update (e_id m) (model (system d)) (e_id mf) (e_id cat)] \<and>
             list_all
               (event_about
                  (\<lambda>rq. verb_of rq = PUT \<longrightarrow>
                         rq = model_update (e_id m) (model (system d)) (e_id mf) (e_id cat)))
               (new_events w w') \<and>
             (case rateLimitedRequest
                     (model_update (e_id m) (model (system d)) (e_id mf) (e_id cat)) s0 w0 of
                (Inl e, s2, w2) \<Rightarrow> (r, l', s', w') = (Inl e, l, s2, w2)
              | (Inr b, s2, w2) \<Rightarrow>
                  (r, l', s', w') =
                    (Inr (payload_or_data b),
                     l\<lparr>modelsByName :=
                          AList.update (toLowerCase (model (system d))) (payload_or_data b)
                            (modelsByName l)\<rparr>,
                     s2, w2) \<and>
                  map_of (modelsByName l') (toLowerCase (model (system d))) =
                    Some (payload_or_data b))"
proof -
  have "updateModel d m mf l s w = (r, l', s', w')"
    using syncModel_drift[OF assms(1-4)] assms(5) by simp
  then show ?thesis
    by (rule updateModel_outcome) (rule sends_refl)
qed

theorem C7_drifted_model_update_is_issued_once_witness:
  "map_of (modelsByName drifted) (toLowerCase (model (system (workstation ''PC-A'' ''SN1'')))) =
     Some optiplex_of_hp \<and>
   e_manufacturer optiplex_of_hp = Some \<lparr>ref_id = Val 4, ref_name = Val ''HP''\<rparr> \<and>
   \<not> falsy_id (ref_id \<lparr>ref_id = Val 4, ref_name = Val ''HP''\<rparr>) \<and>
   ref_id \<lparr>ref_id = Val 4, ref_name = Val ''HP''\<rparr> \<noteq> e_id dell \<and>
   syncModel (workstation ''PC-A'' ''SN1'') dell drifted new_SnipeService correcting =
     (Inr optiplex,
      drifted\<lparr>modelsByName := [(''optiplex'', optiplex)]\<rparr>,
      new_SnipeService\<lparr>categoryCache := [(''windows workstations'', workstations)],
                        lastRequestTime := 6020\<rparr>,
      corrected) \<and>
   getOrCreateAssetCategory (nodeClass (workstation ''PC-A'' ''SN1'')) new_SnipeService
       correcting =
     (Inr workstations,
      new_SnipeService\<lparr>categoryCache := [(''windows workstations'', workstations)],
                        lastRequestTime := 5010\<rparr>,
      \<lparr> clock = 5010, script = [(10, Ok (envelope optiplex))],
        events = [Sent (Request GET (Collection Categories) [])
                    (Ok (rows_body [workstations]))] \<rparr>) \<and>
   filter (\<lambda>rq. verb_of rq = PUT) (new_calls correcting corrected) =
     [Request PUT (Item Models (Val 5))
        [(''name'', JString ''OptiPlex''), (''manufacturer_id'', JNumber 3),
         (''category_id'', JNumber 2), (''model_number'', JString ''OptiPlex'')]]"
proof -
  have a: "map_of (modelsByName drifted)
             (toLowerCase (model (system (workstation ''PC-A'' ''SN1'')))) = Some optiplex_of_hp"
    by code_simp
  have b: "e_manufacturer optiplex_of_hp = Some \<lparr>ref_id = Val 4, ref_name = Val ''HP''\<rparr>"
    by code_simp
  have c: "\<not> falsy_id (ref_id \<lparr>ref_id = Val 4, ref_name = Val ''HP''\<rparr>)"
    by (simp add: falsy_id_def)
  have d: "ref_id \<lparr>ref_id = Val 4, ref_name = Val ''HP''\<rparr> \<noteq> e_id dell"
    by (simp add: dell_def no_entity_def)
  have e: "syncModel (workstation ''PC-A'' ''SN1'') dell drifted new_SnipeService correcting =
     (Inr optiplex,
      drifted\<lparr>modelsByName := [(''optiplex'', optiplex)]\<rparr>,
      new_SnipeService\<lparr>categoryCache := [(''windows workstations'', workstations)],
                        lastRequestTime := 6020\<rparr>,
      corrected)"
    by code_simp
  have f: "getOrCreateAssetCategory (nodeClass (workstation ''PC-A'' ''SN1'')) new_SnipeService
       correcting =
     (Inr workstations,
      new_SnipeService\<lparr>categoryCache := [(''windows workstations'', workstations)],
                        lastRequestTime := 5010\<rparr>,
      \<lparr> clock = 5010, script = [(10, Ok (envelope optiplex))],
        events = [Sent (Request GET (Collection Categories) [])
                    (Ok (rows_body [workstations]))] \<rparr>)"
    by code_simp
  have g: "model_update (e_id optiplex_of_hp) (model (system (workstation ''PC-A'' ''SN1'')))
             (e_id dell) (e_id workstations) =
           Request PUT (Item Models (Val 5))
             [(''name'', JString ''OptiPlex''), (''manufacturer_id'', JNumber 3),
              (''category_id'', JNumber 2), (''model_number'', JString ''OptiPlex'')]"
    by code_simp
  have "filter (\<lambda>rq. verb_of rq = PUT) (new_calls correcting corrected) =
          [model_update (e_id optiplex_of_hp) (model (system (workstation ''PC-A'' ''SN1'')))
             (e_id dell) (e_id workstations)]"
    using C7_drifted_model_update_is_issued_once[OF a b c d e] unfolding f by simp
  with a b c d e f g show ?thesis
    by simp
qed

section \<open>The requests of model resolution and of a run\<close>

lemma refetch_model_sends:
  assumes "refetch_model d m l s w = (r, l1, s1, w1)"
  shows "sends model_upkeep w w1"
proof (cases "case e_manufacturer m of None \<Rightarrow> True | Some mr \<Rightarrow> falsy_id (ref_id mr)")
  case False
  then show ?thesis
    using assms by (simp add: refetch_model_def sends_refl)
next
  case True
  obtain r0 s0 w0 where g:
    "rateLimitedRequest (Request GET (Item Models (e_id m)) []) s w = (r0, s0, w0)"
    by (metis prod_cases3)
  have "w1 = w0"
    using assms True g by (auto simp: refetch_model_def Let_def split: sum.splits)
  moreover have "sends model_upkeep w w0"
    by (rule gate_sends[OF g]) (simp add: model_upkeep_def)
  ultimately show ?thesis
    by simp
qed

lemma update_if_needed_sends:
  assumes "update_if_needed d m mf l s w = (r, l1, s1, w1)"
  shows "sends model_upkeep w w1"
proof (cases "needs_update m mf (nodeClass d) = Inr True")
  case True
  then have "updateModel d m mf l s w = (r, l1, s1, w1)"
    using assms by (simp add: update_if_needed_def)
  then show ?thesis
    by (rule updateModel_sends) (simp_all add: model_upkeep_def)
next
  case False
  then have "w1 = w"
    using assms by (auto simp: update_if_needed_def split: sum.splits bool.splits)
  then show ?thesis
    by (simp add: sends_refl)
qed

lemma createModel_sends:
  assumes "createModel name mid nc s w = (r, s1, w1)"
  shows "sends (\<lambda>rq. model_upkeep rq \<or> target_of rq = Collection Models) w w1"
proof (cases "falsy_id mid")
  case True
  then show ?thesis
    using assms by (simp add: createModel_def sends_refl)
next
  case False
  obtain r0 s0 w0 where c: "getOrCreateAssetCategory nc s w = (r0, s0, w0)"
    by (metis prod_cases3)
  have s0: "sends (\<lambda>rq. model_upkeep rq \<or> target_of rq = Collection Models) w w0"
    by (rule getOrCreateAssetCategory_sends[OF c]) (simp add: model_upkeep_def)
  show ?thesis
  proof (cases "\<exists>cat. r0 = Inr cat \<and> \<not> falsy_id (e_id cat)")
    case True
    then obtain cat where cat: "r0 = Inr cat" "\<not> falsy_id (e_id cat)"
      by blast
    obtain r2 s2 w2 where g:
      "rateLimitedRequest
         (Request POST (Collection Models) (modelData name mid (e_id cat))) s0 w0 = (r2, s2, w2)"
      by (metis prod_cases3)
    have "w1 = w2"
      using assms False c cat g
      by (auto simp: createModel_def Let_def split: sum.splits if_splits)
    moreover have "sends (\<lambda>rq. model_upkeep rq \<or> target_of rq = Collection Models) w0 w2"
      by (rule gate_sends[OF g]) simp
    ultimately show ?thesis
      using s0 sends_trans by blast
  next
    case no: False
    then have "w1 = w0"
      using assms False c by (auto simp: createModel_def split: sum.splits if_splits)
    then show ?thesis
      using s0 by simp
  qed
qed

lemma syncModel_cached:
  assumes "map_of (modelsByName l) (toLowerCase (model (system d))) = Some m"
  shows "syncModel d mf l s w =
           (case refetch_model d m l s w of
              (Inl e, l1, s1, w1) \<Rightarrow> (Inl e, l1, s1, w1)
            | (Inr m1, l1, s1, w1) \<Rightarrow> update_if_needed d m1 mf l1 s1 w1)"
  using assms by (simp add: syncModel_def Let_def)

lemma syncModel_cached_sends:
  assumes "syncModel d mf l s w = (r, l', s', w')"
    and "map_of (modelsByName l) (toLowerCase (model (system d))) = Some m"
  shows "sends model_upkeep w w'"
proof -
  obtain r0 l0 s0 w0 where f: "refetch_model d m l s w = (r0, l0, s0, w0)"
    by (metis prod_cases4)
  have s0: "sends model_upkeep w w0"
    by (rule refetch_model_sends[OF f])
  show ?thesis
  proof (cases r0)
    case (Inl e)
    then show ?thesis
      using assms f s0 by (simp add: syncModel_cached)
  next
    case (Inr m1)
    then have "update_if_needed d m1 mf l0 s0 w0 = (r, l', s', w')"
      using assms f by (simp add: syncModel_cached)
    from update_if_needed_sends[OF this] s0 show ?thesis
      using sends_trans by blast
  qed
qed

text \<open>The search branch, when the search is answered and lists a model of that name.\<close>

lemma syncModel_found:
  assumes "map_of (modelsByName l) (toLowerCase (model (system d))) = None"
    and "rateLimitedRequest (Request GET (Search Models (model (system d))) []) s w =
           (Inr b, s1, w1)"
    and "b_rows b = Some rows"
    and "find_by_name (toLowerCase (model (system d))) rows = Inr (Some em)"
  shows "syncModel d mf l s w =
           update_if_needed d em mf
             (l\<lparr>modelsByName :=
                   AList.update (toLowerCase (model (system d))) em (modelsByName l)\<rparr>)
             s1 w1"
  using assms by (simp add: syncModel_def Let_def)

lemma syncModel_found_sends:
  assumes "syncModel d mf l s w = (r, l', s', w')"
    and "map_of (modelsByName l) (toLowerCase (model (system d))) = None"
    and "rateLimitedRequest (Request GET (Search Models (model (system d))) []) s w =
           (Inr b, s1, w1)"
    and "b_rows b = Some rows"
    and "find_by_name (toLowerCase (model (system d))) rows = Inr (Some em)"
  shows "sends model_upkeep w w'"
proof -
  have u: "update_if_needed d em mf
            (l\<lparr>modelsByName :=
                  AList.update (toLowerCase (model (system d))) em (modelsByName l)\<rparr>)
            s1 w1 = (r, l', s', w')"
    using syncModel_found[OF assms(2-5)] assms(1) by simp
  have "sends model_upkeep w w1"
    by (rule gate_sends[OF assms(3)]) (simp add: model_upkeep_def)
  moreover have "sends model_upkeep w1 w'"
    by (rule update_if_needed_sends[OF u])
  ultimately show ?thesis
    by (rule sends_trans)
qed

lemma syncModel_sends:
  assumes "syncModel d mf l s w = (r, l', s', w')"
  shows "sends run_request w w'"
proof (cases "map_of (modelsByName l) (toLowerCase (model (system d)))")
  case (Some m)
  show ?thesis
    by (rule sends_mono[OF syncModel_cached_sends[OF assms Some]]) (simp add: run_request_def)
next
  case None
  obtain r0 s0 w0 where g:
    "rateLimitedRequest (Request GET (Search Models (model (system d))) []) s w = (r0, s0, w0)"
    by (metis prod_cases3)
  have s0: "sends run_request w w0"
    by (rule gate_sends[OF g]) (simp add: run_request_def model_upkeep_def)
  show ?thesis
  proof (cases "\<exists>b rows. r0 = Inr b \<and> b_rows b = Some rows \<and>
                  (\<exists>x. find_by_name (toLowerCase (model (system d))) rows = Inr x)")
    case False
    then have "w' = w0"
      using assms None g
      by (auto simp: syncModel_def Let_def split: sum.splits option.splits property.splits)
    then show ?thesis
      using s0 by simp
  next
    case True
    then obtain b rows x where b: "r0 = Inr b" "b_rows b = Some rows"
      "find_by_name (toLowerCase (model (system d))) rows = Inr x"
      by blast
    show ?thesis
    proof (cases x)
      case (Some em)
      then have "update_if_needed d em mf
               (l\<lparr>modelsByName :=
                     AList.update (toLowerCase (model (system d))) em (modelsByName l)\<rparr>)
               s0 w0 = (r, l', s', w')"
        using assms None g b by (simp add: syncModel_def Let_def)
      from update_if_needed_sends[OF this] have "sends run_request w0 w'"
        by (rule sends_mono) (simp add: run_request_def)
      with s0 show ?thesis
        by (rule sends_trans)
    next
      case none: None
      obtain r2 s2 w2 where c:
        "createModel (model (system d)) (e_id mf) (nodeClass d) s0 w0 = (r2, s2, w2)"
        by (metis prod_cases3)
      have "w' = w2"
        using assms None g b none c by (auto simp: syncModel_def Let_def split: sum.splits)
      moreover have "sends run_request w0 w2"
        by (rule sends_mono[OF createModel_sends[OF c]]) (auto simp: run_request_def)
      ultimately show ?thesis
        using s0 sends_trans by blast
    qed
  qed
qed

section \<open>Model identity\<close>

text \<open>The search takes the first row that bears the name.\<close>

lemma find_by_name_first:
  assumes "\<forall>x\<in>set pre. \<exists>k. e_name x = Val k \<and> toLowerCase k \<noteq> key"
    and "e_name em = Val n" and "toLowerCase n = key"
  shows "find_by_name key (pre @ em # post) = Inr (Some em)"
  using assms by (induction pre) auto

lemma index_by_distinct:
  "distinct (map fst c) \<Longrightarrow> index_by key rows c = (r, c') \<Longrightarrow> distinct (map fst c')"
proof (induction rows arbitrary: c)
  case Nil
  then show ?case by simp
next
  case (Cons a rows)
  show ?case
  proof (cases "key a")
    case Missing
    then show ?thesis
      using Cons.prems by simp
  next
    case Null
    then show ?thesis
      using Cons.prems by simp
  next
    case (Val n)
    have "distinct (map fst (AList.update (toLowerCase n) a c))"
      using Cons.prems(1) by (simp add: distinct_update)
    moreover have "index_by key rows (AList.update (toLowerCase n) a c) = (r, c')"
      using Cons.prems(2) Val by simp
    ultimately show ?thesis
      by (rule Cons.IH)
  qed
qed

text \<open>The model cache of the service under the operations of model resolution.\<close>

lemma getCategories_modelCache:
  "getCategories s w = (r, s1, w1) \<Longrightarrow> modelCache s1 = modelCache s"
  by (auto simp: getCategories_def split: sum.splits option.splits property.splits prod.splits
      dest!: gate_caches)

lemma createCategory_modelCache:
  "createCategory name s w = (r, s1, w1) \<Longrightarrow> modelCache s1 = modelCache s"
  by (auto simp: createCategory_def Let_def split: sum.splits option.splits property.splits prod.splits if_splits
      dest!: gate_caches)

lemma getOrCreateAssetCategory_modelCache:
  assumes "getOrCreateAssetCategory nc s w = (r, s1, w1)"
  shows "modelCache s1 = modelCache s"
proof (cases "map_of (categoryCache s) (toLowerCase (getExpectedCategoryName nc))")
  case (Some c0)
  then show ?thesis
    using assms by (simp add: getOrCreateAssetCategory_def Let_def)
next
  case None
  obtain r0 s0 w0 where g: "getCategories s w = (r0, s0, w0)"
    by (metis prod_cases3)
  note m0 = getCategories_modelCache[OF g]
  show ?thesis
    using assms None g m0
    by (auto simp: getOrCreateAssetCategory_def Let_def
        split: sum.splits option.splits property.splits dest: createCategory_modelCache)
qed

lemma updateModel_modelCache:
  assumes "updateModel d m mf l s w = (r, l1, s1, w1)"
  shows "modelCache s1 = modelCache s"
proof -
  obtain r0 s0 w0 where c: "getOrCreateAssetCategory (nodeClass d) s w = (r0, s0, w0)"
    by (metis prod_cases3)
  note m0 = getOrCreateAssetCategory_modelCache[OF c]
  show ?thesis
    using assms c m0
    by (auto simp: updateModel_def Let_def split: sum.splits prod.splits dest!: gate_caches)
qed

lemma update_if_needed_modelCache:
  assumes "update_if_needed d m mf l s w = (r, l1, s1, w1)"
  shows "modelCache s1 = modelCache s"
  using assms
  by (auto simp: update_if_needed_def split: sum.splits bool.splits
      dest: updateModel_modelCache)

lemma refetch_model_modelCache:
  assumes "refetch_model d m l s w = (r, l1, s1, w1)"
  shows "modelCache s1 = modelCache s"
  using assms
  by (auto simp: refetch_model_def Let_def split: sum.splits prod.splits if_splits
      dest!: gate_caches)

lemma createModel_modelCache:
  assumes "createModel name mid nc s w = (r, s1, w1)"
    and "distinct (map fst (modelCache s))"
  shows "distinct (map fst (modelCache s1))"
proof (cases "falsy_id mid")
  case True
  then show ?thesis
    using assms by (simp add: createModel_def)
next
  case False
  obtain r0 s0 w0 where c: "getOrCreateAssetCategory nc s w = (r0, s0, w0)"
    by (metis prod_cases3)
  note m0 = getOrCreateAssetCategory_modelCache[OF c]
  show ?thesis
    using assms False c m0
    by (auto simp: createModel_def Let_def distinct_update
        split: sum.splits prod.splits if_splits dest!: gate_caches)
qed

text \<open>The lookup map of models is only ever changed by \<open>Map.set\<close>.\<close>

lemma updateModel_lookup:
  assumes "updateModel d m mf l s w = (r, l1, s1, w1)"
    and "distinct (map fst (modelsByName l))"
  shows "distinct (map fst (modelsByName l1))"
  using assms
  by (auto simp: updateModel_def Let_def distinct_update split: sum.splits prod.splits)

lemma update_if_needed_lookup:
  assumes "update_if_needed d m mf l s w = (r, l1, s1, w1)"
    and "distinct (map fst (modelsByName l))"
  shows "distinct (map fst (modelsByName l1))"
  using assms
  by (auto simp: update_if_needed_def split: sum.splits bool.splits dest: updateModel_lookup)

lemma refetch_model_lookup:
  assumes "refetch_model d m l s w = (r, l1, s1, w1)"
    and "distinct (map fst (modelsByName l))"
  shows "distinct (map fst (modelsByName l1))"
  using assms
  by (auto simp: refetch_model_def Let_def distinct_update
      split: sum.splits prod.splits if_splits)

lemma syncModel_lookup:
  assumes "syncModel d mf l s w = (r, l', s', w')"
    and "distinct (map fst (modelsByName l))"
  shows "distinct (map fst (modelsByName l'))"
proof (cases "map_of (modelsByName l) (toLowerCase (model (system d)))")
  case (Some m)
  obtain r0 l0 s0 w0 where f: "refetch_model d m l s w = (r0, l0, s0, w0)"
    by (metis prod_cases4)
  note d0 = refetch_model_lookup[OF f assms(2)]
  show ?thesis
    using assms(1) Some f d0
    by (auto simp: syncModel_cached split: sum.splits dest: update_if_needed_lookup)
next
  case None
  have d1: "distinct (map fst (AList.update k v (modelsByName l)))" for k v
    using assms(2) by (simp add: distinct_update)
  show ?thesis
    using assms None d1
    by (auto simp: syncModel_def Let_def
        split: sum.splits prod.splits option.splits property.splits dest: update_if_needed_lookup)
qed

lemma syncModel_modelCache:
  assumes "syncModel d mf l s w = (r, l', s', w')"
    and "distinct (map fst (modelCache s))"
  shows "distinct (map fst (modelCache s'))"
proof (cases "map_of (modelsByName l) (toLowerCase (model (system d)))")
  case (Some m)
  obtain r0 l0 s0 w0 where f: "refetch_model d m l s w = (r0, l0, s0, w0)"
    by (metis prod_cases4)
  note m0 = refetch_model_modelCache[OF f]
  show ?thesis
    using assms Some f m0
    by (auto simp: syncModel_cached split: sum.splits dest: update_if_needed_modelCache)
next
  case None
  obtain r0 s0 w0 where g:
    "rateLimitedRequest (Request GET (Search Models (model (system d))) []) s w = (r0, s0, w0)"
    by (metis prod_cases3)
  have m0: "distinct (map fst (modelCache s0))"
    using gate_caches[OF g] assms(2) by simp
  show ?thesis
    using assms(1) None g m0
    by (auto simp: syncModel_def Let_def
        split: sum.splits prod.splits option.splits property.splits
        dest: update_if_needed_modelCache createModel_modelCache)
qed

text \<open>
  The one update of a model of another manufacturer, from the lookup map and from the
  search.
\<close>

lemma syncModel_cached_update:
  assumes "syncModel d mf l s w = (r, l', s', w')"
    and "map_of (modelsByName l) (toLowerCase (model (system d))) = Some m"
    and "e_manufacturer m = Some mr" and "\<not> falsy_id (ref_id mr)"
    and "ref_id mr \<noteq> e_id mf"
  shows "case getOrCreateAssetCategory (nodeClass d) s w of
           (Inl e, s0, w0) \<Rightarrow>
             r = Inl e \<and> filter (\<lambda>rq. verb_of rq = PUT) (new_calls w w') = []
         | (Inr cat, s0, w0) \<Rightarrow>
             filter (\<lambda>rq. verb_of rq = PUT) (new_calls w w') =
               [model_update (e_id m) (model (system d)) (e_id mf) (e_id cat)] \<and>
             list_all
               (event_about
                  (\<lambda>rq. verb_of rq = PUT \<longrightarrow>
                         rq = model_update (e_id m) (model (system d)) (e_id mf) (e_id cat)))
               (new_events w w')"
proof -
  have u: "updateModel d m mf l s w = (r, l', s', w')"
    using syncModel_drift[OF assms(2-5)] assms(1) by simp
  obtain r0 s0 w0 where c: "getOrCreateAssetCategory (nodeClass d) s w = (r0, s0, w0)"
    by (metis prod_cases3)
  show ?thesis
    using updateModel_outcome[OF u sends_refl] c by (cases r0) auto
qed

lemma syncModel_found_update:
  assumes "syncModel d mf l s w = (r, l', s', w')"
    and "map_of (modelsByName l) (toLowerCase (model (system d))) = None"
    and "rateLimitedRequest (Request GET (Search Models (model (system d))) []) s w =
           (Inr b, s1, w1)"
    and "b_rows b = Some rows"
    and "find_by_name (toLowerCase (model (system d))) rows = Inr (Some em)"
    and "e_manufacturer em = Some mr"
    and "ref_id mr \<noteq> e_id mf"
  shows "case getOrCreateAssetCategory (nodeClass d) s1 w1 of
           (Inl e, s0, w0) \<Rightarrow>
             r = Inl e \<and> filter (\<lambda>rq. verb_of rq = PUT) (new_calls w w') = []
         | (Inr cat, s0, w0) \<Rightarrow>
             filter (\<lambda>rq. verb_of rq = PUT) (new_calls w w') =
               [model_update (e_id em) (model (system d)) (e_id mf) (e_id cat)] \<and>
             list_all
               (event_about
                  (\<lambda>rq. verb_of rq = PUT \<longrightarrow>
                         rq = model_update (e_id em) (model (system d)) (e_id mf) (e_id cat)))
               (new_events w w')"
proof -
  have "needs_update em mf (nodeClass d) = Inr True"
    using assms(6,7) by (simp add: needs_update_def)
  then have u: "updateModel d em mf
            (l\<lparr>modelsByName :=
                  AList.update (toLowerCase (model (system d))) em (modelsByName l)\<rparr>)
            s1 w1 = (r, l', s', w')"
    using syncModel_found[OF assms(2-5), of mf] assms(1) by (simp add: update_if_needed_def)
  have quiet: "sends (\<lambda>rq. verb_of rq \<noteq> PUT) w w1"
    by (rule gate_sends[OF assms(3)]) simp
  obtain r0 s0 w0 where c: "getOrCreateAssetCategory (nodeClass d) s1 w1 = (r0, s0, w0)"
    by (metis prod_cases3)
  show ?thesis
    using updateModel_outcome[OF u quiet] c by (cases r0) auto
qed

text \<open>\<open>getOrCreateModel\<close>, when its search is answered and lists a model of that name.\<close>

lemma getOrCreateModel_found:
  assumes "name \<noteq> []"
    and "getOrCreateAssetCategory nc s w = (Inr cat, s1, w1)"
    and "rateLimitedRequest (Request GET (Search Models name) []) s1 w1 = (Inr b, s2, w2)"
    and "b_rows b = Some rows"
    and "find_by_name (toLowerCase name) rows = Inr (Some em)"
  shows "getOrCreateModel name mid nc s w =
           (case model_differs em cat mid of
              Inl e \<Rightarrow> (Inl e, s2, w2)
            | Inr False \<Rightarrow>
                (Inr em,
                 s2\<lparr>modelCache := AList.update (toLowerCase name) em (modelCache s2)\<rparr>, w2)
            | Inr True \<Rightarrow>
                (case rateLimitedRequest
                        (Request PUT (Item Models (e_id em)) (updateData name mid (e_id cat)))
                        s2 w2 of
                   (Inl e, s3, w3) \<Rightarrow> (Inl e, s3, w3)
                 | (Inr updateResponse, s3, w3) \<Rightarrow>
                     (Inr (payload_or_data updateResponse),
                      s3\<lparr>modelCache :=
                            AList.update (toLowerCase name) (payload_or_data updateResponse)
                              (modelCache s3)\<rparr>,
                      w3)))"
  using assms
  by (auto simp: getOrCreateModel_def Let_def split: sum.splits bool.splits prod.splits)

lemma getOrCreateModel_found_sends:
  assumes "getOrCreateModel name mid nc s w = (r, s', w')"
    and "name \<noteq> []"
    and "getOrCreateAssetCategory nc s w = (Inr cat, s1, w1)"
    and "rateLimitedRequest (Request GET (Search Models name) []) s1 w1 = (Inr b, s2, w2)"
    and "b_rows b = Some rows"
    and "find_by_name (toLowerCase name) rows = Inr (Some em)"
  shows "sends model_upkeep w w'"
proof -
  have a: "sends model_upkeep w w1"
    by (rule getOrCreateAssetCategory_sends[OF assms(3)]) (simp add: model_upkeep_def)
  have "sends model_upkeep w1 w2"
    by (rule gate_sends[OF assms(4)]) (simp add: model_upkeep_def)
  with a have b: "sends model_upkeep w w2"
    by (rule sends_trans)
  obtain r3 s3 w3 where g:
    "rateLimitedRequest (Request PUT (Item Models (e_id em)) (updateData name mid (e_id cat)))
       s2 w2 = (r3, s3, w3)"
    by (metis prod_cases3)
  have "sends model_upkeep w2 w3"
    by (rule gate_sends[OF g]) (simp add: model_upkeep_def)
  with b have c: "sends model_upkeep w w3"
    by (rule sends_trans)
  have "w' = w2 \<or> w' = w3"
    using assms(1) g
    by (auto simp: getOrCreateModel_found[OF assms(2-6)] split: sum.splits bool.splits)
  then show ?thesis
    using b c by blast
qed

lemma getOrCreateModel_found_update:
  assumes "getOrCreateModel name mid nc s w = (r, s', w')"
    and "name \<noteq> []"
    and "getOrCreateAssetCategory nc s w = (Inr cat, s1, w1)"
    and "rateLimitedRequest (Request GET (Search Models name) []) s1 w1 = (Inr b, s2, w2)"
    and "b_rows b = Some rows"
    and "find_by_name (toLowerCase name) rows = Inr (Some em)"
  shows "(model_differs em cat mid = Inr True \<longrightarrow>
            filter (\<lambda>rq. verb_of rq = PUT) (new_calls w w') =
              [model_update (e_id em) name mid (e_id cat)]) \<and>
         (model_differs em cat mid = Inr False \<longrightarrow>
            filter (\<lambda>rq. verb_of rq = PUT) (new_calls w w') = [] \<and> r = Inr em)"
proof -
  let ?put = "model_update (e_id em) name mid (e_id cat)"
  have put: "Request PUT (Item Models (e_id em)) (updateData name mid (e_id cat)) = ?put"
    by (simp add: model_update_def updateData_def)
  obtain xs where xs: "calls (events w1) = calls (events w) @ xs"
    and shape: "xs = [] \<or> xs = [Request GET (Collection Categories) []] \<or>
            xs = [Request GET (Collection Categories) [],
                  Request POST (Collection Categories)
                    (categoryData (getExpectedCategoryName nc))]"
    using getOrCreateAssetCategory_calls[OF assms(3)] by blast
  have searched: "calls (events w2) = calls (events w) @ (xs @ [Request GET (Search Models name) []])"
    using gate_calls[OF assms(4)] xs by simp
  have differs: "filter (\<lambda>rq. verb_of rq = PUT) (new_calls w w') = [?put]"
    if t: "model_differs em cat mid = Inr True"
  proof -
    obtain r3 s3 w3 where g: "rateLimitedRequest ?put s2 w2 = (r3, s3, w3)"
      by (metis prod_cases3)
    have w': "w' = w3"
      using assms(1) t g
      by (auto simp: getOrCreateModel_found[OF assms(2-6)] put split: sum.splits)
    have "calls (events w3) =
            calls (events w) @ (xs @ [Request GET (Search Models name) [], ?put])"
      using gate_calls[OF g] searched by simp
    then have "new_calls w w3 = xs @ [Request GET (Search Models name) [], ?put]"
      by (rule new_calls_append)
    then show ?thesis
      using shape w' by (auto simp: model_update_def)
  qed
  have same: "filter (\<lambda>rq. verb_of rq = PUT) (new_calls w w') = [] \<and> r = Inr em"
    if f: "model_differs em cat mid = Inr False"
  proof -
    have res: "r = Inr em \<and> w' = w2"
      using assms(1) f by (simp add: getOrCreateModel_found[OF assms(2-6)])
    have "new_calls w w2 = xs @ [Request GET (Search Models name) []]"
      by (rule new_calls_append[OF searched])
    then show ?thesis
      using shape res by auto
  qed
  from differs same show ?thesis
    by blast
qed

lemma getOrCreateModel_found_modelCache:
  assumes "getOrCreateModel name mid nc s w = (r, s', w')"
    and "name \<noteq> []"
    and "getOrCreateAssetCategory nc s w = (Inr cat, s1, w1)"
    and "rateLimitedRequest (Request GET (Search Models name) []) s1 w1 = (Inr b, s2, w2)"
    and "b_rows b = Some rows"
    and "find_by_name (toLowerCase name) rows = Inr (Some em)"
    and "distinct (map fst (modelCache s))"
  shows "distinct (map fst (modelCache s'))"
proof -
  have "modelCache s2 = modelCache s"
    using getOrCreateAssetCategory_modelCache[OF assms(3)] gate_caches[OF assms(4)] by simp
  then have d2: "distinct (map fst (modelCache s2))"
    using assms(7) by simp
  show ?thesis
    using assms(1) d2
    by (auto simp: getOrCreateModel_found[OF assms(2-6)] distinct_update
        split: sum.splits bool.splits prod.splits dest!: gate_caches)
qed

text \<open>
  C10, as stated, at a device whose model name is that of a model bound to another
  manufacturer, which the search lists, against a target system that rejects the
  listing of the categories: model resolution makes the search and the listing request
  and raises the error; the model record is not updated.
\<close>

theorem C10_counterexample:
  "map_of (modelsByName unindexed) (toLowerCase (model (system (workstation ''PC-A'' ''SN1'')))) =
     None \<and>
   e_name optiplex_of_hp = Val ''OptiPlex'' \<and>
   e_manufacturer optiplex_of_hp = Some \<lparr>ref_id = Val 4, ref_name = Val ''HP''\<rparr> \<and>
   e_id dell = Val 3 \<and>
   fst (syncModel (workstation ''PC-A'' ''SN1'') dell unindexed new_SnipeService
          finding_unlisted) = Inl (HttpError (Some 500)) \<and>
   calls (events (snd (snd (snd
     (syncModel (workstation ''PC-A'' ''SN1'') dell unindexed new_SnipeService
        finding_unlisted))))) =
     [Request GET (Search Models ''OptiPlex'') [], Request GET (Collection Categories) []]"
  by code_simp

text \<open>
  C10, amended: a model is identified by the lower-case form of its name alone, whatever
  its manufacturer. (1) The lookup map of models and the model cache of the service keep
  one entry per lower-case name. (2) When the lookup map holds a model under the device's
  lower-cased model name, no model is created; if that model carries another (non-zero)
  manufacturer id, the category of the device's nodeClass is resolved, and then the one
  update handed to the gate, and the only PUT on the wire, is the PUT of that same
  model's id with the device's model name, the id of the device's manufacturer and the
  id of the resolved category; when the category cannot be resolved, model resolution
  fails and nothing is updated. (3) When the lookup map holds none and the search is
  answered with rows of which one bears the device's model name in lower case (the rows
  before it bearing other names), the first such model is taken, whatever its
  manufacturer: no model is created, and if it carries another manufacturer id the update
  is as in (2). (4) \<open>getOrCreateModel\<close> does the same once it has resolved the category
  and its search is answered with such rows: no model is created, the model cache keeps
  one entry per name, and the first model of the name is updated by the one PUT of its
  id with the given manufacturer id and the id of the resolved category if it differs in
  category or manufacturer, and returned as it is, without an update, if it does not.
\<close>

theorem C10_model_is_matched_by_lowercase_name_alone:
  assumes "syncModel d mf l s w = (r, l', s', w')"
  shows "(distinct (map fst (modelsByName l)) \<longrightarrow> distinct (map fst (modelsByName l'))) \<and>
         (distinct (map fst (modelCache s)) \<longrightarrow> distinct (map fst (modelCache s'))) \<and>
         (\<forall>m. map_of (modelsByName l) (toLowerCase (model (system d))) = Some m \<longrightarrow>
            list_all (event_about (\<lambda>rq. \<not> creates_model rq)) (new_events w w') \<and>
            (\<forall>mr. e_manufacturer m = Some mr \<and> \<not> falsy_id (ref_id mr) \<and>
                   ref_id mr \<noteq> e_id mf \<longrightarrow>
               (case getOrCreateAssetCategory (nodeClass d) s w of
                  (Inl e, s0, w0) \<Rightarrow>
                    r = Inl e \<and> filter (\<lambda>rq. verb_of rq = PUT) (new_calls w w') = []
                | (Inr cat, s0, w0) \<Rightarrow>
                    filter (\<lambda>rq. verb_of rq = PUT) (new_calls w w') =
                      [model_update (e_id m) (model (system d)) (e_id mf) (e_id cat)] \<and>
                    list_all
                      (event_about
                         (\<lambda>rq. verb_of rq = PUT \<longrightarrow>
                                rq = model_update (e_id m) (model (system d)) (e_id mf)
                                       (e_id cat)))
                      (new_events w w')))) \<and>
         (\<forall>b s1 w1 pre em post n.
            map_of (modelsByName l) (toLowerCase (model (system d))) = None \<and>
            rateLimitedRequest (Request GET (Search Models (model (system d))) []) s w =
              (Inr b, s1, w1) \<and>
            b_rows b = Some (pre @ em # post) \<and>
            (\<forall>x\<in>set pre. \<exists>k. e_name x = Val k \<and>
                                toLowerCase k \<noteq> toLowerCase (model (system d))) \<and>
            e_name em = Val n \<and> toLowerCase n = toLowerCase (model (system d)) \<longrightarrow>
            list_all (event_about (\<lambda>rq. \<not> creates_model rq)) (new_events w w') \<and>
            (\<forall>mr. e_manufacturer em = Some mr \<and> ref_id mr \<noteq> e_id mf \<longrightarrow>
               (case getOrCreateAssetCategory (nodeClass d) s1 w1 of
                  (Inl e, s0, w0) \<Rightarrow>
                    r = Inl e \<and> filter (\<lambda>rq. verb_of rq = PUT) (new_calls w w') = []
                | (Inr cat, s0, w0) \<Rightarrow>
                    filter (\<lambda>rq. verb_of rq = PUT) (new_calls w w') =
                      [model_update (e_id em) (model (system d)) (e_id mf) (e_id cat)] \<and>
                    list_all
                      (event_about
                         (\<lambda>rq. verb_of rq = PUT \<longrightarrow>
                                rq = model_update (e_id em) (model (system d)) (e_id mf)
                                       (e_id cat)))
                      (new_events w w')))) \<and>
         (\<forall>name mid nc sa wa ra sb wb cat sc wc b sd wd pre em post n.
            getOrCreateModel name mid nc sa wa = (ra, sb, wb) \<and> name \<noteq> [] \<and>
            getOrCreateAssetCategory nc sa wa = (Inr cat, sc, wc) \<and>
            rateLimitedRequest (Request GET (Search Models name) []) sc wc = (Inr b, sd, wd) \<and>
            b_rows b = Some (pre @ em # post) \<and>
            (\<forall>x\<in>set pre. \<exists>k. e_name x = Val k \<and> toLowerCase k \<noteq> toLowerCase name) \<and>
            e_name em = Val n \<and> toLowerCase n = toLowerCase name \<longrightarrow>
            list_all (event_about (\<lambda>rq. \<not> creates_model rq)) (new_events wa wb) \<and>
            (distinct (map fst (modelCache sa)) \<longrightarrow> distinct (map fst (modelCache sb))) \<and>
            (model_differs em cat mid = Inr True \<longrightarrow>
               filter (\<lambda>rq. verb_of rq = PUT) (new_calls wa wb) =
                 [model_update (e_id em) name mid (e_id cat)]) \<and>
            (model_differs em cat mid = Inr False \<longrightarrow>
               filter (\<lambda>rq. verb_of rq = PUT) (new_calls wa wb) = [] \<and> ra = Inr em))"
proof -
  have upkeep: "\<And>w w'. sends model_upkeep w w' \<Longrightarrow>
                  list_all (event_about (\<lambda>rq. \<not> creates_model rq)) (new_events w w')"
  proof -
    fix w w'
    assume "sends model_upkeep w w'"
    then have "sends (\<lambda>rq. \<not> creates_model rq) w w'"
      by (rule sends_mono) (auto simp: model_upkeep_def creates_model_def)
    then show "list_all (event_about (\<lambda>rq. \<not> creates_model rq)) (new_events w w')"
      by (rule sends_new_events(2))
  qed
  have five: "\<forall>name mid nc sa wa ra sb wb cat sc wc b sd wd pre em post n.
            getOrCreateModel name mid nc sa wa = (ra, sb, wb) \<and> name \<noteq> [] \<and>
            getOrCreateAssetCategory nc sa wa = (Inr cat, sc, wc) \<and>
            rateLimitedRequest (Request GET (Search Models name) []) sc wc = (Inr b, sd, wd) \<and>
            b_rows b = Some (pre @ em # post) \<and>
            (\<forall>x\<in>set pre. \<exists>k. e_name x = Val k \<and> toLowerCase k \<noteq> toLowerCase name) \<and>
            e_name em = Val n \<and> toLowerCase n = toLowerCase name \<longrightarrow>
            list_all (event_about (\<lambda>rq. \<not> creates_model rq)) (new_events wa wb) \<and>
            (distinct (map fst (modelCache sa)) \<longrightarrow> distinct (map fst (modelCache sb))) \<and>
            (model_differs em cat mid = Inr True \<longrightarrow>
               filter (\<lambda>rq. verb_of rq = PUT) (new_calls wa wb) =
                 [model_update (e_id em) name mid (e_id cat)]) \<and>
            (model_differs em cat mid = Inr False \<longrightarrow>
               filter (\<lambda>rq. verb_of rq = PUT) (new_calls wa wb) = [] \<and> ra = Inr em)"
  proof (intro allI impI, elim conjE)
    fix name mid nc sa wa ra sb wb cat sc wc b sd wd pre em post n
    assume h: "getOrCreateModel name mid nc sa wa = (ra, sb, wb)" "name \<noteq> []"
      "getOrCreateAssetCategory nc sa wa = (Inr cat, sc, wc)"
      "rateLimitedRequest (Request GET (Search Models name) []) sc wc = (Inr b, sd, wd)"
      "b_rows b = Some (pre @ em # post)"
    assume rows: "\<forall>x\<in>set pre. \<exists>k. e_name x = Val k \<and> toLowerCase k \<noteq> toLowerCase name"
      "e_name em = Val n" "toLowerCase n = toLowerCase name"
    have f: "find_by_name (toLowerCase name) (pre @ em # post) = Inr (Some em)"
      by (rule find_by_name_first[OF rows])
    have q1: "list_all (event_about (\<lambda>rq. \<not> creates_model rq)) (new_events wa wb)"
      by (rule upkeep[OF getOrCreateModel_found_sends[OF h f]])
    have q2: "distinct (map fst (modelCache sa)) \<longrightarrow> distinct (map fst (modelCache sb))"
      using getOrCreateModel_found_modelCache[OF h f] by blast
    note q3 = getOrCreateModel_found_update[OF h f]
    from q1 q2 q3
    show "list_all (event_about (\<lambda>rq. \<not> creates_model rq)) (new_events wa wb) \<and>
            (distinct (map fst (modelCache sa)) \<longrightarrow> distinct (map fst (modelCache sb))) \<and>
            (model_differs em cat mid = Inr True \<longrightarrow>
               filter (\<lambda>rq. verb_of rq = PUT) (new_calls wa wb) =
                 [model_update (e_id em) name mid (e_id cat)]) \<and>
            (model_differs em cat mid = Inr False \<longrightarrow>
               filter (\<lambda>rq. verb_of rq = PUT) (new_calls wa wb) = [] \<and> ra = Inr em)"
      by (intro conjI) simp_all
  qed
  have one: "distinct (map fst (modelsByName l)) \<longrightarrow> distinct (map fst (modelsByName l'))"
    using syncModel_lookup[OF assms] by blast
  have two: "distinct (map fst (modelCache s)) \<longrightarrow> distinct (map fst (modelCache s'))"
    using syncModel_modelCache[OF assms] by blast
  have three: "\<forall>m. map_of (modelsByName l) (toLowerCase (model (system d))) = Some m \<longrightarrow>
            list_all (event_about (\<lambda>rq. \<not> creates_model rq)) (new_events w w') \<and>
            (\<forall>mr. e_manufacturer m = Some mr \<and> \<not> falsy_id (ref_id mr) \<and>
                   ref_id mr \<noteq> e_id mf \<longrightarrow>
               (case getOrCreateAssetCategory (nodeClass d) s w of
                  (Inl e, s0, w0) \<Rightarrow>
                    r = Inl e \<and> filter (\<lambda>rq. verb_of rq = PUT) (new_calls w w') = []
                | (Inr cat, s0, w0) \<Rightarrow>
                    filter (\<lambda>rq. verb_of rq = PUT) (new_calls w w') =
                      [model_update (e_id m) (model (system d)) (e_id mf) (e_id cat)] \<and>
                    list_all
                      (event_about
                         (\<lambda>rq. verb_of rq = PUT \<longrightarrow>
                                rq = model_update (e_id m) (model (system d)) (e_id mf)
                                       (e_id cat)))
                      (new_events w w')))"
  proof (intro allI impI conjI)
    fix m
    assume h: "map_of (modelsByName l) (toLowerCase (model (system d))) = Some m"
    show "list_all (event_about (\<lambda>rq. \<not> creates_model rq)) (new_events w w')"
      by (rule upkeep[OF syncModel_cached_sends[OF assms h]])
  next
    fix m mr
    assume h: "map_of (modelsByName l) (toLowerCase (model (system d))) = Some m"
    assume k: "e_manufacturer m = Some mr \<and> \<not> falsy_id (ref_id mr) \<and> ref_id mr \<noteq> e_id mf"
    show "case getOrCreateAssetCategory (nodeClass d) s w of
                  (Inl e, s0, w0) \<Rightarrow>
                    r = Inl e \<and> filter (\<lambda>rq. verb_of rq = PUT) (new_calls w w') = []
                | (Inr cat, s0, w0) \<Rightarrow>
                    filter (\<lambda>rq. verb_of rq = PUT) (new_calls w w') =
                      [model_update (e_id m) (model (system d)) (e_id mf) (e_id cat)] \<and>
                    list_all
                      (event_about
                         (\<lambda>rq. verb_of rq = PUT \<longrightarrow>
                                rq = model_update (e_id m) (model (system d)) (e_id mf)
                                       (e_id cat)))
                      (new_events w w')"
      by (rule syncModel_cached_update[OF assms h k[THEN conjunct1]
            k[THEN conjunct2, THEN conjunct1] k[THEN conjunct2, THEN conjunct2]])
  qed
  have four: "\<forall>b s1 w1 pre em post n.
            map_of (modelsByName l) (toLowerCase (model (system d))) = None \<and>
            rateLimitedRequest (Request GET (Search Models (model (system d))) []) s w =
              (Inr b, s1, w1) \<and>
            b_rows b = Some (pre @ em # post) \<and>
            (\<forall>x\<in>set pre. \<exists>k. e_name x = Val k \<and>
                                toLowerCase k \<noteq> toLowerCase (model (system d))) \<and>
            e_name em = Val n \<and> toLowerCase n = toLowerCase (model (system d)) \<longrightarrow>
            list_all (event_about (\<lambda>rq. \<not> creates_model rq)) (new_events w w') \<and>
            (\<forall>mr. e_manufacturer em = Some mr \<and> ref_id mr \<noteq> e_id mf \<longrightarrow>
               (case getOrCreateAssetCategory (nodeClass d) s1 w1 of
                  (Inl e, s0, w0) \<Rightarrow>
                    r = Inl e \<and> filter (\<lambda>rq. verb_of rq = PUT) (new_calls w w') = []
                | (Inr cat, s0, w0) \<Rightarrow>
                    filter (\<lambda>rq. verb_of rq = PUT) (new_calls w w') =
                      [model_update (e_id em) (model (system d)) (e_id mf) (e_id cat)] \<and>
                    list_all
                      (event_about
                         (\<lambda>rq. verb_of rq = PUT \<longrightarrow>
                                rq = model_update (e_id em) (model (system d)) (e_id mf)
                                       (e_id cat)))
                      (new_events w w')))"
  proof (intro allI impI, elim conjE)
    fix b s1 w1 pre em post n
    assume h: "map_of (modelsByName l) (toLowerCase (model (system d))) = None"
      "rateLimitedRequest (Request GET (Search Models (model (system d))) []) s w =
         (Inr b, s1, w1)"
      "b_rows b = Some (pre @ em # post)"
    assume rows: "\<forall>x\<in>set pre. \<exists>k. e_name x = Val k \<and>
                                toLowerCase k \<noteq> toLowerCase (model (system d))"
      "e_name em = Val n" "toLowerCase n = toLowerCase (model (system d))"
    have f: "find_by_name (toLowerCase (model (system d))) (pre @ em # post) = Inr (Some em)"
      by (rule find_by_name_first[OF rows])
    have p2: "list_all (event_about (\<lambda>rq. \<not> creates_model rq)) (new_events w w')"
      by (rule upkeep[OF syncModel_found_sends[OF assms h f]])
    have p3: "\<forall>mr. e_manufacturer em = Some mr \<and> ref_id mr \<noteq> e_id mf \<longrightarrow>
               (case getOrCreateAssetCategory (nodeClass d) s1 w1 of
                  (Inl e, s0, w0) \<Rightarrow>
                    r = Inl e \<and> filter (\<lambda>rq. verb_of rq = PUT) (new_calls w w') = []
                | (Inr cat, s0, w0) \<Rightarrow>
                    filter (\<lambda>rq. verb_of rq = PUT) (new_calls w w') =
                      [model_update (e_id em) (model (system d)) (e_id mf) (e_id cat)] \<and>
                    list_all
                      (event_about
                         (\<lambda>rq. verb_of rq = PUT \<longrightarrow>
                                rq = model_update (e_id em) (model (system d)) (e_id mf)
                                       (e_id cat)))
                      (new_events w w'))"
    proof (intro allI impI, elim conjE)
      fix mr
      assume k: "e_manufacturer em = Some mr" "ref_id mr \<noteq> e_id mf"
      show "case getOrCreateAssetCategory (nodeClass d) s1 w1 of
                  (Inl e, s0, w0) \<Rightarrow>
                    r = Inl e \<and> filter (\<lambda>rq. verb_of rq = PUT) (new_calls w w') = []
                | (Inr cat, s0, w0) \<Rightarrow>
                    filter (\<lambda>rq. verb_of rq = PUT) (new_calls w w') =
                      [model_update (e_id em) (model (system d)) (e_id mf) (e_id cat)] \<and>
                    list_all
                      (event_about
                         (\<lambda>rq. verb_of rq = PUT \<longrightarrow>
                                rq = model_update (e_id em) (model (system d)) (e_id mf)
                                       (e_id cat)))
                      (new_events w w')"
        by (rule syncModel_found_update[OF assms h f k])
    qed
    from p2 p3
    show "list_all (event_about (\<lambda>rq. \<not> creates_model rq)) (new_events w w') \<and>
            (\<forall>mr. e_manufacturer em = Some mr \<and> ref_id mr \<noteq> e_id mf \<longrightarrow>
               (case getOrCreateAssetCategory (nodeClass d) s1 w1 of
                  (Inl e, s0, w0) \<Rightarrow>
                    r = Inl e \<and> filter (\<lambda>rq. verb_of rq = PUT) (new_calls w w') = []
                | (Inr cat, s0, w0) \<Rightarrow>
                    filter (\<lambda>rq. verb_of rq = PUT) (new_calls w w') =
                      [model_update (e_id em) (model (system d)) (e_id mf) (e_id cat)] \<and>
                    list_all
                      (event_about
                         (\<lambda>rq. verb_of rq = PUT \<longrightarrow>
                                rq = model_update (e_id em) (model (system d)) (e_id mf)
                                       (e_id cat)))
                      (new_events w w')))"
      by (intro conjI)
  qed
  from one two three four five show ?thesis
    by (intro conjI)
qed

theorem C10_model_is_matched_by_lowercase_name_alone_witness:
  "syncModel (workstation ''PC-A'' ''SN1'') dell unindexed new_SnipeService finding =
     (Inr optiplex,
      unindexed\<lparr>modelsByName := [(''optiplex'', optiplex)]\<rparr>,
      new_SnipeService\<lparr>categoryCache := [(''windows workstations'', workstations)],
                        lastRequestTime := 7030\<rparr>,
      rebound) \<and>
   map_of (modelsByName unindexed) (toLowerCase (model (system (workstation ''PC-A'' ''SN1'')))) =
     None \<and>
   rateLimitedRequest
       (Request GET (Search Models (model (system (workstation ''PC-A'' ''SN1'')))) [])
       new_SnipeService finding =
     (Inr (rows_body [optiplex_7090, optiplex_of_hp]),
      new_SnipeService\<lparr>lastRequestTime := 5010\<rparr>,
      \<lparr> clock = 5010,
        script = [(10, Ok (rows_body [workstations])), (10, Ok (envelope optiplex))],
        events = [Sent (Request GET (Search Models ''OptiPlex'') [])
                    (Ok (rows_body [optiplex_7090, optiplex_of_hp]))] \<rparr>) \<and>
   b_rows (rows_body [optiplex_7090, optiplex_of_hp]) =
     Some ([optiplex_7090] @ optiplex_of_hp # []) \<and>
   e_name optiplex_7090 = Val ''OptiPlex 7090'' \<and>
   toLowerCase ''OptiPlex 7090'' \<noteq> toLowerCase (model (system (workstation ''PC-A'' ''SN1''))) \<and>
   e_name optiplex_of_hp = Val ''OptiPlex'' \<and>
   toLowerCase ''OptiPlex'' = toLowerCase (model (system (workstation ''PC-A'' ''SN1''))) \<and>
   e_manufacturer optiplex_of_hp = Some \<lparr>ref_id = Val 4, ref_name = Val ''HP''\<rparr> \<and>
   ref_id \<lparr>ref_id = Val 4, ref_name = Val ''HP''\<rparr> \<noteq> e_id dell \<and>
   distinct (map fst (modelsByName unindexed)) \<and>
   distinct (map fst (modelsByName (unindexed\<lparr>modelsByName := [(''optiplex'', optiplex)]\<rparr>))) \<and>
   list_all (event_about (\<lambda>rq. \<not> creates_model rq)) (new_events finding rebound) \<and>
   filter (\<lambda>rq. verb_of rq = PUT) (new_calls finding rebound) =
     [Request PUT (Item Models (Val 5))
        [(''name'', JString ''OptiPlex''), (''manufacturer_id'', JNumber 3),
         (''category_id'', JNumber 2), (''model_number'', JString ''OptiPlex'')]] \<and>
   fst (getOrCreateModel ''OptiPlex'' (Val 3) ''WINDOWS_WORKSTATION'' new_SnipeService searching) =
     Inr optiplex \<and>
   model_differs optiplex_of_hp workstations (Val 3) = Inr True \<and>
   filter (\<lambda>rq. verb_of rq = PUT)
     (new_calls searching
        (snd (snd (getOrCreateModel ''OptiPlex'' (Val 3) ''WINDOWS_WORKSTATION''
                     new_SnipeService searching)))) =
     [Request PUT (Item Models (Val 5))
        [(''name'', JString ''OptiPlex''), (''manufacturer_id'', JNumber 3),
         (''category_id'', JNumber 2), (''model_number'', JString ''OptiPlex'')]]"
proof -
  have run: "syncModel (workstation ''PC-A'' ''SN1'') dell unindexed new_SnipeService finding =
     (Inr optiplex,
      unindexed\<lparr>modelsByName := [(''optiplex'', optiplex)]\<rparr>,
      new_SnipeService\<lparr>categoryCache := [(''windows workstations'', workstations)],
                        lastRequestTime := 7030\<rparr>,
      rebound)"
    by code_simp
  have a: "map_of (modelsByName unindexed)
             (toLowerCase (model (system (workstation ''PC-A'' ''SN1'')))) = None"
    by code_simp
  have b: "rateLimitedRequest
       (Request GET (Search Models (model (system (workstation ''PC-A'' ''SN1'')))) [])
       new_SnipeService finding =
     (Inr (rows_body [optiplex_7090, optiplex_of_hp]),
      new_SnipeService\<lparr>lastRequestTime := 5010\<rparr>,
      \<lparr> clock = 5010,
        script = [(10, Ok (rows_body [workstations])), (10, Ok (envelope optiplex))],
        events = [Sent (Request GET (Search Models ''OptiPlex'') [])
                    (Ok (rows_body [optiplex_7090, optiplex_of_hp]))] \<rparr>)"
    by code_simp
  have c: "b_rows (rows_body [optiplex_7090, optiplex_of_hp]) =
             Some ([optiplex_7090] @ optiplex_of_hp # [])"
    by (simp add: rows_body_def)
  have n1: "e_name optiplex_7090 = Val ''OptiPlex 7090''"
    by code_simp
  have n2: "toLowerCase ''OptiPlex 7090'' \<noteq>
              toLowerCase (model (system (workstation ''PC-A'' ''SN1'')))"
    by code_simp
  have pre: "\<forall>x\<in>set [optiplex_7090]. \<exists>k. e_name x = Val k \<and>
               toLowerCase k \<noteq> toLowerCase (model (system (workstation ''PC-A'' ''SN1'')))"
    using n1 n2 by simp
  have n3: "e_name optiplex_of_hp = Val ''OptiPlex''"
    by code_simp
  have n4: "toLowerCase ''OptiPlex'' = toLowerCase (model (system (workstation ''PC-A'' ''SN1'')))"
    by code_simp
  have e: "e_manufacturer optiplex_of_hp = Some \<lparr>ref_id = Val 4, ref_name = Val ''HP''\<rparr>"
    by code_simp
  have f: "ref_id \<lparr>ref_id = Val 4, ref_name = Val ''HP''\<rparr> \<noteq> e_id dell"
    by (simp add: dell_def no_entity_def)
  have g: "distinct (map fst (modelsByName unindexed))"
    by (simp add: unindexed_def)
  have cat0: "fst (getOrCreateAssetCategory (nodeClass (workstation ''PC-A'' ''SN1''))
                    (new_SnipeService\<lparr>lastRequestTime := 5010\<rparr>)
                    \<lparr> clock = 5010,
                      script = [(10, Ok (rows_body [workstations])), (10, Ok (envelope optiplex))],
                      events = [Sent (Request GET (Search Models ''OptiPlex'') [])
                                  (Ok (rows_body [optiplex_7090, optiplex_of_hp]))] \<rparr>) =
              Inr workstations"
    by code_simp
  obtain s0 w0 where cat:
    "getOrCreateAssetCategory (nodeClass (workstation ''PC-A'' ''SN1''))
       (new_SnipeService\<lparr>lastRequestTime := 5010\<rparr>)
       \<lparr> clock = 5010,
         script = [(10, Ok (rows_body [workstations])), (10, Ok (envelope optiplex))],
         events = [Sent (Request GET (Search Models ''OptiPlex'') [])
                     (Ok (rows_body [optiplex_7090, optiplex_of_hp]))] \<rparr> =
     (Inr workstations, s0, w0)"
    using cat0 by (metis prod.collapse)
  have put: "model_update (e_id optiplex_of_hp) (model (system (workstation ''PC-A'' ''SN1'')))
               (e_id dell) (e_id workstations) =
             Request PUT (Item Models (Val 5))
               [(''name'', JString ''OptiPlex''), (''manufacturer_id'', JNumber 3),
                (''category_id'', JNumber 2), (''model_number'', JString ''OptiPlex'')]"
    by code_simp
  note T = C10_model_is_matched_by_lowercase_name_alone[OF run]
  have i: "distinct (map fst (modelsByName
             (unindexed\<lparr>modelsByName := [(''optiplex'', optiplex)]\<rparr>)))"
    using T[THEN conjunct1] g by simp
  have found: "list_all (event_about (\<lambda>rq. \<not> creates_model rq)) (new_events finding rebound) \<and>
     (\<forall>mr. e_manufacturer optiplex_of_hp = Some mr \<and> ref_id mr \<noteq> e_id dell \<longrightarrow>
        (case getOrCreateAssetCategory (nodeClass (workstation ''PC-A'' ''SN1''))
                (new_SnipeService\<lparr>lastRequestTime := 5010\<rparr>)
                \<lparr> clock = 5010,
                  script = [(10, Ok (rows_body [workstations])), (10, Ok (envelope optiplex))],
                  events = [Sent (Request GET (Search Models ''OptiPlex'') [])
                              (Ok (rows_body [optiplex_7090, optiplex_of_hp]))] \<rparr> of
           (Inl e, s0, w0) \<Rightarrow>
             Inr optiplex = Inl e \<and>
             filter (\<lambda>rq. verb_of rq = PUT) (new_calls finding rebound) = []
         | (Inr cat, s0, w0) \<Rightarrow>
             filter (\<lambda>rq. verb_of rq = PUT) (new_calls finding rebound) =
               [model_update (e_id optiplex_of_hp)
                  (model (system (workstation ''PC-A'' ''SN1''))) (e_id dell) (e_id cat)] \<and>
             list_all
               (event_about
                  (\<lambda>rq. verb_of rq = PUT \<longrightarrow>
                         rq = model_update (e_id optiplex_of_hp)
                                (model (system (workstation ''PC-A'' ''SN1''))) (e_id dell)
                                (e_id cat)))
               (new_events finding rebound)))"
    using T[THEN conjunct2, THEN conjunct2, THEN conjunct2, THEN conjunct1, rule_format,
        of "rows_body [optiplex_7090, optiplex_of_hp]" _ _ "[optiplex_7090]" optiplex_of_hp "[]"
           "''OptiPlex''"]
      a b c pre n3 n4
    by simp
  have j: "list_all (event_about (\<lambda>rq. \<not> creates_model rq)) (new_events finding rebound)"
    using found by simp
  have "filter (\<lambda>rq. verb_of rq = PUT) (new_calls finding rebound) =
          [model_update (e_id optiplex_of_hp)
             (model (system (workstation ''PC-A'' ''SN1''))) (e_id dell) (e_id workstations)]"
    using found[THEN conjunct2, rule_format, of "\<lparr>ref_id = Val 4, ref_name = Val ''HP''\<rparr>"] e f
    unfolding cat by simp
  then have h: "filter (\<lambda>rq. verb_of rq = PUT) (new_calls finding rebound) =
     [Request PUT (Item Models (Val 5))
        [(''name'', JString ''OptiPlex''), (''manufacturer_id'', JNumber 3),
         (''category_id'', JNumber 2), (''model_number'', JString ''OptiPlex'')]]"
    unfolding put .
  have k: "fst (getOrCreateModel ''OptiPlex'' (Val 3) ''WINDOWS_WORKSTATION''
                  new_SnipeService searching) = Inr optiplex"
    by code_simp
  have k1: "getOrCreateAssetCategory ''WINDOWS_WORKSTATION'' new_SnipeService searching =
              (Inr workstations,
               new_SnipeService\<lparr>categoryCache := [(''windows workstations'', workstations)],
                                 lastRequestTime := 5010\<rparr>,
               \<lparr> clock = 5010,
                 script = [(10, Ok (rows_body [optiplex_7090, optiplex_of_hp])),
                           (10, Ok (envelope optiplex))],
                 events = [Sent (Request GET (Collection Categories) [])
                             (Ok (rows_body [workstations]))] \<rparr>)"
    by code_simp
  have k2: "fst (rateLimitedRequest (Request GET (Search Models ''OptiPlex'') [])
                   (new_SnipeService\<lparr>categoryCache := [(''windows workstations'', workstations)],
                                     lastRequestTime := 5010\<rparr>)
                   \<lparr> clock = 5010,
                     script = [(10, Ok (rows_body [optiplex_7090, optiplex_of_hp])),
                               (10, Ok (envelope optiplex))],
                     events = [Sent (Request GET (Collection Categories) [])
                                 (Ok (rows_body [workstations]))] \<rparr>) =
              Inr (rows_body [optiplex_7090, optiplex_of_hp])"
    by code_simp
  obtain sd wd where k3:
    "rateLimitedRequest (Request GET (Search Models ''OptiPlex'') [])
       (new_SnipeService\<lparr>categoryCache := [(''windows workstations'', workstations)],
                         lastRequestTime := 5010\<rparr>)
       \<lparr> clock = 5010,
         script = [(10, Ok (rows_body [optiplex_7090, optiplex_of_hp])),
                   (10, Ok (envelope optiplex))],
         events = [Sent (Request GET (Collection Categories) [])
                     (Ok (rows_body [workstations]))] \<rparr> =
     (Inr (rows_body [optiplex_7090, optiplex_of_hp]), sd, wd)"
    using k2 by (metis prod.collapse)
  obtain sb wb where k4: "getOrCreateModel ''OptiPlex'' (Val 3) ''WINDOWS_WORKSTATION''
                            new_SnipeService searching = (Inr optiplex, sb, wb)"
    using k by (metis prod.collapse)
  have n2': "toLowerCase ''OptiPlex 7090'' \<noteq> toLowerCase ''OptiPlex''"
    by code_simp
  have pre': "\<forall>x\<in>set [optiplex_7090]. \<exists>k. e_name x = Val k \<and>
               toLowerCase k \<noteq> toLowerCase ''OptiPlex''"
    using n1 n2' by simp
  have k5: "''OptiPlex'' \<noteq> []"
    by simp
  have k6: "model_differs optiplex_of_hp workstations (Val 3) = Inr True"
    by code_simp
  have put': "model_update (e_id optiplex_of_hp) ''OptiPlex'' (Val 3) (e_id workstations) =
              Request PUT (Item Models (Val 5))
                [(''name'', JString ''OptiPlex''), (''manufacturer_id'', JNumber 3),
                 (''category_id'', JNumber 2), (''model_number'', JString ''OptiPlex'')]"
    by code_simp
  have "filter (\<lambda>rq. verb_of rq = PUT) (new_calls searching wb) =
          [model_update (e_id optiplex_of_hp) ''OptiPlex'' (Val 3) (e_id workstations)]"
    using T[THEN conjunct2, THEN conjunct2, THEN conjunct2, THEN conjunct2, rule_format,
        of "''OptiPlex''" "Val 3" "''WINDOWS_WORKSTATION''" new_SnipeService searching
           "Inr optiplex" sb wb workstations _ _ "rows_body [optiplex_7090, optiplex_of_hp]"
           sd wd "[optiplex_7090]" optiplex_of_hp "[]" "''OptiPlex''"]
      k4 k5 k1 k3 c pre' n3 k6
    by simp
  then have m: "filter (\<lambda>rq. verb_of rq = PUT)
     (new_calls searching
        (snd (snd (getOrCreateModel ''OptiPlex'' (Val 3) ''WINDOWS_WORKSTATION''
                     new_SnipeService searching)))) =
     [Request PUT (Item Models (Val 5))
        [(''name'', JString ''OptiPlex''), (''manufacturer_id'', JNumber 3),
         (''category_id'', JNumber 2), (''model_number'', JString ''OptiPlex'')]]"
    using k4 unfolding put' by simp
  from run a b c n1 n2 n3 n4 e f g i j h k k6 m show ?thesis
    by (intro conjI)
qed

section \<open>A run\<close>

lemma syncManufacturer_sends:
  assumes "syncManufacturer d l s w = (r, l1, s1, w1)"
  shows "sends run_request w w1"
proof (cases "map_of (manufacturersByName l) (toLowerCase (manufacturer (system d)))")
  case (Some m)
  then show ?thesis
    using assms by (simp add: syncManufacturer_def sends_refl)
next
  case None
  obtain r0 s0 w0 where c: "createManufacturer (manufacturer (system d)) s w = (r0, s0, w0)"
    by (metis prod_cases3)
  have "w1 = w0"
    using assms None c by (auto simp: syncManufacturer_def split: sum.splits)
  moreover have "sends run_request w w0"
    using createManufacturer_gate[OF c] gate_sends[where Q = run_request]
    by (fastforce simp: run_request_def)
  ultimately show ?thesis
    by simp
qed

lemma syncAsset_sends:
  assumes "syncAsset d m mf l s w = (r, s1, w1)"
  shows "sends run_request w w1"
proof (cases "map_of (assetsBySerial l) (toLowerCase (serialNumber (system d)))")
  case None
  obtain r0 s0 w0 where g:
    "rateLimitedRequest
       (Request POST (Collection Hardware) (createAssetData (clock w) d m mf)) s w = (r0, s0, w0)"
    by (metis prod_cases3)
  have "w1 = w0"
    using assms None g by (auto simp: syncAsset_def split: sum.splits)
  moreover have "sends run_request w w0"
    by (rule gate_sends[OF g]) (simp add: run_request_def resource_of_def)
  ultimately show ?thesis
    by simp
next
  case (Some a)
  show ?thesis
  proof (cases "getChangedFields (clock w) d a m mf")
    case (Inl e)
    then show ?thesis
      using assms Some by (simp add: syncAsset_def sends_refl)
  next
    case (Inr cf)
    obtain r0 s0 w0 where g:
      "rateLimitedRequest (Request PATCH (Item Hardware (e_id a)) cf) s w = (r0, s0, w0)"
      by (metis prod_cases3)
    have "w1 = w0"
      using assms g by (auto simp: syncAsset_matched[OF Some Inr] split: sum.splits)
    moreover have "sends run_request w w0"
      by (rule gate_sends[OF g]) (simp add: run_request_def resource_of_def)
    ultimately show ?thesis
      by simp
  qed
qed

lemma syncDeviceWithCache_sends:
  assumes "syncDeviceWithCache d l s w = (r, l', s', w')"
  shows "sends run_request w w'"
proof -
  obtain r1 l1 s1 w1 where a: "syncManufacturer d l s w = (r1, l1, s1, w1)"
    by (metis prod_cases4)
  note sa = syncManufacturer_sends[OF a]
  show ?thesis
  proof (cases r1)
    case (Inl e)
    then show ?thesis
      using assms a sa by (simp add: syncDeviceWithCache_def)
  next
    case (Inr mf)
    obtain r2 l2 s2 w2 where b: "syncModel d mf l1 s1 w1 = (r2, l2, s2, w2)"
      by (metis prod_cases4)
    have sb: "sends run_request w w2"
      using sa syncModel_sends[OF b] by (rule sends_trans)
    show ?thesis
    proof (cases r2)
      case (Inl e)
      then show ?thesis
        using assms a Inr b sb by (simp add: syncDeviceWithCache_def)
    next
      case m: (Inr m)
      obtain r3 s3 w3 where c: "syncAsset d m mf l2 s2 w2 = (r3, s3, w3)"
        by (metis prod_cases3)
      have "w' = w3"
        using assms a Inr b m c by (auto simp: syncDeviceWithCache_def split: sum.splits)
      then show ?thesis
        using sb syncAsset_sends[OF c] sends_trans by blast
    qed
  qed
qed

lemma sync_each_sends:
  "sync_each ds l s w = (l', s', w') \<Longrightarrow> sends run_request w w'"
proof (induction ds arbitrary: l s w)
  case Nil
  then show ?case
    by (simp add: sends_refl)
next
  case (Cons d ds)
  obtain r1 l1 s1 w1 where a: "syncDeviceWithCache d l s w = (r1, l1, s1, w1)"
    by (metis prod_cases4)
  note sa = syncDeviceWithCache_sends[OF a]
  show ?case
  proof (cases r1)
    case (Inl e)
    then have "sync_each ds l1 s1
                 (w1\<lparr>events := events w1 @ [Logged_failure (serialNumber (system d)) e]\<rparr>) =
               (l', s', w')"
      using Cons.prems a by simp
    from Cons.IH[OF this] sa sends_log[of run_request w1] show ?thesis
      using sends_trans by blast
  next
    case (Inr u)
    then have "sync_each ds l1 s1 w1 = (l', s', w')"
      using Cons.prems a by simp
    from Cons.IH[OF this] sa show ?thesis
      using sends_trans by blast
  qed
qed

lemma listing_sends:
  assumes "rateLimitedRequest (Request GET (Collection res) []) s w = (r, s', w')"
  shows "sends run_request w w'"
  by (rule gate_sends[OF assms]) (cases res; simp add: run_request_def model_upkeep_def resource_of_def)

lemma syncDevices_sends:
  assumes "syncDevices devices s w = (r, s', w')"
  shows "sends run_request w w'"
proof -
  obtain r1 s1 w1 where a: "getCategories s w = (r1, s1, w1)"
    by (metis prod_cases3)
  have sa: "sends run_request w w1"
    using getCategories_gate[OF a] listing_sends by blast
  obtain r2 s2 w2 where b: "getManufacturers s1 w1 = (r2, s2, w2)"
    by (metis prod_cases3)
  have sb: "sends run_request w w2"
    using getManufacturers_gate[OF b] listing_sends sa sends_trans by blast
  obtain r3 s3 w3 where c: "getModels s2 w2 = (r3, s3, w3)"
    by (metis prod_cases3)
  have sc: "sends run_request w w3"
    using getModels_gate[OF c] listing_sends sb sends_trans by blast
  obtain r4 s4 w4 where d: "rateLimitedRequest (Request GET (Collection Hardware) []) s3 w3 =
                              (r4, s4, w4)"
    by (metis prod_cases3)
  have sd: "sends run_request w w4"
    using listing_sends[OF d] sc sends_trans by blast
  have "w' = w1 \<or> w' = w2 \<or> w' = w3 \<or> w' = w4 \<or>
        (\<exists>l0 l5 s5. sync_each devices l0 s4 w4 = (l5, s5, w'))"
    using assms a b c d
    by (auto simp: syncDevices_def split: sum.splits option.splits property.splits prod.splits)
  then show ?thesis
    using sa sb sc sd sync_each_sends sends_trans by blast
qed

lemma getOrCreateManufacturer_sends:
  assumes "getOrCreateManufacturer name s w = (r, s', w')"
  shows "sends run_request w w'"
proof -
  have "w' = w \<or> (\<exists>n r0 s0. createManufacturer n s w = (r0, s0, w'))"
    using assms by (auto simp: getOrCreateManufacturer_def Let_def split: option.splits property.splits)
  then show ?thesis
  proof
    assume "w' = w"
    then show ?thesis
      by (simp add: sends_refl)
  next
    assume "\<exists>n r0 s0. createManufacturer n s w = (r0, s0, w')"
    then obtain n r0 s0 where "createManufacturer n s w = (r0, s0, w')"
      by blast
    from createManufacturer_gate[OF this] show ?thesis
      using gate_sends[where Q = run_request] by (fastforce simp: run_request_def)
  qed
qed

lemma run_request_spares_manufacturers: "run_request rq \<Longrightarrow> \<not> mutates_manufacturer rq"
  by (auto simp: run_request_def model_upkeep_def mutates_manufacturer_def resource_of_def)

text \<open>
  C8: in a run of \<open>syncDevices\<close>, and in a call of \<open>getOrCreateManufacturer\<close>, whatever the
  devices and whatever the target system answers, no request on the wire (first attempt
  or retry) writes a manufacturer other than by creating it: every request about
  manufacturers is a GET or the POST to the manufacturers collection.
\<close>

theorem C8_manufacturers_are_only_created:
  "(syncDevices devices s w = (r, s', w') \<longrightarrow>
      events w' = events w @ new_events w w' \<and>
      list_all (event_about (\<lambda>rq. \<not> mutates_manufacturer rq)) (new_events w w')) \<and>
   (getOrCreateManufacturer name sa wa = (ra, sb, wb) \<longrightarrow>
      events wb = events wa @ new_events wa wb \<and>
      list_all (event_about (\<lambda>rq. \<not> mutates_manufacturer rq)) (new_events wa wb))"
proof -
  have "sends run_request x y \<Longrightarrow>
          events y = events x @ new_events x y \<and>
          list_all (event_about (\<lambda>rq. \<not> mutates_manufacturer rq)) (new_events x y)" for x y
    using sends_new_events[OF sends_mono[of run_request x y "\<lambda>rq. \<not> mutates_manufacturer rq"]]
      run_request_spares_manufacturers by blast
  then show ?thesis
    using syncDevices_sends getOrCreateManufacturer_sends by blast
qed

theorem C8_manufacturers_are_only_created_witness:
  "fst (syncDevices [workstation ''PC-A'' ''SN1''] new_SnipeService fresh_target) = Inr () \<and>
   map (\<lambda>rq. (verb_of rq, target_of rq))
     (calls (events (snd (snd
        (syncDevices [workstation ''PC-A'' ''SN1''] new_SnipeService fresh_target))))) =
     [(GET, Collection Categories), (GET, Collection Manufacturers), (GET, Collection Models),
      (GET, Collection Hardware), (POST, Collection Manufacturers),
      (GET, Search Models ''OptiPlex''), (GET, Collection Categories),
      (POST, Collection Categories), (POST, Collection Models), (POST, Collection Hardware)] \<and>
   list_all (event_about (\<lambda>rq. \<not> mutates_manufacturer rq))
     (new_events fresh_target
        (snd (snd (syncDevices [workstation ''PC-A'' ''SN1''] new_SnipeService fresh_target)))) \<and>
   fst (getOrCreateManufacturer ''Dell'' new_SnipeService fresh_target) = Inr no_entity \<and>
   list_all (event_about (\<lambda>rq. \<not> mutates_manufacturer rq))
     (new_events fresh_target
        (snd (snd (getOrCreateManufacturer ''Dell'' new_SnipeService fresh_target))))"
proof -
  have a: "fst (syncDevices [workstation ''PC-A'' ''SN1''] new_SnipeService fresh_target) = Inr ()"
    by code_simp
  have b: "map (\<lambda>rq. (verb_of rq, target_of rq))
     (calls (events (snd (snd
        (syncDevices [workstation ''PC-A'' ''SN1''] new_SnipeService fresh_target))))) =
     [(GET, Collection Categories), (GET, Collection Manufacturers), (GET, Collection Models),
      (GET, Collection Hardware), (POST, Collection Manufacturers),
      (GET, Search Models ''OptiPlex''), (GET, Collection Categories),
      (POST, Collection Categories), (POST, Collection Models), (POST, Collection Hardware)]"
    by code_simp
  have c: "fst (getOrCreateManufacturer ''Dell'' new_SnipeService fresh_target) = Inr no_entity"
    by code_simp
  have run: "syncDevices [workstation ''PC-A'' ''SN1''] new_SnipeService fresh_target =
     (Inr (),
      fst (snd (syncDevices [workstation ''PC-A'' ''SN1''] new_SnipeService fresh_target)),
      snd (snd (syncDevices [workstation ''PC-A'' ''SN1''] new_SnipeService fresh_target)))"
    using a by (metis prod.collapse)
  have get: "getOrCreateManufacturer ''Dell'' new_SnipeService fresh_target =
     (Inr no_entity,
      fst (snd (getOrCreateManufacturer ''Dell'' new_SnipeService fresh_target)),
      snd (snd (getOrCreateManufacturer ''Dell'' new_SnipeService fresh_target)))"
    using c by (metis prod.collapse)
  show ?thesis
    using a b c C8_manufacturers_are_only_created[of "[workstation ''PC-A'' ''SN1'']"
        new_SnipeService fresh_target "Inr ()" _ _ "''Dell''" new_SnipeService fresh_target
        "Inr no_entity"] run get
    by blast
qed

section \<open>The summary of a run\<close>

text \<open>
  C1, as stated, on a run over one workstation and a target system that rejects the
  creation of the manufacturer: the sync of the only device raises an error, which the
  loop logs, so no device was synced successfully; the summary still counts one device.
\<close>

theorem C1_counterexample:
  "processDevices [raw_workstation] = [workstation ''PC-A'' ''SN1''] \<and>
   fst (getDevices_handler (Inr [raw_workstation]) refusing) = Inr 1 \<and>
   failures (events (snd (getDevices_handler (Inr [raw_workstation]) refusing))) = [''SN1''] \<and>
   last (events (snd (getDevices_handler (Inr [raw_workstation]) refusing))) =
     Logged_failure ''SN1'' (HttpError (Some 500))"
  by code_simp

text \<open>
  C1, amended: for every run that completes, the count in the returned summary is the
  number of devices that the source client kept (the raw records that are neither guest
  VMs nor cloud-monitor targets) and handed to the sync, whether the sync of each of
  them succeeded or raised an error.
\<close>

theorem C1_summary_counts_the_processed_devices:
  assumes "getDevices_handler fetched w = (Inr n, w')"
  shows "\<exists>devices. fetched = Inr devices \<and>
           n = length (processDevices devices) \<and>
           n = length (filter (\<lambda>d. raw_nodeClass d \<noteq> ''VMWARE_VM_GUEST'' \<and>
                                    raw_nodeClass d \<noteq> ''CLOUD_MONITOR_TARGET'') devices)"
proof (cases fetched)
  case (Inl e)
  then show ?thesis
    using assms by (simp add: getDevices_handler_def)
next
  case (Inr devices)
  obtain r s1 w1 where run: "syncDevices (processDevices devices) new_SnipeService w = (r, s1, w1)"
    by (metis prod_cases3)
  have "n = length (processDevices devices)"
    using assms Inr run by (auto simp: getDevices_handler_def Let_def split: sum.splits)
  then show ?thesis
    using Inr by (simp add: processDevices_def)
qed

theorem C1_summary_counts_the_processed_devices_witness:
  "fst (getDevices_handler (Inr [raw_workstation, raw_guest]) fresh_target) = Inr 1 \<and>
   length (processDevices [raw_workstation, raw_guest]) = 1 \<and>
   failures (events (snd (getDevices_handler (Inr [raw_workstation, raw_guest]) fresh_target))) = []"
proof -
  have a: "fst (getDevices_handler (Inr [raw_workstation, raw_guest]) fresh_target) = Inr 1"
    by code_simp
  have b: "failures (events (snd (getDevices_handler (Inr [raw_workstation, raw_guest])
             fresh_target))) = []"
    by code_simp
  have run: "getDevices_handler (Inr [raw_workstation, raw_guest]) fresh_target =
               (Inr 1, snd (getDevices_handler (Inr [raw_workstation, raw_guest]) fresh_target))"
    using a by (metis prod.collapse)
  show ?thesis
    using a b C1_summary_counts_the_processed_devices[OF run] by auto
qed

end
